(* ===== verification/Prelude.thy ===== *)
theory Prelude
  imports Main
    "HOL-Library.List_Lexorder"
    "HOL-Library.Char_ord"
    "HOL-Library.Product_Lexorder"
    "HOL-Library.Sublist"
    "HOL-Library.Multiset"
begin

text \<open>
  Shared vocabulary of the to-do application model: the names of the model's basic
  types, the theorem collections the component theories fill, and the generic facts on
  lists kept sorted by a key (the shape of an IndexedDB object store) and on
  key-directed list updates (the shape of React's \<open>prevTasks.map\<close> and
  \<open>prevTasks.filter\<close> updates) that several components share.
\<close>

type_synonym ident = string

named_theorems store_simps "characteristic equations of the object-store operations"
named_theorems handler_simps "equations of the event handlers of the Home component"

subsection \<open>Lists sorted and keyed by a key function\<close>

definition keyed :: "('v \<Rightarrow> 'k::linorder) \<Rightarrow> 'v list \<Rightarrow> bool" where
  "keyed kp s \<longleftrightarrow> sorted (map kp s) \<and> distinct (map kp s)"

lemma keyed_Nil [simp]: "keyed kp []"
  by (simp add: keyed_def)

lemma keyed_filter [intro]: "keyed kp s \<Longrightarrow> keyed kp (filter P s)"
  unfolding keyed_def by (simp add: sorted_filter distinct_map_filter)

lemma keyed_insort [intro]:
  "keyed kp s \<Longrightarrow> kp v \<notin> kp ` set s \<Longrightarrow> keyed kp (insort_key kp v s)"
  unfolding keyed_def by (simp add: sorted_insort_key distinct_insort_key)

lemma keyed_key_unique:
  "keyed kp s \<Longrightarrow> v \<in> set s \<Longrightarrow> w \<in> set s \<Longrightarrow> kp v = kp w \<Longrightarrow> v = w"
  unfolding keyed_def by (metis distinct_map inj_onD)

lemma find_key_Some:
  "find (\<lambda>w. kp w = k) s = Some v \<Longrightarrow> v \<in> set s \<and> kp v = k"
  by (auto simp: find_Some_iff)

lemma find_key_None:
  "find (\<lambda>w. kp w = k) s = None \<longleftrightarrow> k \<notin> kp ` set s"
  by (auto simp: find_None_iff)

lemma find_key_keyed:
  "keyed kp s \<Longrightarrow> v \<in> set s \<Longrightarrow> find (\<lambda>w. kp w = kp v) s = Some v"
proof (cases "find (\<lambda>w. kp w = kp v) s")
  case None
  moreover assume "v \<in> set s"
  ultimately show ?thesis by (simp add: find_key_None)
next
  case (Some w)
  moreover assume "keyed kp s" and "v \<in> set s"
  ultimately show ?thesis using find_key_Some keyed_key_unique by metis
qed

subsection \<open>Key-directed updates of a list\<close>

text \<open>
  \<open>replace_key kp k v xs\<close> is the JavaScript
  \<open>xs.map(x => (x.id === k ? v : x))\<close>; \<open>drop_key kp k xs\<close> is
  \<open>xs.filter(x => x.id !== k)\<close>.
\<close>

definition replace_key :: "('v \<Rightarrow> 'k) \<Rightarrow> 'k \<Rightarrow> 'v \<Rightarrow> 'v list \<Rightarrow> 'v list" where
  "replace_key kp k v xs = map (\<lambda>x. if kp x = k then v else x) xs"

definition drop_key :: "('v \<Rightarrow> 'k) \<Rightarrow> 'k \<Rightarrow> 'v list \<Rightarrow> 'v list" where
  "drop_key kp k xs = filter (\<lambda>x. kp x \<noteq> k) xs"

lemma replace_key_Nil [simp]: "replace_key kp k v [] = []"
  and replace_key_Cons [simp]:
    "replace_key kp k v (x # xs) = (if kp x = k then v else x) # replace_key kp k v xs"
  by (simp_all add: replace_key_def)

lemma drop_key_Nil [simp]: "drop_key kp k [] = []"
  and drop_key_Cons [simp]:
    "drop_key kp k (x # xs) = (if kp x = k then drop_key kp k xs else x # drop_key kp k xs)"
  by (simp_all add: drop_key_def)

lemma keys_replace_key:
  "kp v = k \<Longrightarrow> map kp (replace_key kp k v xs) = map kp xs"
  by (induction xs) auto

lemma set_drop_key [simp]: "set (drop_key kp k xs) = {x \<in> set xs. kp x \<noteq> k}"
  by (auto simp: drop_key_def)

lemma set_replace_key_sub:
  "set (replace_key kp k v xs) \<subseteq> {x \<in> set xs. kp x \<noteq> k} \<union> {v}"
  by (induction xs) auto

lemma keys_replace_key_rename:
  "map kp (replace_key kp k v xs) = map (\<lambda>x. if x = k then kp v else x) (map kp xs)"
  by (induction xs) auto

lemma rename_not_distinct:
  "i \<in> set ys \<Longrightarrow> j \<in> set ys \<Longrightarrow> i \<noteq> j \<Longrightarrow> \<not> distinct (map (\<lambda>x. if x = i then j else x) ys)"
  by (auto simp: distinct_map inj_on_def)

lemma replace_key_absent:
  "k \<notin> kp ` set xs \<Longrightarrow> replace_key kp k v xs = xs"
  by (induction xs) auto

lemma drop_key_absent:
  "k \<notin> kp ` set xs \<Longrightarrow> drop_key kp k xs = xs"
  by (induction xs) auto

lemma distinct_keys_drop_key [intro]:
  "distinct (map kp xs) \<Longrightarrow> distinct (map kp (drop_key kp k xs))"
  by (simp add: drop_key_def distinct_map_filter)

subsection \<open>Results\<close>

lemma map_sum_snd_Inr: "map_sum id snd x = Inr d \<longleftrightarrow> (\<exists>r. x = Inr (r, d))"
  by (cases x) auto

subsection \<open>Searching a list by key\<close>

lemma find_insort_other: "\<not> P v \<Longrightarrow> find P (insort_key f v s) = find P s"
  by (induction s) auto

lemma find_insort_fresh: "find P s = None \<Longrightarrow> P v \<Longrightarrow> find P (insort_key f v s) = Some v"
  by (induction s) auto

lemma find_drop_key:
  "find (\<lambda>w. kp w = k') (drop_key kp k s) = (if k' = k then None else find (\<lambda>w. kp w = k') s)"
  by (induction s) auto

lemma map_of_keyed_find:
  "map_of (map (\<lambda>v. (kp v, v)) s) k = find (\<lambda>v. kp v = k) s"
  by (induction s) auto

lemma sorted_key_before:
  assumes "sorted (map kp xs)" and "x \<in> set xs" and "y \<in> set xs" and "kp x < kp y"
  shows "\<exists>us vs ws. xs = us @ x # vs @ y # ws"
  using assms
proof (induction xs)
  case (Cons z zs)
  show ?case
  proof (cases "x = z")
    case True
    with Cons.prems(3,4) have "y \<in> set zs" by auto
    then obtain vs ws where "zs = vs @ y # ws" by (meson split_list)
    with True show ?thesis by (metis append_Nil)
  next
    case False
    with Cons.prems(2) have x: "x \<in> set zs" by simp
    with Cons.prems(1) have "kp z \<le> kp x" by simp
    with Cons.prems(4) have "y \<noteq> z" by auto
    with Cons.prems(3) have "y \<in> set zs" by simp
    with Cons.IH Cons.prems(1,4) x obtain us vs ws where "zs = us @ x # vs @ y # ws" by auto
    then show ?thesis by (metis append_Cons)
  qed
qed simp

end
