(* ===== verification/Model.thy ===== *)
theory Model
  imports Prelude
begin

text \<open>
  The data model shared by every component: the \<open>Task\<close> and \<open>Category\<close> interfaces of
  \<open>src/app/page.tsx\<close> (repeated in \<open>TaskItem.tsx\<close> and \<open>CategoryManager.tsx\<close>),
  the colour palette \<open>PRESET_COLORS\<close>, the \<open>SortOption\<close> union, the status filter
  values of the filter select, and the loosely typed update payloads
  (\<open>Partial<Task>\<close>, \<open>Partial<Category>\<close>) with the object-spread merge
  \<open>{ ...task, ...updates }\<close> that the store and the handlers apply to them.
  \<open>Omit<Task, "id">\<close> is the record \<open>NewTask\<close>; \<open>Task\<close> extends it with the
  identifier, so that \<open>{ ...task, id }\<close> is a record extension.
\<close>

subsection \<open>Tasks\<close>

record NewTask =
  title :: string
  description :: string
  category :: ident
  dueDate :: string
  completed :: bool

record Task = NewTask +
  task_id :: ident

definition with_task_id :: "NewTask \<Rightarrow> ident \<Rightarrow> Task" where
  "with_task_id t i =
     \<lparr>title = title t, description = description t, category = category t,
      dueDate = dueDate t, completed = completed t, task_id = i\<rparr>"

text \<open>\<open>Partial<Task>\<close>: a field is \<open>None\<close> when the payload does not carry it.\<close>

record TaskPatch =
  upd_id :: "ident option"
  upd_title :: "string option"
  upd_description :: "string option"
  upd_category :: "ident option"
  upd_dueDate :: "string option"
  upd_completed :: "bool option"

definition spread :: "'a \<Rightarrow> 'a option \<Rightarrow> 'a" where
  "spread x u = (case u of None \<Rightarrow> x | Some v \<Rightarrow> v)"

definition merge_task :: "Task \<Rightarrow> TaskPatch \<Rightarrow> Task" where
  "merge_task t u =
     \<lparr>title = spread (title t) (upd_title u),
      description = spread (description t) (upd_description u),
      category = spread (category t) (upd_category u),
      dueDate = spread (dueDate t) (upd_dueDate u),
      completed = spread (completed t) (upd_completed u),
      task_id = spread (task_id t) (upd_id u)\<rparr>"

definition no_task_patch :: TaskPatch where
  "no_task_patch =
     \<lparr>upd_id = None, upd_title = None, upd_description = None, upd_category = None,
      upd_dueDate = None, upd_completed = None\<rparr>"

text \<open>The payload of a whole task, as \<open>TaskItem\<close> sends it (\<open>{ ...task, ... }\<close>).\<close>

definition full_patch :: "Task \<Rightarrow> TaskPatch" where
  "full_patch t =
     \<lparr>upd_id = Some (task_id t), upd_title = Some (title t),
      upd_description = Some (description t), upd_category = Some (category t),
      upd_dueDate = Some (dueDate t), upd_completed = Some (completed t)\<rparr>"

subsection \<open>Categories\<close>

datatype PresetColor = Red | Green | Blue | Purple | Orange | Teal

fun preset_hex :: "PresetColor \<Rightarrow> string" where
  "preset_hex Red = ''#FF6B6B''"
| "preset_hex Green = ''#4ECB71''"
| "preset_hex Blue = ''#4A9FFF''"
| "preset_hex Purple = ''#9B6DFF''"
| "preset_hex Orange = ''#FFB84D''"
| "preset_hex Teal = ''#4FD1C5''"

record NewCategory =
  name :: string
  color :: PresetColor

record Category = NewCategory +
  cat_id :: ident

definition with_cat_id :: "NewCategory \<Rightarrow> ident \<Rightarrow> Category" where
  "with_cat_id c i = \<lparr>name = name c, color = color c, cat_id = i\<rparr>"

record CategoryPatch =
  cupd_id :: "ident option"
  cupd_name :: "string option"
  cupd_color :: "PresetColor option"

definition merge_category :: "Category \<Rightarrow> CategoryPatch \<Rightarrow> Category" where
  "merge_category c u =
     \<lparr>name = spread (name c) (cupd_name u), color = spread (color c) (cupd_color u),
      cat_id = spread (cat_id c) (cupd_id u)\<rparr>"

subsection \<open>View options\<close>

datatype SortOption = SortNone | DaysAsc | DaysDesc | AlphaAsc | AlphaDesc

datatype StatusFilter = FilterAll | FilterActive | FilterCompleted

datatype Language = En | Fa

subsection \<open>Sample records\<close>

text \<open>The two tasks of the scenarios of the specification, before an identifier is assigned.\<close>

abbreviation buy_milk :: NewTask where
  "buy_milk \<equiv> \<lparr>title = ''Buy milk'', description = [], category = [],
     dueDate = ''2099-01-01'', completed = False\<rparr>"

abbreviation pay_rent :: NewTask where
  "pay_rent \<equiv> \<lparr>title = ''Pay rent'', description = [], category = [],
     dueDate = [], completed = True\<rparr>"

abbreviation work_cat :: NewCategory where
  "work_cat \<equiv> \<lparr>name = ''Work'', color = Blue\<rparr>"

subsection \<open>Facts on the merge\<close>

lemma spread_simps [simp]: "spread x None = x" "spread x (Some v) = v"
  by (simp_all add: spread_def)

lemma task_id_merge_task:
  "upd_id u = None \<or> upd_id u = Some (task_id t) \<Longrightarrow> task_id (merge_task t u) = task_id t"
  by (auto simp: merge_task_def)

lemma merge_no_task_patch [simp]: "merge_task t no_task_patch = t"
  by (simp add: merge_task_def no_task_patch_def)

lemma merge_full_patch [simp]: "merge_task t (full_patch t') = t'"
  by (simp add: merge_task_def full_patch_def)

lemma merge_title_only: "merge_task t (no_task_patch\<lparr>upd_title := Some v\<rparr>) = t\<lparr>title := v\<rparr>"
  by (simp add: merge_task_def no_task_patch_def)

lemma cat_id_merge_category:
  "cupd_id u = None \<or> cupd_id u = Some (cat_id c) \<Longrightarrow> cat_id (merge_category c u) = cat_id c"
  by (auto simp: merge_category_def)

end
