(* ===== verification/ObjectStore.thy ===== *)
theory ObjectStore
  imports Prelude
begin

text \<open>
  An IndexedDB object store created with \<open>{ keyPath: "id" }\<close>, as \<open>src/app/lib/db.ts\<close>
  creates its stores \<open>"tasks"\<close> and \<open>"categories"\<close> in \<open>initDB\<close>. The store is
  modelled from the IndexedDB standard (the \<open>idb\<close> wrapper adds promises only): the
  key of a record is read from the record through the key path \<open>kp\<close>; records are kept
  in key order, which is the order \<open>getAll\<close> returns; \<open>add\<close> refuses a key that is
  present (a \<open>ConstraintError\<close>, here \<open>None\<close>); \<open>put\<close> inserts or overwrites;
  \<open>delete\<close> of an absent key does nothing. The abstraction \<open>os_lookup\<close> reads the
  store as a finite map from keys to records, and each operation is shown to implement
  the corresponding map operation.
\<close>

type_synonym 'v objstore = "'v list"

definition os_get :: "('v \<Rightarrow> 'k) \<Rightarrow> 'k \<Rightarrow> 'v objstore \<Rightarrow> 'v option" where
  "os_get kp k s = find (\<lambda>v. kp v = k) s"

definition os_add :: "('v \<Rightarrow> 'k::linorder) \<Rightarrow> 'v \<Rightarrow> 'v objstore \<Rightarrow> 'v objstore option" where
  "os_add kp v s = (if os_get kp (kp v) s = None then Some (insort_key kp v s) else None)"

definition os_put :: "('v \<Rightarrow> 'k::linorder) \<Rightarrow> 'v \<Rightarrow> 'v objstore \<Rightarrow> 'v objstore" where
  "os_put kp v s = insort_key kp v (drop_key kp (kp v) s)"

definition os_delete :: "('v \<Rightarrow> 'k) \<Rightarrow> 'k \<Rightarrow> 'v objstore \<Rightarrow> 'v objstore" where
  "os_delete kp k s = drop_key kp k s"

definition os_getAll :: "'v objstore \<Rightarrow> 'v list" where
  "os_getAll s = s"

definition os_lookup :: "('v \<Rightarrow> 'k) \<Rightarrow> 'v objstore \<Rightarrow> 'k \<rightharpoonup> 'v" where
  "os_lookup kp s = map_of (map (\<lambda>v. (kp v, v)) s)"

subsection \<open>The store invariant\<close>

lemma os_add_keyed:
  "keyed kp s \<Longrightarrow> os_add kp v s = Some s' \<Longrightarrow> keyed kp s'"
  by (auto simp: os_add_def os_get_def find_key_None split: if_splits)

lemma os_put_keyed: "keyed kp s \<Longrightarrow> keyed kp (os_put kp v s)"
  unfolding os_put_def drop_key_def by (rule keyed_insort) auto

lemma os_delete_keyed: "keyed kp s \<Longrightarrow> keyed kp (os_delete kp k s)"
  by (auto simp: os_delete_def drop_key_def)

lemmas os_keyed = os_add_keyed os_put_keyed os_delete_keyed

subsection \<open>Refinement of a finite map\<close>

lemma os_get_lookup [store_simps]: "os_get kp k s = os_lookup kp s k"
  by (simp add: os_get_def os_lookup_def map_of_keyed_find)

lemma os_lookup_put [store_simps]:
  "os_lookup kp (os_put kp v s) = (os_lookup kp s)(kp v \<mapsto> v)"
proof
  fix k
  show "os_lookup kp (os_put kp v s) k = ((os_lookup kp s)(kp v \<mapsto> v)) k"
  proof (cases "k = kp v")
    case True
    have "find (\<lambda>w. kp w = kp v) (drop_key kp (kp v) s) = None"
      by (simp add: find_drop_key)
    with True show ?thesis
      by (simp add: os_lookup_def os_put_def map_of_keyed_find find_insort_fresh)
  next
    case False
    then show ?thesis
      by (simp add: os_lookup_def os_put_def map_of_keyed_find find_insort_other find_drop_key)
  qed
qed

lemma os_lookup_delete [store_simps]:
  "os_lookup kp (os_delete kp k s) = (os_lookup kp s)(k := None)"
  by (rule ext) (simp add: os_lookup_def os_delete_def map_of_keyed_find find_drop_key)

lemma os_add_Some_iff:
  "os_add kp v s = Some s' \<longleftrightarrow> os_lookup kp s (kp v) = None \<and> s' = insort_key kp v s"
  by (auto simp: os_add_def os_get_lookup)

lemma os_lookup_add [store_simps]:
  assumes "os_add kp v s = Some s'"
  shows "os_lookup kp s' = (os_lookup kp s)(kp v \<mapsto> v)"
proof -
  from assms have fresh: "find (\<lambda>w. kp w = kp v) s = None" and s': "s' = insort_key kp v s"
    by (simp_all add: os_add_Some_iff os_lookup_def map_of_keyed_find)
  show ?thesis
  proof
    fix k
    show "os_lookup kp s' k = ((os_lookup kp s)(kp v \<mapsto> v)) k"
      using fresh by (cases "k = kp v")
        (simp_all add: s' os_lookup_def map_of_keyed_find find_insort_fresh find_insort_other)
  qed
qed

lemma os_lookup_insort_fresh:
  "os_lookup kp s (kp v) = None \<Longrightarrow> os_lookup kp (insort_key kp v s) = (os_lookup kp s)(kp v \<mapsto> v)"
  by (rule os_lookup_add) (simp add: os_add_Some_iff)

lemma os_add_None_iff: "os_add kp v s = None \<longleftrightarrow> os_lookup kp s (kp v) \<noteq> None"
  by (simp add: os_add_def os_get_lookup)

lemma os_lookup_Some_in_set:
  "os_lookup kp s k = Some v \<Longrightarrow> v \<in> set s \<and> kp v = k"
  unfolding os_lookup_def map_of_keyed_find by (rule find_key_Some)

lemma os_lookup_in_set:
  "keyed kp s \<Longrightarrow> v \<in> set s \<Longrightarrow> os_lookup kp s (kp v) = Some v"
  by (simp add: os_lookup_def map_of_keyed_find find_key_keyed)

lemma os_lookup_None_iff: "os_lookup kp s k = None \<longleftrightarrow> k \<notin> kp ` set s"
  by (simp add: os_lookup_def map_of_keyed_find find_key_None)

lemma set_os_put: "set (os_put kp v s) = insert v {w \<in> set s. kp w \<noteq> kp v}"
  by (simp add: os_put_def set_insort_key)

lemma set_os_delete: "set (os_delete kp k s) = {w \<in> set s. kp w \<noteq> k}"
  by (simp add: os_delete_def)

end
