(* ===== verification/JsRuntime.thy ===== *)
theory JsRuntime
  imports Prelude
begin

text \<open>
  The parts of the JavaScript runtime and of the date-fns library that the application's
  code calls, modelled from their specifications (ECMAScript and the date-fns
  documentation), not from this repository: \<open>String.prototype.trim\<close>,
  \<open>toLowerCase\<close> and \<open>includes\<close>; number subtraction with the infinities and NaN;
  \<open>Array.prototype.sort\<close> with a comparator (a stable insertion sort, with the
  NaN-to-zero rule of SortCompare); \<open>Number.prototype.toString\<close> on the non-negative
  integers that \<open>Date.now()\<close> returns; \<open>differenceInDays\<close>. Strings are
  \<open>char list\<close>s, so characters are bytes: whitespace and case mapping are those of
  ASCII.
\<close>

subsection \<open>Strings\<close>

definition is_js_space :: "char \<Rightarrow> bool" where
  "is_js_space c \<longleftrightarrow> (of_char c :: nat) = 32 \<or> (9 \<le> (of_char c :: nat) \<and> (of_char c :: nat) \<le> 13)"

definition js_trim :: "string \<Rightarrow> string" where
  "js_trim s = rev (dropWhile is_js_space (rev (dropWhile is_js_space s)))"

definition js_lower_char :: "char \<Rightarrow> char" where
  "js_lower_char c =
     (if 65 \<le> (of_char c :: nat) \<and> (of_char c :: nat) \<le> 90 then char_of (of_char c + (32 :: nat)) else c)"

definition js_toLowerCase :: "string \<Rightarrow> string" where
  "js_toLowerCase s = map js_lower_char s"

text \<open>\<open>hay.includes(q)\<close>: \<open>q\<close> occurs at some position of \<open>hay\<close>.\<close>

fun js_includes :: "'a list \<Rightarrow> 'a list \<Rightarrow> bool" where
  "js_includes [] q \<longleftrightarrow> q = []"
| "js_includes (c # cs) q \<longleftrightarrow> take (length q) (c # cs) = q \<or> js_includes cs q"

subsection \<open>Numbers\<close>

text \<open>
  The comparators of the Home component subtract numbers that may be
  \<open>Number.POSITIVE_INFINITY\<close>; the results that occur are finite integers, the two
  infinities and NaN.
\<close>

datatype jsnum = Fin int | PosInf | NegInf | NaN

fun js_sub :: "jsnum \<Rightarrow> jsnum \<Rightarrow> jsnum" where
  "js_sub NaN y = NaN"
| "js_sub x NaN = NaN"
| "js_sub PosInf PosInf = NaN"
| "js_sub NegInf NegInf = NaN"
| "js_sub PosInf y = PosInf"
| "js_sub NegInf y = NegInf"
| "js_sub (Fin a) PosInf = NegInf"
| "js_sub (Fin a) NegInf = PosInf"
| "js_sub (Fin a) (Fin b) = Fin (a - b)"

text \<open>SortCompare: a NaN comparator result counts as \<open>+0\<close>.\<close>

definition sort_compare :: "jsnum \<Rightarrow> jsnum" where
  "sort_compare v = (if v = NaN then Fin 0 else v)"

fun js_pos :: "jsnum \<Rightarrow> bool" where
  "js_pos (Fin n) \<longleftrightarrow> 0 < n"
| "js_pos PosInf \<longleftrightarrow> True"
| "js_pos NegInf \<longleftrightarrow> False"
| "js_pos NaN \<longleftrightarrow> False"

definition js_after :: "('a \<Rightarrow> 'a \<Rightarrow> jsnum) \<Rightarrow> 'a \<Rightarrow> 'a \<Rightarrow> bool" where
  "js_after cmp x y \<longleftrightarrow> js_pos (sort_compare (cmp x y))"

subsection \<open>Array.prototype.sort\<close>

text \<open>
  ECMAScript leaves the algorithm to the engine but requires a stable sort; an
  element goes after another exactly when the comparator is positive. The model is the
  stable insertion sort: the head is inserted into the sorted rest before the first
  element it does not go after.
\<close>

fun js_insort :: "('a \<Rightarrow> 'a \<Rightarrow> jsnum) \<Rightarrow> 'a \<Rightarrow> 'a list \<Rightarrow> 'a list" where
  "js_insort cmp x [] = [x]"
| "js_insort cmp x (y # ys) =
     (if js_after cmp x y then y # js_insort cmp x ys else x # y # ys)"

definition js_sort :: "('a \<Rightarrow> 'a \<Rightarrow> jsnum) \<Rightarrow> 'a list \<Rightarrow> 'a list" where
  "js_sort cmp xs = foldr (js_insort cmp) xs []"

lemma js_sort_Nil [simp]: "js_sort cmp [] = []"
  and js_sort_Cons [simp]: "js_sort cmp (x # xs) = js_insort cmp x (js_sort cmp xs)"
  by (simp_all add: js_sort_def)

lemma mset_js_insort [simp]: "mset (js_insort cmp x xs) = add_mset x (mset xs)"
  by (induction xs) auto

lemma mset_js_sort [simp]: "mset (js_sort cmp xs) = mset xs"
  by (induction xs) auto

lemma js_insort_eq_insort_key:
  assumes "\<And>x y. js_after cmp x y \<longleftrightarrow> key y < key x"
  shows "js_insort cmp x xs = insort_key key x xs"
  by (induction xs) (auto simp: assms not_less)

lemma js_sort_eq_sort_key:
  assumes "\<And>x y. js_after cmp x y \<longleftrightarrow> key y < key x"
  shows "js_sort cmp xs = sort_key key xs"
  by (induction xs) (simp_all add: js_insort_eq_insort_key [OF assms])

subsection \<open>Number.prototype.toString on Date.now()\<close>

fun dec_string :: "nat \<Rightarrow> string" where
  "dec_string n =
     (if n < 10 then [char_of (48 + n)] else dec_string (n div 10) @ [char_of (48 + n mod 10)])"

declare dec_string.simps [simp del]

definition parse_dec :: "string \<Rightarrow> nat" where
  "parse_dec s = foldl (\<lambda>acc c. 10 * acc + (of_char c - 48)) 0 s"

lemma parse_dec_snoc: "parse_dec (s @ [c]) = 10 * parse_dec s + (of_char c - 48)"
  by (simp add: parse_dec_def)

subsection \<open>date-fns\<close>

text \<open>
  Dates are local-time milliseconds since the epoch. \<open>differenceInDays later earlier\<close>
  counts the full days between them, rounded towards zero; daylight-saving shifts are
  not modelled.
\<close>

definition ms_per_day :: int where
  "ms_per_day = 86400000"

definition differenceInDays :: "int \<Rightarrow> int \<Rightarrow> int" where
  "differenceInDays later earlier =
     sgn (later - earlier) * (\<bar>later - earlier\<bar> div ms_per_day)"

subsection \<open>Properties of the runtime model\<close>

lemma dropWhile_all:
  "(\<forall>x \<in> set (dropWhile P xs). P x) \<Longrightarrow> dropWhile P xs = []"
  using hd_dropWhile [of P xs] by (cases "dropWhile P xs") auto

lemma js_trim_Nil_iff: "js_trim s = [] \<longleftrightarrow> (\<forall>c \<in> set s. is_js_space c)"
proof -
  have "js_trim s = [] \<longleftrightarrow> (\<forall>c \<in> set (dropWhile is_js_space s). is_js_space c)"
    by (simp add: js_trim_def)
  also have "\<dots> \<longleftrightarrow> dropWhile is_js_space s = []"
  proof
    assume "\<forall>c \<in> set (dropWhile is_js_space s). is_js_space c"
    then show "dropWhile is_js_space s = []" by (rule dropWhile_all)
  qed (auto dest: set_dropWhileD)
  finally show ?thesis by simp
qed

lemma take_eq_prefix: "take (length q) h = q \<longleftrightarrow> prefix q h"
proof (induction q arbitrary: h)
  case Nil
  then show ?case by simp
next
  case (Cons a q)
  then show ?case by (cases h) auto
qed

lemma js_includes_sublist: "js_includes hay q \<longleftrightarrow> sublist q hay"
  by (induction hay) (auto simp: take_eq_prefix sublist_Cons_right)

lemma js_lower_char_idem [simp]: "js_lower_char (js_lower_char c) = js_lower_char c"
  by (simp add: js_lower_char_def of_char_of)

lemma is_js_space_lower [simp]: "is_js_space (js_lower_char c) \<longleftrightarrow> is_js_space c"
  by (auto simp: js_lower_char_def is_js_space_def of_char_of)

lemma js_toLowerCase_idem [simp]: "js_toLowerCase (js_toLowerCase s) = js_toLowerCase s"
  by (simp add: js_toLowerCase_def)

lemma js_trim_lower_Nil_iff: "js_trim (js_toLowerCase s) = [] \<longleftrightarrow> js_trim s = []"
  by (simp add: js_trim_Nil_iff js_toLowerCase_def)

lemma parse_dec_string: "parse_dec (dec_string n) = n"
proof (induction n rule: dec_string.induct)
  case (1 n)
  show ?case
  proof (cases "n < 10")
    case True
    then show ?thesis by (simp add: dec_string.simps [of n] parse_dec_def)
  next
    case False
    then have "parse_dec (dec_string (n div 10)) = n div 10" by (rule "1.IH")
    with False show ?thesis
      by (simp add: dec_string.simps [of n] parse_dec_snoc)
  qed
qed

lemma eq_char_of_iff: "c = char_of n \<longleftrightarrow> of_char c = take_bit 8 n"
  by (metis char_of_eq_iff)

lemmas js_eval = dec_string.simps char_of_eq_iff eq_char_of_iff

lemma dec_string_inj: "dec_string m = dec_string n \<longleftrightarrow> m = n"
  by (metis parse_dec_string)

subsection \<open>Order of the identifiers\<close>

text \<open>
  IndexedDB orders string keys by code units, so identifiers built by
  \<open>Date.now().toString()\<close> sort like the clock readings only while these have the same
  number of digits.
\<close>

lemma dec_string_step: "10 \<le> n \<Longrightarrow> dec_string n = dec_string (n div 10) @ [char_of (48 + n mod 10)]"
  by (simp add: dec_string.simps [of n])

lemma dec_string_not_Nil [simp]: "dec_string n \<noteq> []"
  by (simp add: dec_string.simps [of n])

lemma length_dec_string: "10 ^ k \<le> n \<Longrightarrow> n < 10 ^ Suc k \<Longrightarrow> length (dec_string n) = Suc k"
proof (induction k arbitrary: n)
  case 0
  then show ?case by (simp add: dec_string.simps [of n])
next
  case (Suc k)
  then have "10 ^ k \<le> n div 10" and "n div 10 < 10 ^ Suc k"
    by (simp_all add: less_eq_div_iff_mult_less_eq div_less_iff_less_mult mult.commute)
  with Suc.IH have "length (dec_string (n div 10)) = Suc k" by blast
  moreover from Suc.prems(1) have "10 * 1 \<le> n"
    by (metis le_trans mult_le_mono2 one_le_power power_Suc zero_le_numeral one_le_numeral)
  ultimately show ?case by (simp add: dec_string_step)
qed

lemma digit_char_less:
  "(a::nat) < 10 \<Longrightarrow> b < 10 \<Longrightarrow> a < b \<Longrightarrow> char_of (48 + a) < (char_of (48 + b) :: char)"
  by (simp add: less_char_def of_char_of)

lemma dec_string_mono_same_length:
  "length (dec_string a) = length (dec_string b) \<Longrightarrow> a < b \<Longrightarrow> dec_string a < dec_string b"
proof (induction a arbitrary: b rule: dec_string.induct)
  case (1 a)
  show ?case
  proof (cases "a < 10")
    case True
    then have "length (dec_string a) = 1" by (simp add: dec_string.simps [of a])
    with "1.prems"(1) have "b < 10"
      by (cases "b < 10") (auto simp: dec_string.simps [of b])
    with True "1.prems"(2) show ?thesis
      by (simp add: dec_string.simps [of a] dec_string.simps [of b] digit_char_less)
  next
    case False
    then have "length (dec_string a) = Suc (length (dec_string (a div 10)))" by (simp add: dec_string_step)
    moreover have b10: "10 \<le> b" using False "1.prems"(2) by simp
    ultimately have len: "length (dec_string (a div 10)) = length (dec_string (b div 10))"
      using "1.prems"(1) by (simp add: dec_string_step)
    show ?thesis
    proof (cases "a div 10 = b div 10")
      case True
      with "1.prems"(2) have "a mod 10 < b mod 10"
        by (metis div_mult_mod_eq add_less_cancel_left)
      then have "char_of (48 + a mod 10) < (char_of (48 + b mod 10) :: char)"
        by (simp add: digit_char_less)
      then show ?thesis using False b10 True
        by (simp add: dec_string_step lexord_append_left_rightI list_less_def)
    next
      case ne: False
      from "1.prems"(2) have "a div 10 \<le> b div 10" by (simp add: div_le_mono)
      with ne have "a div 10 < b div 10" by simp
      with False len have "dec_string (a div 10) < dec_string (b div 10)" by (intro "1.IH") simp_all
      then show ?thesis using False b10 len
        by (simp add: dec_string_step list_less_def lexord_sufI)
    qed
  qed
qed

lemma dec_string_window:
  assumes "10 ^ k \<le> a" and "a < b" and "b < 10 ^ Suc k"
  shows "dec_string a < dec_string b"
proof (rule dec_string_mono_same_length)
  from assms have "length (dec_string a) = Suc k" by (intro length_dec_string) simp_all
  moreover from assms have "length (dec_string b) = Suc k" by (intro length_dec_string) simp_all
  ultimately show "length (dec_string a) = length (dec_string b)" by simp
qed (rule assms(2))

text \<open>
  Outside one window the order breaks: at the reading \<open>10\<^sup>1\<^sup>3\<close> (November 2286)
  the fourteen-digit identifier sorts before the thirteen-digit one of the millisecond
  before.
\<close>

lemma dec_string_rollover: "dec_string 10000000000000 < dec_string 9999999999999"
proof -
  have "dec_string 10000000000000 = ''10000000000000''" by (simp add: js_eval)
  moreover have "dec_string 9999999999999 = ''9999999999999''" by (simp add: js_eval)
  ultimately show ?thesis by (simp add: list_less_def less_char_def)
qed

end
