(* ===== verification/Db.thy ===== *)
theory Db
  imports Model ObjectStore JsRuntime
begin

text \<open>
  The persistence layer, \<open>src/app/lib/db.ts\<close>: the database \<open>todo-app-db\<close> with its two
  object stores, both keyed by \<open>id\<close>, and the eight exported functions. Every call
  opens the database (\<open>initDB\<close>) and runs one or two IndexedDB requests; whether the
  storage layer commits or fails (quota, I/O, a blocked open) is the \<open>outcome\<close> argument,
  and a failed request leaves the stores as they were (IndexedDB transactions are atomic).
  A thrown error is an \<open>Inl\<close> of \<open>db_error\<close>: \<open>StorageError\<close> for a failed request,
  \<open>ConstraintError\<close> for \<open>db.add\<close> on a key that exists, \<open>TaskNotFound\<close> for the
  \<open>Error("Task not found")\<close> of \<open>updateTask\<close>. The identifier of a new record is
  \<open>Date.now().toString()\<close>: the clock reading \<open>now\<close> (milliseconds) in decimal.
\<close>

record Db =
  store_tasks :: "Task objstore"
  store_categories :: "Category objstore"

datatype outcome = Committed | Failed

datatype db_error = StorageError | ConstraintError | TaskNotFound

definition empty_db :: Db where
  "empty_db = \<lparr>store_tasks = [], store_categories = []\<rparr>"

definition db_wf :: "Db \<Rightarrow> bool" where
  "db_wf d \<longleftrightarrow> keyed task_id (store_tasks d) \<and> keyed cat_id (store_categories d)"

definition task_lookup :: "Db \<Rightarrow> ident \<rightharpoonup> Task" where
  "task_lookup d = os_lookup task_id (store_tasks d)"

definition cat_lookup :: "Db \<Rightarrow> ident \<rightharpoonup> Category" where
  "cat_lookup d = os_lookup cat_id (store_categories d)"

subsection \<open>Tasks\<close>

definition getAllTasks :: "outcome \<Rightarrow> Db \<Rightarrow> Task list" where
  "getAllTasks io d = (case io of Committed \<Rightarrow> os_getAll (store_tasks d) | Failed \<Rightarrow> [])"

definition addTask :: "outcome \<Rightarrow> nat \<Rightarrow> NewTask \<Rightarrow> Db \<Rightarrow> db_error + (Task \<times> Db)" where
  "addTask io now task d =
     (case io of
        Failed \<Rightarrow> Inl StorageError
      | Committed \<Rightarrow>
          (let newTask = with_task_id task (dec_string now) in
           case os_add task_id newTask (store_tasks d) of
             None \<Rightarrow> Inl ConstraintError
           | Some s \<Rightarrow> Inr (newTask, d\<lparr>store_tasks := s\<rparr>)))"

definition updateTask :: "outcome \<Rightarrow> ident \<Rightarrow> TaskPatch \<Rightarrow> Db \<Rightarrow> db_error + (Task \<times> Db)" where
  "updateTask io i updates d =
     (case io of
        Failed \<Rightarrow> Inl StorageError
      | Committed \<Rightarrow>
          (case os_get task_id i (store_tasks d) of
             None \<Rightarrow> Inl TaskNotFound
           | Some task \<Rightarrow>
               (let updatedTask = merge_task task updates in
                Inr (updatedTask, d\<lparr>store_tasks := os_put task_id updatedTask (store_tasks d)\<rparr>))))"

definition deleteTask :: "outcome \<Rightarrow> ident \<Rightarrow> Db \<Rightarrow> db_error + Db" where
  "deleteTask io i d =
     (case io of
        Failed \<Rightarrow> Inl StorageError
      | Committed \<Rightarrow> Inr (d\<lparr>store_tasks := os_delete task_id i (store_tasks d)\<rparr>))"

subsection \<open>Categories\<close>

definition getAllCategories :: "outcome \<Rightarrow> Db \<Rightarrow> Category list" where
  "getAllCategories io d = (case io of Committed \<Rightarrow> os_getAll (store_categories d) | Failed \<Rightarrow> [])"

definition addCategory :: "outcome \<Rightarrow> nat \<Rightarrow> NewCategory \<Rightarrow> Db \<Rightarrow> db_error + (Category \<times> Db)" where
  "addCategory io now cat d =
     (case io of
        Failed \<Rightarrow> Inl StorageError
      | Committed \<Rightarrow>
          (let newCategory = with_cat_id cat (dec_string now) in
           case os_add cat_id newCategory (store_categories d) of
             None \<Rightarrow> Inl ConstraintError
           | Some s \<Rightarrow> Inr (newCategory, d\<lparr>store_categories := s\<rparr>)))"

text \<open>
  \<open>updateCategory(id, updates)\<close> ignores \<open>id\<close>: it stores \<open>updates\<close> (the whole merged
  category, in the one caller) under the key that record carries, with \<open>put\<close>.
\<close>

definition updateCategory :: "outcome \<Rightarrow> ident \<Rightarrow> Category \<Rightarrow> Db \<Rightarrow> db_error + Db" where
  "updateCategory io i updates d =
     (case io of
        Failed \<Rightarrow> Inl StorageError
      | Committed \<Rightarrow> Inr (d\<lparr>store_categories := os_put cat_id updates (store_categories d)\<rparr>))"

definition deleteCategory :: "outcome \<Rightarrow> ident \<Rightarrow> Db \<Rightarrow> db_error + Db" where
  "deleteCategory io i d =
     (case io of
        Failed \<Rightarrow> Inl StorageError
      | Committed \<Rightarrow> Inr (d\<lparr>store_categories := os_delete cat_id i (store_categories d)\<rparr>))"

lemmas db_ops_defs = addTask_def updateTask_def deleteTask_def addCategory_def
  updateCategory_def deleteCategory_def

subsection \<open>Shape of the results\<close>

lemma db_failed [simp]:
  "addTask Failed now t d = Inl StorageError"
  "updateTask Failed i u d = Inl StorageError"
  "deleteTask Failed i d = Inl StorageError"
  "addCategory Failed now c d = Inl StorageError"
  "updateCategory Failed i c' d = Inl StorageError"
  "deleteCategory Failed i d = Inl StorageError"
  by (simp_all add: db_ops_defs)

lemma addTask_Inr:
  "addTask io now t d = Inr (t', d') \<longleftrightarrow>
     io = Committed \<and> t' = with_task_id t (dec_string now) \<and>
     os_add task_id t' (store_tasks d) = Some (store_tasks d') \<and>
     store_categories d' = store_categories d"
  by (cases d, cases d') (auto simp: addTask_def Let_def split: outcome.splits option.splits)

lemma addCategory_Inr:
  "addCategory io now c d = Inr (c', d') \<longleftrightarrow>
     io = Committed \<and> c' = with_cat_id c (dec_string now) \<and>
     os_add cat_id c' (store_categories d) = Some (store_categories d') \<and>
     store_tasks d' = store_tasks d"
  by (cases d, cases d') (auto simp: addCategory_def Let_def split: outcome.splits option.splits)

lemma updateTask_Inr:
  "updateTask io i u d = Inr (t', d') \<longleftrightarrow>
     io = Committed \<and> (\<exists>t. task_lookup d i = Some t \<and> t' = merge_task t u) \<and>
     d' = d\<lparr>store_tasks := os_put task_id t' (store_tasks d)\<rparr>"
  by (auto simp: updateTask_def task_lookup_def os_get_lookup Let_def split: outcome.splits option.splits)

lemma deleteTask_Inr:
  "deleteTask io i d = Inr d' \<longleftrightarrow> io = Committed \<and> d' = d\<lparr>store_tasks := os_delete task_id i (store_tasks d)\<rparr>"
  by (auto simp: deleteTask_def split: outcome.splits)

lemma updateCategory_Inr:
  "updateCategory io i c d = Inr d' \<longleftrightarrow>
     io = Committed \<and> d' = d\<lparr>store_categories := os_put cat_id c (store_categories d)\<rparr>"
  by (auto simp: updateCategory_def split: outcome.splits)

lemma deleteCategory_Inr:
  "deleteCategory io i d = Inr d' \<longleftrightarrow>
     io = Committed \<and> d' = d\<lparr>store_categories := os_delete cat_id i (store_categories d)\<rparr>"
  by (auto simp: deleteCategory_def split: outcome.splits)

lemmas db_Inr = addTask_Inr addCategory_Inr updateTask_Inr deleteTask_Inr
  updateCategory_Inr deleteCategory_Inr

subsection \<open>Operations as data\<close>

text \<open>
  The six mutating functions of \<open>db.ts\<close> as one datatype of requests, so that a
  property of every mutation is one statement. \<open>db_apply\<close> keeps the new state and
  drops the record the function returns.
\<close>

datatype db_op =
    OpAddTask nat NewTask
  | OpUpdateTask ident TaskPatch
  | OpDeleteTask ident
  | OpAddCategory nat NewCategory
  | OpUpdateCategory ident Category
  | OpDeleteCategory ident

fun db_apply :: "outcome \<Rightarrow> db_op \<Rightarrow> Db \<Rightarrow> db_error + Db" where
  "db_apply io (OpAddTask now t) d = map_sum id snd (addTask io now t d)"
| "db_apply io (OpUpdateTask i u) d = map_sum id snd (updateTask io i u d)"
| "db_apply io (OpDeleteTask i) d = deleteTask io i d"
| "db_apply io (OpAddCategory now c) d = map_sum id snd (addCategory io now c d)"
| "db_apply io (OpUpdateCategory i c) d = updateCategory io i c d"
| "db_apply io (OpDeleteCategory i) d = deleteCategory io i d"

subsection \<open>The store as two finite maps\<close>

text \<open>
  The abstract store of the specification (section 4.1): two finite maps from
  identifiers to records. \<open>map_apply\<close> is what each request of \<open>db.ts\<close> does to
  them; \<open>db_apply_refines\<close> shows that the object-store implementation computes
  exactly that, errors included.
\<close>

record DbMaps =
  map_tasks :: "ident \<rightharpoonup> Task"
  map_categories :: "ident \<rightharpoonup> Category"

definition db_abs :: "Db \<Rightarrow> DbMaps" where
  "db_abs d = \<lparr>map_tasks = task_lookup d, map_categories = cat_lookup d\<rparr>"

fun map_apply :: "db_op \<Rightarrow> DbMaps \<Rightarrow> db_error + DbMaps" where
  "map_apply (OpAddTask now t) a =
     (let i = dec_string now in
      if map_tasks a i = None
      then Inr (a\<lparr>map_tasks := (map_tasks a)(i \<mapsto> with_task_id t i)\<rparr>)
      else Inl ConstraintError)"
| "map_apply (OpUpdateTask i u) a =
     (case map_tasks a i of
        None \<Rightarrow> Inl TaskNotFound
      | Some t \<Rightarrow> Inr (a\<lparr>map_tasks := (map_tasks a)(task_id (merge_task t u) \<mapsto> merge_task t u)\<rparr>))"
| "map_apply (OpDeleteTask i) a = Inr (a\<lparr>map_tasks := (map_tasks a)(i := None)\<rparr>)"
| "map_apply (OpAddCategory now c) a =
     (let i = dec_string now in
      if map_categories a i = None
      then Inr (a\<lparr>map_categories := (map_categories a)(i \<mapsto> with_cat_id c i)\<rparr>)
      else Inl ConstraintError)"
| "map_apply (OpUpdateCategory i c) a =
     Inr (a\<lparr>map_categories := (map_categories a)(cat_id c \<mapsto> c)\<rparr>)"
| "map_apply (OpDeleteCategory i) a = Inr (a\<lparr>map_categories := (map_categories a)(i := None)\<rparr>)"

abbreviation milk_db :: Db where
  "milk_db \<equiv> \<lparr>store_tasks = [with_task_id buy_milk ''7''], store_categories = []\<rparr>"

lemmas db_abs_simps = db_abs_def task_lookup_def cat_lookup_def

lemma with_ids [simp]: "task_id (with_task_id t i) = i" "cat_id (with_cat_id c i) = i"
  by (simp_all add: with_task_id_def with_cat_id_def)

lemma os_add_cases:
  "(case os_add kp v s of None \<Rightarrow> x | Some s' \<Rightarrow> f s') =
     (if os_lookup kp s (kp v) = None then f (insort_key kp v s) else x)"
  by (auto simp: os_add_def os_get_lookup)

lemma addTask_fresh:
  "dec_string now \<notin> task_id ` set (store_tasks d) \<Longrightarrow>
   addTask Committed now x d =
     Inr (with_task_id x (dec_string now),
          d\<lparr>store_tasks := insort_key task_id (with_task_id x (dec_string now)) (store_tasks d)\<rparr>)"
  by (simp add: addTask_def os_add_cases os_lookup_None_iff Let_def)

lemma addCategory_fresh:
  "dec_string now \<notin> cat_id ` set (store_categories d) \<Longrightarrow>
   addCategory Committed now x d =
     Inr (with_cat_id x (dec_string now),
          d\<lparr>store_categories := insort_key cat_id (with_cat_id x (dec_string now)) (store_categories d)\<rparr>)"
  by (simp add: addCategory_def os_add_cases os_lookup_None_iff Let_def)

subsection \<open>Properties of the store\<close>

text \<open>
  C1. The object-store implementation of \<open>db.ts\<close> refines the finite-map semantics:
  for every request that the storage layer commits, reading the resulting stores as maps
  gives what \<open>map_apply\<close> computes from the maps of the stores before, and the same
  error where the request throws.
\<close>

theorem db_apply_refines:
  "map_sum id db_abs (db_apply Committed op d) = map_apply op (db_abs d)"
proof (cases op)
  case (OpAddTask now t)
  then show ?thesis
    by (simp add: addTask_def db_abs_simps Let_def os_add_cases os_lookup_insort_fresh)
next
  case (OpUpdateTask i u)
  then show ?thesis
    by (simp add: updateTask_def db_abs_simps Let_def os_get_lookup os_lookup_put split: option.split)
next
  case (OpDeleteTask i)
  then show ?thesis by (simp add: deleteTask_def db_abs_simps os_lookup_delete)
next
  case (OpAddCategory now c)
  then show ?thesis
    by (simp add: addCategory_def db_abs_simps Let_def os_add_cases os_lookup_insort_fresh)
next
  case (OpUpdateCategory i c)
  then show ?thesis by (simp add: updateCategory_def db_abs_simps os_lookup_put)
next
  case (OpDeleteCategory i)
  then show ?thesis by (simp add: deleteCategory_def db_abs_simps os_lookup_delete)
qed

text \<open>
  C2. \<open>addTask\<close> never overwrites: when it succeeds, the task store holds every record
  it held before plus exactly the new task, and the category store is untouched. (With
  \<open>db.put\<close> in place of \<open>db.add\<close>, a task created in the same millisecond as a stored
  one would replace it.)
\<close>

theorem addTask_no_overwrite:
  assumes "addTask io now t d = Inr (x, d')"
  shows "x = with_task_id t (dec_string now) \<and>
    mset (store_tasks d') = add_mset x (mset (store_tasks d)) \<and>
    store_categories d' = store_categories d"
  using assms
  by (cases io) (auto simp: addTask_def os_add_cases Let_def split: if_splits)

theorem addTask_no_overwrite_witness:
  "addTask Committed 8 pay_rent milk_db =
     Inr (with_task_id pay_rent ''8'', \<lparr>store_tasks = [with_task_id buy_milk ''7'', with_task_id pay_rent ''8''],
       store_categories = []\<rparr>) \<and>
   with_task_id pay_rent ''8'' = with_task_id pay_rent (dec_string 8) \<and>
   mset [with_task_id buy_milk ''7'', with_task_id pay_rent ''8''] =
     add_mset (with_task_id pay_rent ''8'') (mset (store_tasks milk_db))"
proof -
  have h: "addTask Committed 8 pay_rent milk_db =
     Inr (with_task_id pay_rent ''8'', \<lparr>store_tasks = [with_task_id buy_milk ''7'', with_task_id pay_rent ''8''],
       store_categories = []\<rparr>)"
    by (simp add: addTask_def os_add_def os_get_def with_task_id_def Let_def js_eval less_eq_char_def less_char_def)
  from h addTask_no_overwrite [OF h] show ?thesis by simp
qed

text \<open>
  C3. Identifiers come from \<open>Date.now()\<close>: once a task has been added at a clock
  reading, a second \<open>addTask\<close> at the same millisecond is refused by the store with a
  \<open>ConstraintError\<close>, whatever the task.
\<close>

theorem addTask_same_millisecond:
  assumes "addTask Committed now t1 d = Inr (t1', d')"
  shows "addTask Committed now t2 d' = Inl ConstraintError"
proof -
  from assms have "os_add task_id t1' (store_tasks d) = Some (store_tasks d')"
    and "t1' = with_task_id t1 (dec_string now)"
    by (auto simp: addTask_Inr)
  then have "os_lookup task_id (store_tasks d') (dec_string now) = Some t1'"
    by (simp add: os_lookup_add)
  then show ?thesis by (simp add: addTask_def os_add_cases)
qed

theorem addTask_same_millisecond_witness:
  "addTask Committed 7 buy_milk empty_db = Inr (with_task_id buy_milk ''7'', milk_db) \<and>
   addTask Committed 7 pay_rent milk_db = Inl ConstraintError"
proof -
  have h: "addTask Committed 7 buy_milk empty_db = Inr (with_task_id buy_milk ''7'', milk_db)"
    by (simp add: addTask_def empty_db_def os_add_def os_get_def with_task_id_def Let_def js_eval)
  from h addTask_same_millisecond [OF h] show ?thesis by (intro conjI)
qed

text \<open>
  C4. \<open>updateTask(id, {title: v})\<close> on a stored task changes the title and nothing
  else, and stores the result under the same identifier.
\<close>

theorem updateTask_single_field:
  assumes "task_lookup d i = Some t"
    and "updateTask Committed i (no_task_patch\<lparr>upd_title := Some v\<rparr>) d = Inr (t', d')"
  shows "t' = t\<lparr>title := v\<rparr> \<and> task_lookup d' = (task_lookup d)(i \<mapsto> t')"
proof -
  from assms(1) have i: "task_id t = i"
    unfolding task_lookup_def by (auto dest: os_lookup_Some_in_set)
  from assms have t': "t' = t\<lparr>title := v\<rparr>"
    and d': "d' = d\<lparr>store_tasks := os_put task_id t' (store_tasks d)\<rparr>"
    by (auto simp: updateTask_def task_lookup_def os_get_lookup merge_title_only Let_def)
  with i show ?thesis by (simp add: task_lookup_def os_lookup_put)
qed

theorem updateTask_single_field_witness:
  "task_lookup milk_db ''7'' = Some (with_task_id buy_milk ''7'') \<and>
   updateTask Committed ''7'' (no_task_patch\<lparr>upd_title := Some ''Buy bread''\<rparr>) milk_db =
     Inr ((with_task_id buy_milk ''7'')\<lparr>title := ''Buy bread''\<rparr>,
          \<lparr>store_tasks = [(with_task_id buy_milk ''7'')\<lparr>title := ''Buy bread''\<rparr>], store_categories = []\<rparr>) \<and>
   task_lookup \<lparr>store_tasks = [(with_task_id buy_milk ''7'')\<lparr>title := ''Buy bread''\<rparr>], store_categories = []\<rparr> =
     (task_lookup milk_db)(''7'' \<mapsto> (with_task_id buy_milk ''7'')\<lparr>title := ''Buy bread''\<rparr>)"
proof -
  have h1: "task_lookup milk_db ''7'' = Some (with_task_id buy_milk ''7'')"
    by (simp add: task_lookup_def os_lookup_def with_task_id_def)
  have h2: "updateTask Committed ''7'' (no_task_patch\<lparr>upd_title := Some ''Buy bread''\<rparr>) milk_db =
     Inr ((with_task_id buy_milk ''7'')\<lparr>title := ''Buy bread''\<rparr>,
          \<lparr>store_tasks = [(with_task_id buy_milk ''7'')\<lparr>title := ''Buy bread''\<rparr>], store_categories = []\<rparr>)"
    by (simp add: updateTask_def os_get_def os_put_def with_task_id_def merge_task_def
        no_task_patch_def Let_def)
  from updateTask_single_field [OF h1 h2] have h3:
    "task_lookup \<lparr>store_tasks = [(with_task_id buy_milk ''7'')\<lparr>title := ''Buy bread''\<rparr>], store_categories = []\<rparr> =
     (task_lookup milk_db)(''7'' \<mapsto> (with_task_id buy_milk ''7'')\<lparr>title := ''Buy bread''\<rparr>)"
    by (rule conjunct2)
  from h1 h2 h3 show ?thesis by (intro conjI)
qed

text \<open>
  C5. Deleting an identifier that is not stored is a no-op: no error, both stores
  unchanged.
\<close>

theorem deleteTask_absent_noop:
  assumes "task_lookup d i = None"
  shows "deleteTask Committed i d = Inr d"
proof -
  from assms have "drop_key task_id i (store_tasks d) = store_tasks d"
    by (simp add: task_lookup_def os_lookup_None_iff drop_key_absent)
  then show ?thesis by (simp add: deleteTask_def os_delete_def)
qed

theorem deleteTask_absent_noop_witness:
  "task_lookup milk_db ''8'' = None \<and> deleteTask Committed ''8'' milk_db = Inr milk_db"
proof -
  have h: "task_lookup milk_db ''8'' = None"
    by (simp add: task_lookup_def os_lookup_def with_task_id_def)
  from h deleteTask_absent_noop [OF h] show ?thesis by (intro conjI)
qed

text \<open>
  C6. \<open>updateTask\<close> throws exactly in two cases: the storage request fails
  (\<open>StorageError\<close>), or no task has the identifier (\<open>Error("Task not found")\<close>).
\<close>

theorem updateTask_Inl:
  "updateTask io i u d = Inl e \<longleftrightarrow>
     (io = Failed \<and> e = StorageError) \<or> (io = Committed \<and> task_lookup d i = None \<and> e = TaskNotFound)"
  by (auto simp: updateTask_def task_lookup_def os_get_lookup Let_def split: outcome.splits option.splits)

text \<open>
  C10. Tasks come back from \<open>getAllTasks\<close> in the order they were created, within the
  bound on the clock that keeps the identifiers at thirteen digits (from September 2001
  to November 2286): a task added at a later reading is listed after one added
  earlier. IndexedDB returns the records in key order, and the key is the decimal
  string of the reading; the bound is needed, see \<open>dec_string_rollover\<close>.
\<close>

theorem getAll_creation_order:
  assumes "db_wf d" and "addTask Committed a t1 d = Inr (x1, d1)" and "addTask Committed b t2 d1 = Inr (x2, d2)"
    and "10 ^ 12 \<le> a" and "a < b" and "b < 10 ^ 13"
  shows "\<exists>us vs ws. getAllTasks Committed d2 = us @ x1 # vs @ x2 # ws"
proof -
  from assms(2) have x1: "x1 = with_task_id t1 (dec_string a)"
    and s1: "store_tasks d1 = insort_key task_id x1 (store_tasks d)"
    by (auto simp: addTask_Inr os_add_Some_iff)
  from assms(3) have x2: "x2 = with_task_id t2 (dec_string b)"
    and s2: "store_tasks d2 = insort_key task_id x2 (store_tasks d1)"
    and a2: "os_add task_id x2 (store_tasks d1) = Some (store_tasks d2)"
    by (auto simp: addTask_Inr os_add_Some_iff)
  from assms(1,2) have k1: "keyed task_id (store_tasks d1)"
    by (auto simp: db_wf_def addTask_Inr intro: os_add_keyed)
  from k1 a2 have "keyed task_id (store_tasks d2)" by (rule os_add_keyed)
  then have sorted: "sorted (map task_id (store_tasks d2))" by (simp add: keyed_def)
  have "x1 \<in> set (store_tasks d2)" "x2 \<in> set (store_tasks d2)"
    by (simp_all add: s1 s2 set_insort_key)
  moreover from assms(4,5,6) have "task_id x1 < task_id x2"
    by (simp add: x1 x2 dec_string_window [of 12])
  ultimately show ?thesis using sorted
    by (simp add: getAllTasks_def os_getAll_def sorted_key_before)
qed

theorem getAll_creation_order_witness:
  "db_wf empty_db \<and>
   addTask Committed (10 ^ 12) buy_milk empty_db =
     Inr (with_task_id buy_milk (dec_string (10 ^ 12)),
          \<lparr>store_tasks = [with_task_id buy_milk (dec_string (10 ^ 12))], store_categories = []\<rparr>) \<and>
   addTask Committed (10 ^ 12 + 1) pay_rent
       \<lparr>store_tasks = [with_task_id buy_milk (dec_string (10 ^ 12))], store_categories = []\<rparr> =
     Inr (with_task_id pay_rent (dec_string (10 ^ 12 + 1)),
          \<lparr>store_tasks = [with_task_id buy_milk (dec_string (10 ^ 12)), with_task_id pay_rent (dec_string (10 ^ 12 + 1))],
           store_categories = []\<rparr>) \<and>
   10 ^ 12 \<le> (10 ^ 12 :: nat) \<and> (10 ^ 12 :: nat) < 10 ^ 12 + 1 \<and> (10 ^ 12 + 1 :: nat) < 10 ^ 13 \<and>
   (\<exists>us vs ws. getAllTasks Committed
       \<lparr>store_tasks = [with_task_id buy_milk (dec_string (10 ^ 12)), with_task_id pay_rent (dec_string (10 ^ 12 + 1))],
        store_categories = []\<rparr> =
     us @ with_task_id buy_milk (dec_string (10 ^ 12)) # vs @ with_task_id pay_rent (dec_string (10 ^ 12 + 1)) # ws)"
proof -
  have w: "db_wf empty_db" by (simp add: db_wf_def empty_db_def keyed_def)
  have e1: "addTask Committed (10 ^ 12) buy_milk empty_db =
     Inr (with_task_id buy_milk (dec_string (10 ^ 12)),
          \<lparr>store_tasks = [with_task_id buy_milk (dec_string (10 ^ 12))], store_categories = []\<rparr>)"
    by (simp add: addTask_def empty_db_def os_add_def os_get_def Let_def)
  have lt: "dec_string (10 ^ 12) < dec_string (10 ^ 12 + 1)"
    by (rule dec_string_window [of 12]) simp_all
  have e2: "addTask Committed (10 ^ 12 + 1) pay_rent
       \<lparr>store_tasks = [with_task_id buy_milk (dec_string (10 ^ 12))], store_categories = []\<rparr> =
     Inr (with_task_id pay_rent (dec_string (10 ^ 12 + 1)),
          \<lparr>store_tasks = [with_task_id buy_milk (dec_string (10 ^ 12)), with_task_id pay_rent (dec_string (10 ^ 12 + 1))],
           store_categories = []\<rparr>)"
    using lt by (simp add: addTask_def os_add_def os_get_def dec_string_inj less_le_not_le Let_def)
  have b: "10 ^ 12 \<le> (10 ^ 12 :: nat) \<and> (10 ^ 12 :: nat) < 10 ^ 12 + 1 \<and> (10 ^ 12 + 1 :: nat) < 10 ^ 13"
    by simp
  from getAll_creation_order [OF w e1 e2] b show ?thesis using w e1 e2 by simp
qed

end
