(* ===== verification/Projection.thy ===== *)
theory Projection
  imports Model JsRuntime
begin

text \<open>
  The projection engine of \<open>src/app/page.tsx\<close>: the effect of lines 72 to 119 that
  computes \<open>filteredTasks\<close> from \<open>tasks\<close>, \<open>filter\<close>, \<open>selectedCategory\<close>,
  \<open>searchQuery\<close> and \<open>sortOption\<close>; \<open>getDaysRemaining\<close> (lines 121 to 126); and
  \<open>displayedTasks\<close> (line 197), the list that is rendered. The three filters run in
  the code's order, each guarded as the code guards it (JavaScript truthiness of
  \<open>selectedCategory\<close> and of \<open>searchQuery.trim()\<close>); the sort is \<open>js_sort\<close> with the
  code's four comparators. What the code takes from its environment is the record
  \<open>ViewEnv\<close>: the date parser (\<open>parseISO\<close> followed by \<open>isValid\<close>; \<open>None\<close> is an
  invalid date), the clock (\<open>new Date()\<close>, read once per projection), and the
  locale's collation (\<open>localeCompare\<close>, negative, zero or positive).
\<close>

record ViewEnv =
  parse_date :: "string \<Rightarrow> int option"
  now_ms :: int
  localeCompare :: "string \<Rightarrow> string \<Rightarrow> int"

definition getDaysRemaining :: "ViewEnv \<Rightarrow> string \<Rightarrow> int option" where
  "getDaysRemaining env dateStr =
     (if dateStr = [] then None
      else case parse_date env dateStr of
             None \<Rightarrow> None
           | Some date \<Rightarrow> Some (differenceInDays date (now_ms env)))"

subsection \<open>The three filters\<close>

definition status_filter :: "StatusFilter \<Rightarrow> Task list \<Rightarrow> Task list" where
  "status_filter f xs =
     (let xs1 = (if f = FilterActive then filter (\<lambda>t. \<not> completed t) xs else xs)
      in if f = FilterCompleted then filter (\<lambda>t. completed t) xs1 else xs1)"

definition js_truthy_id :: "ident option \<Rightarrow> bool" where
  "js_truthy_id s = (case s of None \<Rightarrow> False | Some c \<Rightarrow> c \<noteq> [])"

definition category_filter :: "ident option \<Rightarrow> Task list \<Rightarrow> Task list" where
  "category_filter sel xs =
     (if js_truthy_id sel then filter (\<lambda>t. Some (category t) = sel) xs else xs)"

definition search_filter :: "string \<Rightarrow> Task list \<Rightarrow> Task list" where
  "search_filter searchQuery xs =
     (if js_trim searchQuery \<noteq> []
      then (let query = js_toLowerCase searchQuery
            in filter (\<lambda>t. js_includes (js_toLowerCase (title t)) query) xs)
      else xs)"

subsection \<open>The four comparators and the sort\<close>

definition inf_or :: "int option \<Rightarrow> jsnum" where
  "inf_or d = (case d of None \<Rightarrow> PosInf | Some n \<Rightarrow> Fin n)"

definition daysAsc_cmp :: "ViewEnv \<Rightarrow> Task \<Rightarrow> Task \<Rightarrow> jsnum" where
  "daysAsc_cmp env a b =
     js_sub (inf_or (getDaysRemaining env (dueDate a))) (inf_or (getDaysRemaining env (dueDate b)))"

definition daysDesc_cmp :: "ViewEnv \<Rightarrow> Task \<Rightarrow> Task \<Rightarrow> jsnum" where
  "daysDesc_cmp env a b =
     js_sub (inf_or (getDaysRemaining env (dueDate b))) (inf_or (getDaysRemaining env (dueDate a)))"

definition alphaAsc_cmp :: "ViewEnv \<Rightarrow> Task \<Rightarrow> Task \<Rightarrow> jsnum" where
  "alphaAsc_cmp env a b = Fin (localeCompare env (title a) (title b))"

definition alphaDesc_cmp :: "ViewEnv \<Rightarrow> Task \<Rightarrow> Task \<Rightarrow> jsnum" where
  "alphaDesc_cmp env a b = Fin (localeCompare env (title b) (title a))"

fun apply_sort :: "ViewEnv \<Rightarrow> SortOption \<Rightarrow> Task list \<Rightarrow> Task list" where
  "apply_sort env SortNone xs = xs"
| "apply_sort env DaysAsc xs = js_sort (daysAsc_cmp env) xs"
| "apply_sort env DaysDesc xs = js_sort (daysDesc_cmp env) xs"
| "apply_sort env AlphaAsc xs = js_sort (alphaAsc_cmp env) xs"
| "apply_sort env AlphaDesc xs = js_sort (alphaDesc_cmp env) xs"

subsection \<open>The effect and the displayed list\<close>

definition compute_filtered ::
  "ViewEnv \<Rightarrow> Task list \<Rightarrow> StatusFilter \<Rightarrow> ident option \<Rightarrow> string \<Rightarrow> SortOption \<Rightarrow> Task list" where
  "compute_filtered env tasks f selectedCategory searchQuery sortOption =
     apply_sort env sortOption
       (search_filter searchQuery (category_filter selectedCategory (status_filter f tasks)))"

definition displayedTasks ::
  "Task list \<Rightarrow> Task list \<Rightarrow> StatusFilter \<Rightarrow> ident option \<Rightarrow> string \<Rightarrow> Task list" where
  "displayedTasks tasks filteredTasks f selectedCategory searchQuery =
     (if js_trim searchQuery \<noteq> [] \<or> js_truthy_id selectedCategory \<or> f \<noteq> FilterAll
      then filteredTasks else tasks)"

subsection \<open>Sample environment and tasks\<close>

text \<open>
  An environment for the scenarios: \<open>2099-01-01\<close> is a valid date (local midnight,
  in milliseconds), every other non-empty string is invalid, the clock reads November
  2023, and the collation is the code-unit order.
\<close>

abbreviation demo_env :: ViewEnv where
  "demo_env \<equiv> \<lparr>parse_date = (\<lambda>s. if s = ''2099-01-01'' then Some 4070908800000 else None),
     now_ms = 1700000000000,
     localeCompare = (\<lambda>a b. if a < b then -1 else if a = b then 0 else 1)\<rparr>"

abbreviation milk7 :: Task where
  "milk7 \<equiv> with_task_id buy_milk ''7''"

abbreviation rent8 :: Task where
  "rent8 \<equiv> with_task_id pay_rent ''8''"

lemmas projection_eval = compute_filtered_def search_filter_def category_filter_def
  status_filter_def displayedTasks_def js_trim_def js_toLowerCase_def js_lower_char_def
  is_js_space_def with_task_id_def js_truthy_id_def daysAsc_cmp_def daysDesc_cmp_def
  getDaysRemaining_def differenceInDays_def ms_per_day_def inf_or_def js_after_def
  sort_compare_def js_eval

subsection \<open>Reference orders for the day sorts\<close>

text \<open>
  The keys the two day comparators order by: a task with no days-remaining value is
  \<open>(1, 0)\<close> ascending (after every dated task) and \<open>(0, 0)\<close> descending (before
  every dated task); a dated task with \<open>n\<close> days is \<open>(0, n)\<close> and \<open>(1, -n)\<close>.
\<close>

definition asc_key :: "int option \<Rightarrow> nat \<times> int" where
  "asc_key d = (case d of None \<Rightarrow> (1, 0) | Some n \<Rightarrow> (0, n))"

definition desc_key :: "int option \<Rightarrow> nat \<times> int" where
  "desc_key d = (case d of None \<Rightarrow> (0, 0) | Some n \<Rightarrow> (1, - n))"

definition status_ok :: "StatusFilter \<Rightarrow> Task \<Rightarrow> bool" where
  "status_ok f t =
     (case f of FilterAll \<Rightarrow> True | FilterActive \<Rightarrow> \<not> completed t | FilterCompleted \<Rightarrow> completed t)"

definition passes :: "StatusFilter \<Rightarrow> ident option \<Rightarrow> string \<Rightarrow> Task \<Rightarrow> bool" where
  "passes f sel q t \<longleftrightarrow>
     status_ok f t \<and>
     (if js_truthy_id sel then Some (category t) = sel else True) \<and>
     (if js_trim q \<noteq> [] then js_includes (js_toLowerCase (title t)) (js_toLowerCase q) else True)"

subsection \<open>Facts\<close>

lemma js_after_days_asc:
  "js_after (\<lambda>a b. js_sub (inf_or (k a)) (inf_or (k b))) x y \<longleftrightarrow> asc_key (k y) < asc_key (k x)"
  by (cases "k x"; cases "k y") (auto simp: js_after_def sort_compare_def inf_or_def asc_key_def)

lemma js_after_days_desc:
  "js_after (\<lambda>a b. js_sub (inf_or (k b)) (inf_or (k a))) x y \<longleftrightarrow> desc_key (k y) < desc_key (k x)"
  by (cases "k x"; cases "k y") (auto simp: js_after_def sort_compare_def inf_or_def desc_key_def)

lemma mset_apply_sort [simp]: "mset (apply_sort env so xs) = mset xs"
  by (cases so) simp_all

lemma filters_passes:
  "search_filter q (category_filter sel (status_filter f xs)) = filter (passes f sel q) xs"
  by (cases f) (auto simp: search_filter_def category_filter_def status_filter_def passes_def
      status_ok_def Let_def intro: filter_cong)

subsection \<open>Properties of the projection\<close>

text \<open>
  C7. When no filter is active (blank search, no selected category, status \<open>all\<close>),
  the effect does sort the whole collection, but \<open>displayedTasks\<close> renders
  \<open>tasks\<close> itself: the chosen sort option has no effect on the screen.
\<close>

theorem displayed_ignores_sort:
  assumes "js_trim q = []" and "\<not> js_truthy_id sel"
  shows "compute_filtered env ts FilterAll sel q so = apply_sort env so ts \<and>
    displayedTasks ts (compute_filtered env ts FilterAll sel q so) FilterAll sel q = ts"
  using assms by (simp add: compute_filtered_def displayedTasks_def filters_passes passes_def status_ok_def)

theorem displayed_ignores_sort_witness:
  "compute_filtered demo_env [rent8, milk7] FilterAll None [] DaysAsc = [milk7, rent8] \<and>
   displayedTasks [rent8, milk7] [milk7, rent8] FilterAll None [] = [rent8, milk7]"
proof -
  have h1: "js_trim [] = []" by (simp add: js_trim_def)
  have h2: "\<not> js_truthy_id None" by (simp add: js_truthy_id_def)
  have s: "apply_sort demo_env DaysAsc [rent8, milk7] = [milk7, rent8]"
    by (simp add: projection_eval)
  note th = displayed_ignores_sort [OF h1 h2, of demo_env "[rent8, milk7]" DaysAsc]
  from th s have c: "compute_filtered demo_env [rent8, milk7] FilterAll None [] DaysAsc = [milk7, rent8]"
    by (simp only:)
  from th have "displayedTasks [rent8, milk7] (compute_filtered demo_env [rent8, milk7] FilterAll None [] DaysAsc)
      FilterAll None [] = [rent8, milk7]" by (rule conjunct2)
  with c show ?thesis by (simp only:)
qed

text \<open>
  C8. The days-ascending sort is the stable sort by days remaining with the tasks that
  have no valid due date last: \<open>sort_key\<close> with the key \<open>asc_key\<close>.
\<close>

theorem daysAsc_sort_key:
  "apply_sort env DaysAsc xs = sort_key (\<lambda>t. asc_key (getDaysRemaining env (dueDate t))) xs"
  unfolding apply_sort.simps daysAsc_cmp_def
  by (rule js_sort_eq_sort_key) (rule js_after_days_asc)

text \<open>
  C9. The days-descending sort is the stable sort by days remaining, largest first,
  with the tasks that have no valid due date \<^emph>\<open>first\<close>: the comparator
  \<open>(daysB ?? Infinity) - (daysA ?? Infinity)\<close> puts an undated task before every dated
  one, where the specification ranks undated tasks last in both directions.
\<close>

theorem daysDesc_sort_key:
  "apply_sort env DaysDesc xs = sort_key (\<lambda>t. desc_key (getDaysRemaining env (dueDate t))) xs"
  unfolding apply_sort.simps daysDesc_cmp_def
  by (rule js_sort_eq_sort_key) (rule js_after_days_desc)

text \<open>
  The specification's scenario with the days-descending sort: for "Buy milk" (due
  2099-01-01) and "Pay rent" (no due date) the code ranks "Pay rent" first, not last.
\<close>

lemma daysDesc_scenario:
  "apply_sort demo_env DaysDesc [milk7, rent8] = [rent8, milk7]"
  by (simp add: projection_eval)

text \<open>
  The specification's first scenario: with the status filter \<open>active\<close>, no
  category, an empty search and no sort, the projection of ["Buy milk" (open),
  "Pay rent" (completed)] is exactly ["Buy milk"], and that is what is displayed.
\<close>

lemma active_filter_scenario:
  "compute_filtered demo_env [milk7, rent8] FilterActive None [] SortNone = [milk7] \<and>
   displayedTasks [milk7, rent8] [milk7] FilterActive None [] = [milk7]"
  by (simp add: projection_eval)

lemma search_filter_lower: "search_filter (js_toLowerCase q) xs = search_filter q xs"
  by (simp add: search_filter_def js_trim_lower_Nil_iff)

text \<open>
  C12. The search is a case-insensitive substring match on the title, with the query
  taken untrimmed. Whatever the other view settings, lower-casing the query changes
  nothing. A task passes the search exactly when the query is blank or the lower-cased
  query, with any leading or trailing blanks it has, occurs in the lower-cased title.
\<close>

theorem search_case_insensitive:
  "compute_filtered env ts f c (js_toLowerCase q) s = compute_filtered env ts f c q s \<and>
   (t \<in> set (search_filter q ts) \<longleftrightarrow>
      t \<in> set ts \<and> (js_trim q = [] \<or> sublist (js_toLowerCase q) (js_toLowerCase (title t))))"
proof
  show "compute_filtered env ts f c (js_toLowerCase q) s = compute_filtered env ts f c q s"
    by (simp add: compute_filtered_def search_filter_lower)
  show "t \<in> set (search_filter q ts) \<longleftrightarrow>
      t \<in> set ts \<and> (js_trim q = [] \<or> sublist (js_toLowerCase q) (js_toLowerCase (title t)))"
    by (auto simp: search_filter_def js_includes_sublist)
qed

text \<open>
  C13. Membership of the projection: whatever the sort option, the projection holds
  exactly the tasks of the collection that pass the status, category and search
  filters, each as often as in the collection.
\<close>

theorem projection_mset:
  "mset (compute_filtered env ts f sel q so) = mset (filter (passes f sel q) ts)"
  by (simp add: compute_filtered_def filters_passes)

text \<open>
  C14. The alphabetical sorts are stable sorts by title whenever the collation orders
  strings by some key: \<open>localeCompare a b\<close> is positive exactly when the key of
  \<open>a\<close> is the larger.
\<close>

theorem alphaAsc_sort_key:
  assumes "\<And>a b. 0 < localeCompare env a b \<longleftrightarrow> k b < k a"
  shows "apply_sort env AlphaAsc xs = sort_key (\<lambda>t. k (title t)) xs"
  unfolding apply_sort.simps
  by (rule js_sort_eq_sort_key) (simp add: alphaAsc_cmp_def js_after_def sort_compare_def assms)

theorem alphaAsc_sort_key_witness:
  "apply_sort demo_env AlphaAsc [rent8, milk7] = sort_key (\<lambda>t. title t) [rent8, milk7]"
proof -
  have h: "\<And>a b. 0 < localeCompare demo_env a b \<longleftrightarrow> b < a"
    by auto
  show ?thesis by (rule alphaAsc_sort_key [of demo_env "\<lambda>s. s", OF h])
qed

end
