(* ===== verification/Mirror.thy ===== *)
theory Mirror
  imports ObjectStore
begin

text \<open>
  The interface between the collection state of \<open>Home\<close> and an object store: an
  in-memory list \<^emph>\<open>mirrors\<close> a store when every record it holds is stored and its
  identifiers are pairwise distinct, and mirrors it \<^emph>\<open>exactly\<close> when it holds the same
  records. The lemmas are stated for any key path \<open>kp\<close>, so that the task handlers and
  the category handlers discharge their obligations with the same facts: appending the
  record \<open>add\<close> stored, replacing by key the record \<open>put\<close> stored under the same key,
  filtering out the key \<open>delete\<close> removed.
\<close>

definition mirrors :: "('v \<Rightarrow> 'k) \<Rightarrow> 'v list \<Rightarrow> 'v objstore \<Rightarrow> bool" where
  "mirrors kp mem st \<longleftrightarrow> set mem \<subseteq> set st \<and> distinct (map kp mem)"

definition mirrors_exactly :: "('v \<Rightarrow> 'k) \<Rightarrow> 'v list \<Rightarrow> 'v objstore \<Rightarrow> bool" where
  "mirrors_exactly kp mem st \<longleftrightarrow> set mem = set st \<and> distinct (map kp mem)"

named_theorems mirror_intros "the store operations keep a mirror"

lemma mirrors_exactly_mirrors: "mirrors_exactly kp mem st \<Longrightarrow> mirrors kp mem st"
  by (simp add: mirrors_def mirrors_exactly_def)

lemma mirrors_Nil [simp]: "mirrors kp [] st"
  by (simp add: mirrors_def)

lemma mirrors_exactly_keyed: "keyed kp st \<Longrightarrow> mirrors_exactly kp st st"
  by (simp add: mirrors_exactly_def keyed_def)

lemma set_replace_key:
  "set (replace_key kp k v xs) = {x \<in> set xs. kp x \<noteq> k} \<union> (if k \<in> kp ` set xs then {v} else {})"
  by (induction xs) auto

lemma set_replace_key_present:
  "k \<in> kp ` set xs \<Longrightarrow> set (replace_key kp k v xs) = insert v {x \<in> set xs. kp x \<noteq> k}"
  by (simp add: set_replace_key)

subsection \<open>Containment\<close>

lemma mirrors_add [mirror_intros]:
  assumes "mirrors kp mem st" and "os_add kp v st = Some st'"
  shows "mirrors kp (mem @ [v]) st'"
proof -
  from assms(2) have fresh: "kp v \<notin> kp ` set st" and st': "st' = insort_key kp v st"
    by (simp_all add: os_add_Some_iff os_lookup_None_iff)
  with assms(1) have "kp v \<notin> kp ` set mem" by (auto simp: mirrors_def)
  with assms(1) fresh show ?thesis by (auto simp: mirrors_def st' set_insort_key)
qed

lemma mirrors_put [mirror_intros]:
  assumes "mirrors kp mem st" and "kp v = k"
  shows "mirrors kp (replace_key kp k v mem) (os_put kp v st)"
proof -
  have "set (replace_key kp k v mem) \<subseteq> {x \<in> set mem. kp x \<noteq> k} \<union> {v}"
    by (rule set_replace_key_sub)
  with assms show ?thesis
    by (auto simp: mirrors_def set_os_put keys_replace_key)
qed

lemma mirrors_delete [mirror_intros]:
  "mirrors kp mem st \<Longrightarrow> mirrors kp (drop_key kp k mem) (os_delete kp k st)"
  by (auto simp: mirrors_def set_os_delete)

subsection \<open>Exact mirrors\<close>

lemma mirrors_exactly_add [mirror_intros]:
  assumes "mirrors_exactly kp mem st" and "os_add kp v st = Some st'"
  shows "mirrors_exactly kp (mem @ [v]) st'"
proof -
  from assms have "mirrors kp (mem @ [v]) st'"
    by (intro mirrors_add) (simp_all add: mirrors_exactly_mirrors)
  moreover from assms(2) have "set st' = insert v (set st)"
    by (simp add: os_add_Some_iff set_insort_key)
  ultimately show ?thesis using assms(1) by (auto simp: mirrors_def mirrors_exactly_def)
qed

lemma mirrors_exactly_put [mirror_intros]:
  assumes "mirrors_exactly kp mem st" and "kp v = k" and "k \<in> kp ` set st"
  shows "mirrors_exactly kp (replace_key kp k v mem) (os_put kp v st)"
proof -
  from assms(1,3) have "k \<in> kp ` set mem" by (simp add: mirrors_exactly_def)
  then have "set (replace_key kp k v mem) = insert v {x \<in> set mem. kp x \<noteq> k}"
    by (rule set_replace_key_present)
  with assms show ?thesis
    by (auto simp: mirrors_exactly_def set_os_put keys_replace_key)
qed

lemma mirrors_exactly_delete [mirror_intros]:
  "mirrors_exactly kp mem st \<Longrightarrow> mirrors_exactly kp (drop_key kp k mem) (os_delete kp k st)"
  by (auto simp: mirrors_exactly_def set_os_delete)

lemma mirrors_mono: "mirrors kp mem st \<Longrightarrow> set st \<subseteq> set st' \<Longrightarrow> mirrors kp mem st'"
  by (auto simp: mirrors_def)

lemma mirrors_lookup:
  assumes "keyed kp st" and "mirrors kp mem st" and "v \<in> set mem"
  shows "os_lookup kp st (kp v) = Some v"
  using assms by (auto simp: mirrors_def intro: os_lookup_in_set)

end
