(* ===== verification/Collection.thy ===== *)
theory Collection
  imports Db Projection Mirror
begin

text \<open>
  The collection state of \<open>src/app/page.tsx\<close>: the ten \<open>useState\<close> hooks of \<open>Home\<close>
  (lines 45 to 54) as the record \<open>HomeState\<close>, paired with the database in \<open>App\<close>.
  Each handler is one definition that calls the store function of \<open>Db\<close> and, only when
  it returns, applies the code's functional state update (\<open>setTasks(prev => ...)\<close>);
  a thrown error is caught and logged, which leaves the state as it was. The filtering
  effect (lines 72 to 119) runs after every state change (\<open>filter_effect\<close>). The user's
  intents are the datatype \<open>event\<close>, dispatched by \<open>home_step\<close> as the JSX wires the
  controls to the handlers (lines 207 to 291). Events carry what the environment
  decides: the storage outcome of each request and the clock reading of each creation.
  Handlers run one at a time, as the specification assumes (section 5).
\<close>

record HomeState =
  tasks :: "Task list"
  filteredTasks :: "Task list"
  categories :: "Category list"
  isAddModalOpen :: bool
  filterValue :: StatusFilter
  selectedCategory :: "ident option"
  searchQuery :: string
  sortOption :: SortOption
  language :: Language
  isLoading :: bool

record App =
  db :: Db
  home :: HomeState

definition initial_home :: HomeState where
  "initial_home =
     \<lparr>tasks = [], filteredTasks = [], categories = [], isAddModalOpen = False,
      filterValue = FilterAll, selectedCategory = None, searchQuery = [],
      sortOption = SortNone, language = En, isLoading = True\<rparr>"

definition filter_effect :: "ViewEnv \<Rightarrow> HomeState \<Rightarrow> HomeState" where
  "filter_effect env h =
     h\<lparr>filteredTasks := compute_filtered env (tasks h) (filterValue h) (selectedCategory h)
                          (searchQuery h) (sortOption h)\<rparr>"

text \<open>\<open>loadData\<close>: both reads are \<open>getAll\<close> calls that return \<open>[]\<close> on failure.\<close>

definition loadData :: "outcome \<Rightarrow> outcome \<Rightarrow> App \<Rightarrow> App" where
  "loadData ioT ioC a =
     (let h = (home a)\<lparr>isLoading := True\<rparr>;
          tasksData = getAllTasks ioT (db a);
          categoriesData = getAllCategories ioC (db a)
      in a\<lparr>home := h\<lparr>tasks := tasksData, categories := categoriesData, isLoading := False\<rparr>\<rparr>)"

subsection \<open>Handlers\<close>

definition handleAddTask :: "outcome \<Rightarrow> nat \<Rightarrow> NewTask \<Rightarrow> App \<Rightarrow> App" where
  "handleAddTask io now newTask a =
     (case addTask io now newTask (db a) of
        Inl error \<Rightarrow> a
      | Inr (addedTask, d) \<Rightarrow>
          a\<lparr>db := d, home := (home a)\<lparr>tasks := tasks (home a) @ [addedTask]\<rparr>\<rparr>)"

definition handleAddCategory :: "outcome \<Rightarrow> nat \<Rightarrow> NewCategory \<Rightarrow> App \<Rightarrow> App" where
  "handleAddCategory io now newCategory a =
     (case addCategory io now newCategory (db a) of
        Inl error \<Rightarrow> a
      | Inr (addedCategory, d) \<Rightarrow>
          a\<lparr>db := d, home := (home a)\<lparr>categories := categories (home a) @ [addedCategory]\<rparr>\<rparr>)"

definition handleEditTask :: "outcome \<Rightarrow> ident \<Rightarrow> TaskPatch \<Rightarrow> App \<Rightarrow> App" where
  "handleEditTask io i updates a =
     (case updateTask io i updates (db a) of
        Inl error \<Rightarrow> a
      | Inr (updatedTask, d) \<Rightarrow>
          a\<lparr>db := d, home := (home a)\<lparr>tasks := replace_key task_id i updatedTask (tasks (home a))\<rparr>\<rparr>)"

definition handleDeleteTask :: "outcome \<Rightarrow> ident \<Rightarrow> App \<Rightarrow> App" where
  "handleDeleteTask io i a =
     (case deleteTask io i (db a) of
        Inl error \<Rightarrow> a
      | Inr d \<Rightarrow> a\<lparr>db := d, home := (home a)\<lparr>tasks := drop_key task_id i (tasks (home a))\<rparr>\<rparr>)"

text \<open>
  \<open>handleUpdateCategory\<close> looks the category up in memory first and returns early when
  it is not there; only then does it call the store, with the merged record.
\<close>

definition handleUpdateCategory :: "outcome \<Rightarrow> ident \<Rightarrow> CategoryPatch \<Rightarrow> App \<Rightarrow> App" where
  "handleUpdateCategory io i updates a =
     (case find (\<lambda>c. cat_id c = i) (categories (home a)) of
        None \<Rightarrow> a
      | Some found \<Rightarrow>
          (let updatedCategory = merge_category found updates in
           case updateCategory io i updatedCategory (db a) of
             Inl error \<Rightarrow> a
           | Inr d \<Rightarrow>
               a\<lparr>db := d, home := (home a)\<lparr>categories :=
                  replace_key cat_id i updatedCategory (categories (home a))\<rparr>\<rparr>))"

definition handleDeleteCategory :: "outcome \<Rightarrow> ident \<Rightarrow> App \<Rightarrow> App" where
  "handleDeleteCategory io i a =
     (case deleteCategory io i (db a) of
        Inl error \<Rightarrow> a
      | Inr d \<Rightarrow>
          (let h = (home a)\<lparr>categories := drop_key cat_id i (categories (home a))\<rparr>
           in a\<lparr>db := d, home := (if selectedCategory (home a) = Some i
                                  then h\<lparr>selectedCategory := None\<rparr> else h)\<rparr>))"

subsection \<open>Events and the application step\<close>

datatype event =
    EvAddTask outcome nat NewTask
  | EvEditTask outcome ident TaskPatch
  | EvDeleteTask outcome ident
  | EvAddCategory outcome nat NewCategory
  | EvUpdateCategory outcome ident CategoryPatch
  | EvDeleteCategory outcome ident
  | EvSelectCategory "ident option"
  | EvSearch string
  | EvSetFilter StatusFilter
  | EvSetSort SortOption
  | EvLanguage Language
  | EvOpenModal
  | EvCloseModal

fun dispatch :: "event \<Rightarrow> App \<Rightarrow> App" where
  "dispatch (EvAddTask io now t) a = handleAddTask io now t a"
| "dispatch (EvEditTask io i u) a = handleEditTask io i u a"
| "dispatch (EvDeleteTask io i) a = handleDeleteTask io i a"
| "dispatch (EvAddCategory io now c) a = handleAddCategory io now c a"
| "dispatch (EvUpdateCategory io i u) a = handleUpdateCategory io i u a"
| "dispatch (EvDeleteCategory io i) a = handleDeleteCategory io i a"
| "dispatch (EvSelectCategory s) a = a\<lparr>home := (home a)\<lparr>selectedCategory := s\<rparr>\<rparr>"
| "dispatch (EvSearch q) a = a\<lparr>home := (home a)\<lparr>searchQuery := q\<rparr>\<rparr>"
| "dispatch (EvSetFilter f) a = a\<lparr>home := (home a)\<lparr>filterValue := f\<rparr>\<rparr>"
| "dispatch (EvSetSort s) a = a\<lparr>home := (home a)\<lparr>sortOption := s\<rparr>\<rparr>"
| "dispatch (EvLanguage l) a = a\<lparr>home := (home a)\<lparr>language := l\<rparr>\<rparr>"
| "dispatch EvOpenModal a = a\<lparr>home := (home a)\<lparr>isAddModalOpen := True\<rparr>\<rparr>"
| "dispatch EvCloseModal a = a\<lparr>home := (home a)\<lparr>isAddModalOpen := False\<rparr>\<rparr>"

definition home_step :: "ViewEnv \<Rightarrow> App \<Rightarrow> event \<Rightarrow> App" where
  "home_step env a e = (let a' = dispatch e a in a'\<lparr>home := filter_effect env (home a')\<rparr>)"

definition mount :: "ViewEnv \<Rightarrow> outcome \<Rightarrow> outcome \<Rightarrow> Db \<Rightarrow> App" where
  "mount env ioT ioC d =
     (let a = loadData ioT ioC \<lparr>db = d, home = initial_home\<rparr> in a\<lparr>home := filter_effect env (home a)\<rparr>)"

definition run :: "ViewEnv \<Rightarrow> App \<Rightarrow> event list \<Rightarrow> App" where
  "run env a es = fold (\<lambda>e a. home_step env a e) es a"

text \<open>
  The payloads the user interface sends: \<open>TaskItem\<close> edits with the whole task or
  \<open>{ ...task, completed }\<close>, so the identifier in the payload is the task's own;
  \<open>CategoryManager\<close> sends \<open>{ color }\<close> only.
\<close>

fun ui_event :: "event \<Rightarrow> bool" where
  "ui_event (EvEditTask io i u) = (upd_id u = None \<or> upd_id u = Some i)"
| "ui_event (EvUpdateCategory io i u) = (cupd_id u = None \<or> cupd_id u = Some i)"
| "ui_event e = True"

inductive reachable :: "ViewEnv \<Rightarrow> App \<Rightarrow> bool" for env where
  start: "db_wf d \<Longrightarrow> reachable env (mount env ioT ioC d)"
| step: "reachable env a \<Longrightarrow> ui_event e \<Longrightarrow> reachable env (home_step env a e)"

text \<open>The storage outcome an event carries, for the events that call the store.\<close>

fun store_outcome :: "event \<Rightarrow> outcome option" where
  "store_outcome (EvAddTask io now t) = Some io"
| "store_outcome (EvEditTask io i u) = Some io"
| "store_outcome (EvDeleteTask io i) = Some io"
| "store_outcome (EvAddCategory io now c) = Some io"
| "store_outcome (EvUpdateCategory io i u) = Some io"
| "store_outcome (EvDeleteCategory io i) = Some io"
| "store_outcome e = None"

subsection \<open>The consistency invariant\<close>

text \<open>
  \<open>mirrored\<close>: the stores are well formed and each in-memory collection mirrors its
  store (\<open>Mirror\<close>); \<open>consistent\<close> adds that the filtering effect has run;
  \<open>consistent_exactly\<close> asks for the same records in memory as in the stores.
\<close>

definition mirrored :: "App \<Rightarrow> bool" where
  "mirrored a \<longleftrightarrow>
     db_wf (db a) \<and>
     mirrors task_id (tasks (home a)) (store_tasks (db a)) \<and>
     mirrors cat_id (categories (home a)) (store_categories (db a))"



definition effect_done :: "ViewEnv \<Rightarrow> HomeState \<Rightarrow> bool" where
  "effect_done env h \<longleftrightarrow> filter_effect env h = h"

definition consistent :: "ViewEnv \<Rightarrow> App \<Rightarrow> bool" where
  "consistent env a \<longleftrightarrow>
     db_wf (db a) \<and>
     mirrors task_id (tasks (home a)) (store_tasks (db a)) \<and>
     mirrors cat_id (categories (home a)) (store_categories (db a)) \<and>
     effect_done env (home a)"

definition consistent_exactly :: "App \<Rightarrow> bool" where
  "consistent_exactly a \<longleftrightarrow>
     db_wf (db a) \<and>
     mirrors_exactly task_id (tasks (home a)) (store_tasks (db a)) \<and>
     mirrors_exactly cat_id (categories (home a)) (store_categories (db a))"

abbreviation two_db :: Db where
  "two_db \<equiv> \<lparr>store_tasks = [milk7, rent8], store_categories = []\<rparr>"

subsection \<open>Each handler keeps the mirror\<close>


lemma handleAddTask_mirrored: "mirrored a \<Longrightarrow> mirrored (handleAddTask io now t a)"
  by (auto simp: handleAddTask_def mirrored_def db_wf_def addTask_Inr
      intro: mirrors_add os_add_keyed split: sum.split)

lemma handleAddCategory_mirrored: "mirrored a \<Longrightarrow> mirrored (handleAddCategory io now c a)"
  by (auto simp: handleAddCategory_def mirrored_def db_wf_def addCategory_Inr
      intro: mirrors_add os_add_keyed split: sum.split)

lemma handleDeleteTask_mirrored: "mirrored a \<Longrightarrow> mirrored (handleDeleteTask io i a)"
  by (auto simp: handleDeleteTask_def mirrored_def db_wf_def deleteTask_Inr
      intro: mirrors_delete os_delete_keyed split: sum.split)

lemma handleDeleteCategory_mirrored: "mirrored a \<Longrightarrow> mirrored (handleDeleteCategory io i a)"
  by (auto simp: handleDeleteCategory_def mirrored_def db_wf_def deleteCategory_Inr Let_def
      intro: mirrors_delete os_delete_keyed split: sum.split)

lemma updateTask_Inr_key:
  assumes "updateTask io i u d = Inr (t', d')" and "upd_id u = None \<or> upd_id u = Some i"
  shows "task_id t' = i \<and> store_tasks d' = os_put task_id t' (store_tasks d) \<and>
    store_categories d' = store_categories d \<and> i \<in> task_id ` set (store_tasks d)"
proof -
  from assms(1) obtain t where t: "task_lookup d i = Some t" and t': "t' = merge_task t u"
    and d': "d' = d\<lparr>store_tasks := os_put task_id t' (store_tasks d)\<rparr>"
    by (auto simp: updateTask_Inr)
  from t have "t \<in> set (store_tasks d)" and "task_id t = i"
    unfolding task_lookup_def by (auto dest: os_lookup_Some_in_set)
  with assms(2) t' d' show ?thesis by (auto simp: task_id_merge_task)
qed

lemma handleEditTask_mirrored:
  "mirrored a \<Longrightarrow> upd_id u = None \<or> upd_id u = Some i \<Longrightarrow> mirrored (handleEditTask io i u a)"
  by (auto simp: handleEditTask_def mirrored_def db_wf_def
      dest!: updateTask_Inr_key intro: mirrors_put os_put_keyed split: sum.split)

lemma handleUpdateCategory_mirrored:
  assumes "mirrored a" and "cupd_id u = None \<or> cupd_id u = Some i"
  shows "mirrored (handleUpdateCategory io i u a)"
proof (cases "find (\<lambda>c. cat_id c = i) (categories (home a))")
  case None
  then show ?thesis using assms(1) by (simp add: handleUpdateCategory_def)
next
  case (Some c)
  then have "cat_id c = i" by (auto dest: find_key_Some)
  with assms(2) have key: "cat_id (merge_category c u) = i" by (auto simp: cat_id_merge_category)
  show ?thesis
    using Some assms(1) key
    by (auto simp: handleUpdateCategory_def mirrored_def db_wf_def updateCategory_Inr Let_def
        intro: mirrors_put os_put_keyed split: sum.split)
qed


lemma mirrored_set_home:
  "tasks h = tasks (home a) \<Longrightarrow> categories h = categories (home a) \<Longrightarrow>
     mirrored (a\<lparr>home := h\<rparr>) = mirrored a"
  by (simp add: mirrored_def)

lemmas handlers_mirrored = handleAddTask_mirrored handleAddCategory_mirrored
  handleDeleteTask_mirrored handleDeleteCategory_mirrored handleEditTask_mirrored
  handleUpdateCategory_mirrored

lemma mirrored_dispatch: "mirrored a \<Longrightarrow> ui_event e \<Longrightarrow> mirrored (dispatch e a)"
  by (cases e) (simp_all add: handlers_mirrored mirrored_set_home)

lemma filter_effect_fields [simp]:
  "tasks (filter_effect env h) = tasks h" "categories (filter_effect env h) = categories h"
  "selectedCategory (filter_effect env h) = selectedCategory h"
  by (simp_all add: filter_effect_def)

lemma effect_done_filter_effect: "effect_done env (filter_effect env h)"
  by (simp add: effect_done_def filter_effect_def)

lemma consistent_iff: "consistent env a \<longleftrightarrow> mirrored a \<and> effect_done env (home a)"
  by (simp add: consistent_def mirrored_def)

lemma home_step_consistent:
  "consistent env a \<Longrightarrow> ui_event e \<Longrightarrow> consistent env (home_step env a e)"
  using mirrored_dispatch [of a e]
  by (simp add: consistent_iff home_step_def Let_def effect_done_filter_effect mirrored_def)

lemma mount_consistent: "db_wf d \<Longrightarrow> consistent env (mount env ioT ioC d)"
  by (cases ioT; cases ioC)
    (auto simp: consistent_def mount_def loadData_def Let_def getAllTasks_def getAllCategories_def
      os_getAll_def db_wf_def effect_done_filter_effect intro: mirrors_exactly_mirrors mirrors_exactly_keyed)


subsection \<open>Exact mirrors after a successful load\<close>

lemma handleAddTask_exact: "consistent_exactly a \<Longrightarrow> consistent_exactly (handleAddTask io now t a)"
  by (auto simp: handleAddTask_def consistent_exactly_def db_wf_def addTask_Inr
      intro: mirrors_exactly_add os_add_keyed split: sum.split)

lemma handleAddCategory_exact: "consistent_exactly a \<Longrightarrow> consistent_exactly (handleAddCategory io now c a)"
  by (auto simp: handleAddCategory_def consistent_exactly_def db_wf_def addCategory_Inr
      intro: mirrors_exactly_add os_add_keyed split: sum.split)

lemma handleDeleteTask_exact: "consistent_exactly a \<Longrightarrow> consistent_exactly (handleDeleteTask io i a)"
  by (auto simp: handleDeleteTask_def consistent_exactly_def db_wf_def deleteTask_Inr
      intro: mirrors_exactly_delete os_delete_keyed split: sum.split)

lemma handleDeleteCategory_exact: "consistent_exactly a \<Longrightarrow> consistent_exactly (handleDeleteCategory io i a)"
  by (auto simp: handleDeleteCategory_def consistent_exactly_def db_wf_def deleteCategory_Inr Let_def
      intro: mirrors_exactly_delete os_delete_keyed split: sum.split)

lemma handleEditTask_exact:
  assumes "consistent_exactly a" and "upd_id u = None \<or> upd_id u = Some i"
  shows "consistent_exactly (handleEditTask io i u a)"
proof (cases "updateTask io i u (db a)")
  case (Inl e)
  then show ?thesis using assms(1) by (simp add: handleEditTask_def)
next
  case (Inr r)
  then obtain t' d' where u: "updateTask io i u (db a) = Inr (t', d')" by (cases r) auto
  note key = updateTask_Inr_key [OF u assms(2)]
  have "mirrors_exactly task_id (replace_key task_id i t' (tasks (home a)))
      (os_put task_id t' (store_tasks (db a)))"
    using assms(1) key by (intro mirrors_exactly_put) (auto simp: consistent_exactly_def)
  with u key assms(1) show ?thesis
    by (simp add: handleEditTask_def consistent_exactly_def db_wf_def os_put_keyed)
qed

lemma handleUpdateCategory_exact:
  assumes "consistent_exactly a" and "cupd_id u = None \<or> cupd_id u = Some i"
  shows "consistent_exactly (handleUpdateCategory io i u a)"
proof (cases "find (\<lambda>c. cat_id c = i) (categories (home a))")
  case None
  then show ?thesis using assms(1) by (simp add: handleUpdateCategory_def)
next
  case (Some c)
  then have c: "c \<in> set (categories (home a))" "cat_id c = i" by (auto dest: find_key_Some)
  with assms(1) have present: "i \<in> cat_id ` set (store_categories (db a))"
    by (auto simp: consistent_exactly_def mirrors_exactly_def)
  from c(2) assms(2) have key: "cat_id (merge_category c u) = i" by (auto simp: cat_id_merge_category)
  show ?thesis
    using Some assms(1) key present
    by (auto simp: handleUpdateCategory_def consistent_exactly_def db_wf_def updateCategory_Inr Let_def
        intro: mirrors_exactly_put os_put_keyed split: sum.split)
qed

lemma exact_set_home:
  "tasks h = tasks (home a) \<Longrightarrow> categories h = categories (home a) \<Longrightarrow>
     consistent_exactly (a\<lparr>home := h\<rparr>) = consistent_exactly a"
  by (simp add: consistent_exactly_def)

lemmas handlers_exact = handleAddTask_exact handleAddCategory_exact handleDeleteTask_exact
  handleDeleteCategory_exact handleEditTask_exact handleUpdateCategory_exact

lemma home_step_exact:
  "consistent_exactly a \<Longrightarrow> ui_event e \<Longrightarrow> consistent_exactly (home_step env a e)"
proof -
  assume "consistent_exactly a" "ui_event e"
  then have "consistent_exactly (dispatch e a)"
    by (cases e) (simp_all add: handlers_exact exact_set_home)
  then show ?thesis by (simp add: home_step_def Let_def exact_set_home)
qed

lemma run_exact:
  "consistent_exactly a \<Longrightarrow> list_all ui_event es \<Longrightarrow> consistent_exactly (run env a es)"
proof (induction es arbitrary: a)
  case Nil
  then show ?case by (simp add: run_def)
next
  case (Cons e es)
  then have "consistent_exactly (home_step env a e)" by (simp add: home_step_exact)
  with Cons.IH Cons.prems(2) show ?case by (simp add: run_def)
qed

lemma dispatch_failed: "store_outcome e = Some Failed \<Longrightarrow> dispatch e a = a"
  by (cases e) (auto simp: handleAddTask_def handleEditTask_def handleDeleteTask_def
      handleAddCategory_def handleUpdateCategory_def handleDeleteCategory_def Let_def
      split: option.split)

lemma db_wf_milk: "db_wf milk_db"
  by (simp add: db_wf_def keyed_def with_task_id_def)

lemma reachable_consistent_inv:
  assumes "reachable env a"
  shows "consistent env a"
  using assms
proof (induction rule: reachable.induct)
  case (start d ioT ioC)
  then show ?case by (rule mount_consistent)
next
  case (step a e)
  from step.IH step.hyps(2) show ?case by (rule home_step_consistent)
qed

lemma effect_done_filtered:
  "effect_done env h \<Longrightarrow>
     filteredTasks h = compute_filtered env (tasks h) (filterValue h) (selectedCategory h) (searchQuery h) (sortOption h)"
  unfolding effect_done_def filter_effect_def by (metis HomeState.select_convs(2) HomeState.surjective HomeState.update_convs(2))

subsection \<open>Properties of the collection state\<close>

text \<open>
  C15. In every state the application reaches from a load of a well-formed database
  through events the user interface can send, the stores are well formed, every task
  and category held in memory is stored, the identifiers held in memory are pairwise
  distinct, and \<open>filteredTasks\<close> is the projection of the current state.
\<close>

theorem reachable_consistent:
  assumes "reachable env a"
  shows "db_wf (db a) \<and>
    set (tasks (home a)) \<subseteq> set (store_tasks (db a)) \<and> distinct (map task_id (tasks (home a))) \<and>
    set (categories (home a)) \<subseteq> set (store_categories (db a)) \<and>
    distinct (map cat_id (categories (home a))) \<and>
    filteredTasks (home a) = compute_filtered env (tasks (home a)) (filterValue (home a))
      (selectedCategory (home a)) (searchQuery (home a)) (sortOption (home a))"
proof -
  from assms have "consistent env a" by (rule reachable_consistent_inv)
  then show ?thesis by (simp add: consistent_def mirrors_def effect_done_filtered)
qed

theorem reachable_consistent_witness:
  "reachable demo_env (mount demo_env Committed Committed milk_db) \<and>
   db_wf (db (mount demo_env Committed Committed milk_db)) \<and>
   set (tasks (home (mount demo_env Committed Committed milk_db))) \<subseteq>
     set (store_tasks (db (mount demo_env Committed Committed milk_db))) \<and>
   distinct (map task_id (tasks (home (mount demo_env Committed Committed milk_db)))) \<and>
   set (categories (home (mount demo_env Committed Committed milk_db))) \<subseteq>
     set (store_categories (db (mount demo_env Committed Committed milk_db))) \<and>
   distinct (map cat_id (categories (home (mount demo_env Committed Committed milk_db)))) \<and>
   filteredTasks (home (mount demo_env Committed Committed milk_db)) =
     compute_filtered demo_env (tasks (home (mount demo_env Committed Committed milk_db)))
       (filterValue (home (mount demo_env Committed Committed milk_db)))
       (selectedCategory (home (mount demo_env Committed Committed milk_db)))
       (searchQuery (home (mount demo_env Committed Committed milk_db)))
       (sortOption (home (mount demo_env Committed Committed milk_db)))"
proof -
  have r: "reachable demo_env (mount demo_env Committed Committed milk_db)"
    using db_wf_milk by (rule reachable.start)
  from r reachable_consistent [OF r] show ?thesis by (rule conjI)
qed

text \<open>
  C16. When the initial load succeeds, every sequence of events the user interface can
  send keeps the in-memory collections holding exactly the records of the stores, with
  unique identifiers, whatever the storage outcomes of the requests.
\<close>

theorem loaded_run_exact:
  assumes "db_wf d" and "list_all ui_event es"
  shows "consistent_exactly (run env (mount env Committed Committed d) es)"
proof -
  from assms(1) have "consistent_exactly (mount env Committed Committed d)"
    by (simp add: consistent_exactly_def mount_def loadData_def Let_def getAllTasks_def
        getAllCategories_def os_getAll_def db_wf_def mirrors_exactly_keyed)
  then show ?thesis using assms(2) by (rule run_exact)
qed

theorem loaded_run_exact_witness:
  "db_wf milk_db \<and> list_all ui_event [EvAddTask Committed 8 pay_rent, EvDeleteTask Failed ''7''] \<and>
   consistent_exactly (run demo_env (mount demo_env Committed Committed milk_db)
     [EvAddTask Committed 8 pay_rent, EvDeleteTask Failed ''7''])"
proof -
  have h: "list_all ui_event [EvAddTask Committed 8 pay_rent, EvDeleteTask Failed ''7'']" by simp
  from db_wf_milk h loaded_run_exact [OF db_wf_milk h] show ?thesis by (intro conjI)
qed

text \<open>
  C17. All or nothing: an event whose store request fails leaves the whole application,
  the database and the in-memory state, exactly as it was.
\<close>

theorem failed_store_event_noop:
  assumes "consistent env a" and "store_outcome e = Some Failed"
  shows "home_step env a e = a"
proof -
  from assms(1) have "filter_effect env (home a) = home a"
    by (simp add: consistent_def effect_done_def)
  with assms(2) show ?thesis by (simp add: home_step_def dispatch_failed)
qed

theorem failed_store_event_noop_witness:
  "consistent demo_env (mount demo_env Committed Committed milk_db) \<and>
   store_outcome (EvAddTask Failed 8 pay_rent) = Some Failed \<and>
   home_step demo_env (mount demo_env Committed Committed milk_db) (EvAddTask Failed 8 pay_rent) =
     mount demo_env Committed Committed milk_db"
proof -
  have h1: "consistent demo_env (mount demo_env Committed Committed milk_db)"
    using db_wf_milk by (rule mount_consistent)
  have h2: "store_outcome (EvAddTask Failed 8 pay_rent) = Some Failed" by simp
  from h1 h2 failed_store_event_noop [OF h1 h2] show ?thesis by (intro conjI)
qed

text \<open>
  C18. Deleting the category that is the active selection filter clears the selection,
  and the category is gone from the store and from memory.
\<close>

theorem delete_selected_category:
  assumes "selectedCategory (home a) = Some i"
  shows "selectedCategory (home (home_step env a (EvDeleteCategory Committed i))) = None \<and>
    cat_lookup (db (home_step env a (EvDeleteCategory Committed i))) i = None \<and>
    i \<notin> cat_id ` set (categories (home (home_step env a (EvDeleteCategory Committed i))))"
  using assms
  by (auto simp: home_step_def handleDeleteCategory_def deleteCategory_def cat_lookup_def
      os_lookup_delete Let_def)

theorem delete_selected_category_witness:
  "selectedCategory (home \<lparr>db = empty_db, home = initial_home\<lparr>selectedCategory := Some ''9''\<rparr>\<rparr>) = Some ''9'' \<and>
   selectedCategory (home (home_step demo_env \<lparr>db = empty_db, home = initial_home\<lparr>selectedCategory := Some ''9''\<rparr>\<rparr>
      (EvDeleteCategory Committed ''9''))) = None"
proof -
  have h: "selectedCategory (home \<lparr>db = empty_db, home = initial_home\<lparr>selectedCategory := Some ''9''\<rparr>\<rparr>) = Some ''9''"
    by simp
  from h delete_selected_category [OF h, of demo_env] show ?thesis by simp
qed

text \<open>
  C19. Deleting a category does not cascade: the in-memory tasks and the task store are
  untouched, so tasks keep their (now dangling) category reference.
\<close>

theorem delete_category_keeps_tasks:
  "tasks (home (home_step env a (EvDeleteCategory io i))) = tasks (home a) \<and>
   store_tasks (db (home_step env a (EvDeleteCategory io i))) = store_tasks (db a)"
  by (simp add: home_step_def handleDeleteCategory_def deleteCategory_Inr Let_def split: sum.split)

lemma merge_task_id: "upd_id u = Some j \<Longrightarrow> task_id (merge_task t u) = j"
  by (simp add: merge_task_def)

text \<open>
  C20. The containment invariant depends on the payloads the interface sends. In any
  consistent state, an edit of one task whose payload carries the identifier of another
  task in memory (allowed by the loose \<open>Partial<Task>\<close> type) commits, and leaves two
  tasks with that identifier in memory.
\<close>

theorem id_changing_patch_breaks_consistency:
  assumes "consistent env a" and "t1 \<in> set (tasks (home a))" and "t2 \<in> set (tasks (home a))"
    and "task_id t1 \<noteq> task_id t2" and "upd_id u = Some (task_id t2)"
  shows "\<not> consistent env (home_step env a (EvEditTask Committed (task_id t1) u))"
proof -
  from assms(1,2) have "task_lookup (db a) (task_id t1) = Some t1"
    by (auto simp: consistent_def db_wf_def task_lookup_def intro: mirrors_lookup)
  then have upd: "updateTask Committed (task_id t1) u (db a) =
      Inr (merge_task t1 u, (db a)\<lparr>store_tasks := os_put task_id (merge_task t1 u) (store_tasks (db a))\<rparr>)"
    by (simp add: updateTask_Inr)
  have "map task_id (tasks (home (home_step env a (EvEditTask Committed (task_id t1) u)))) =
      map (\<lambda>x. if x = task_id t1 then task_id t2 else x) (map task_id (tasks (home a)))"
    using assms(5) by (simp add: home_step_def handleEditTask_def upd keys_replace_key_rename merge_task_id)
  moreover from assms(2,3,4) have "\<not> distinct (map (\<lambda>x. if x = task_id t1 then task_id t2 else x)
      (map task_id (tasks (home a))))"
    by (intro rename_not_distinct) simp_all
  ultimately show ?thesis by (simp add: consistent_def mirrors_def)
qed

theorem id_changing_patch_breaks_consistency_witness:
  "consistent demo_env (mount demo_env Committed Committed two_db) \<and>
   milk7 \<in> set (tasks (home (mount demo_env Committed Committed two_db))) \<and>
   rent8 \<in> set (tasks (home (mount demo_env Committed Committed two_db))) \<and>
   task_id milk7 \<noteq> task_id rent8 \<and> upd_id (no_task_patch\<lparr>upd_id := Some ''8''\<rparr>) = Some (task_id rent8) \<and>
   \<not> consistent demo_env (home_step demo_env (mount demo_env Committed Committed two_db)
        (EvEditTask Committed (task_id milk7) (no_task_patch\<lparr>upd_id := Some ''8''\<rparr>)))"
proof -
  have "db_wf two_db" by (simp add: db_wf_def keyed_def with_task_id_def)
  then have c: "consistent demo_env (mount demo_env Committed Committed two_db)" by (rule mount_consistent)
  have ts: "tasks (home (mount demo_env Committed Committed two_db)) = [milk7, rent8]"
    by (simp add: mount_def loadData_def getAllTasks_def os_getAll_def Let_def)
  have m1: "milk7 \<in> set (tasks (home (mount demo_env Committed Committed two_db)))" by (simp add: ts)
  have m2: "rent8 \<in> set (tasks (home (mount demo_env Committed Committed two_db)))" by (simp add: ts)
  have ne: "task_id milk7 \<noteq> task_id rent8" by (simp add: with_task_id_def)
  have u: "upd_id (no_task_patch\<lparr>upd_id := Some ''8''\<rparr>) = Some (task_id rent8)" by (simp add: with_task_id_def)
  from c m1 m2 ne u id_changing_patch_breaks_consistency [OF c m1 m2 ne u] show ?thesis by simp
qed

text \<open>
  C21. A failed initial read of the tasks is silent. The state \<open>Home\<close> reaches is
  exactly the one it reaches after loading a database with no tasks: nothing in it
  records the failure. When tasks are stored, the collection then no longer mirrors the
  store.
\<close>

theorem failed_load_not_exact:
  "home (mount env Failed ioC d) = home (mount env Committed ioC (d\<lparr>store_tasks := []\<rparr>)) \<and>
   (store_tasks d \<noteq> [] \<longrightarrow> \<not> consistent_exactly (mount env Failed ioC d))"
  by (auto simp: mount_def loadData_def getAllTasks_def getAllCategories_def os_getAll_def Let_def
      consistent_exactly_def mirrors_exactly_def split: outcome.split)

theorem failed_load_not_exact_witness:
  "store_tasks milk_db \<noteq> [] \<and> \<not> consistent_exactly (mount demo_env Failed Committed milk_db)"
proof -
  have h: "store_tasks milk_db \<noteq> []" by simp
  from h failed_load_not_exact [of demo_env Committed milk_db] show ?thesis by simp
qed

lemma fresh_clock_reading: "finite A \<Longrightarrow> \<exists>now. dec_string now \<notin> A"
proof -
  assume "finite A"
  moreover have "infinite (range dec_string)"
    using finite_imageD [of dec_string UNIV] by (auto simp: inj_def dec_string_inj)
  ultimately have "\<not> range dec_string \<subseteq> A" using finite_subset by blast
  then show ?thesis by blast
qed

text \<open>
  C11. The user can always add a task: whatever the state of the application, some
  clock reading makes \<open>addTask\<close> commit, and the new task is then stored under its
  identifier and appended to \<open>Home\<close>'s collection. The clock advancing past the
  readings used so far is all that is needed; no state is stuck.
\<close>

theorem add_task_progress:
  "\<exists>now. tasks (home (home_step env a (EvAddTask Committed now t))) =
           tasks (home a) @ [with_task_id t (dec_string now)] \<and>
         task_lookup (db (home_step env a (EvAddTask Committed now t))) (dec_string now) =
           Some (with_task_id t (dec_string now))"
proof -
  obtain now where fresh: "dec_string now \<notin> task_id ` set (store_tasks (db a))"
    using fresh_clock_reading [of "task_id ` set (store_tasks (db a))"] by auto
  then have "os_lookup task_id (store_tasks (db a)) (dec_string now) = None"
    by (simp add: os_lookup_None_iff)
  with fresh show ?thesis
    by (intro exI [of _ now])
      (simp add: home_step_def handleAddTask_def addTask_fresh task_lookup_def os_lookup_insort_fresh)
qed

end
