(* ===== verification/Components.thy ===== *)
theory Components
  imports Collection
begin

text \<open>
  The presentation components of \<open>src/app/components/\<close> that \<open>Home\<close> renders: each is a
  record of its \<open>useState\<close> hooks and a step function on its inputs (clicks, typing,
  submits), returning the new state and the callbacks it invokes, as a list of
  \<open>intent\<close>s. An input is only processed when the JSX renders the control that
  receives it (the editing branch of \<open>TaskItem\<close>, the form of \<open>CategoryManager\<close> while
  \<open>isAdding\<close>, the modal while it is rendered and open); otherwise the step does
  nothing. \<open>intent_event\<close> turns an intent into the event of \<open>Collection\<close> that the
  callback triggers, given the storage outcome and the clock reading.
\<close>

datatype intent =
    IAddTask NewTask
  | IEditTask ident TaskPatch
  | IDeleteTask ident
  | IAddCategory NewCategory
  | IUpdateCategory ident CategoryPatch
  | IDeleteCategory ident
  | ISelectCategory "ident option"
  | ISearch string
  | ILanguage Language
  | ICloseModal

fun intent_event :: "outcome \<Rightarrow> nat \<Rightarrow> intent \<Rightarrow> event" where
  "intent_event io now (IAddTask t) = EvAddTask io now t"
| "intent_event io now (IEditTask i u) = EvEditTask io i u"
| "intent_event io now (IDeleteTask i) = EvDeleteTask io i"
| "intent_event io now (IAddCategory c) = EvAddCategory io now c"
| "intent_event io now (IUpdateCategory i u) = EvUpdateCategory io i u"
| "intent_event io now (IDeleteCategory i) = EvDeleteCategory io i"
| "intent_event io now (ISelectCategory s) = EvSelectCategory s"
| "intent_event io now (ISearch q) = EvSearch q"
| "intent_event io now (ILanguage l) = EvLanguage l"
| "intent_event io now ICloseModal = EvCloseModal"

subsection \<open>TaskItem\<close>

text \<open>
  \<open>TaskItem.tsx\<close>: \<open>editedTask\<close> is initialised from the \<open>task\<close> prop when the item
  mounts (\<open>useState(task)\<close>) and is never reset from it afterwards; the prop is the
  first argument of the step. The toggle sends \<open>{ ...task, completed: !task.completed }\<close>,
  the save button sends \<open>editedTask\<close> as it stands.
\<close>

record TaskItemState =
  isEditing :: bool
  editedTask :: Task

definition taskItem_mount :: "Task \<Rightarrow> TaskItemState" where
  "taskItem_mount task = \<lparr>isEditing = False, editedTask = task\<rparr>"

datatype item_input =
    ItemToggle
  | ItemStartEdit
  | ItemDelete
  | ItemSetTitle string
  | ItemSetDescription string
  | ItemSetCategory ident
  | ItemSetDueDate string
  | ItemCancel
  | ItemSave

fun taskItem_step :: "Task \<Rightarrow> TaskItemState \<Rightarrow> item_input \<Rightarrow> TaskItemState \<times> intent list" where
  "taskItem_step task s ItemToggle =
     (if isEditing s then (s, [])
      else (s, [IEditTask (task_id task) (full_patch (task\<lparr>completed := \<not> completed task\<rparr>))]))"
| "taskItem_step task s ItemStartEdit = (if isEditing s then (s, []) else (s\<lparr>isEditing := True\<rparr>, []))"
| "taskItem_step task s ItemDelete =
     (if isEditing s then (s, []) else (s, [IDeleteTask (task_id task)]))"
| "taskItem_step task s (ItemSetTitle v) =
     (if isEditing s then (s\<lparr>editedTask := (editedTask s)\<lparr>title := v\<rparr>\<rparr>, []) else (s, []))"
| "taskItem_step task s (ItemSetDescription v) =
     (if isEditing s then (s\<lparr>editedTask := (editedTask s)\<lparr>description := v\<rparr>\<rparr>, []) else (s, []))"
| "taskItem_step task s (ItemSetCategory v) =
     (if isEditing s then (s\<lparr>editedTask := (editedTask s)\<lparr>category := v\<rparr>\<rparr>, []) else (s, []))"
| "taskItem_step task s (ItemSetDueDate v) =
     (if isEditing s then (s\<lparr>editedTask := (editedTask s)\<lparr>dueDate := v\<rparr>\<rparr>, []) else (s, []))"
| "taskItem_step task s ItemCancel = (if isEditing s then (s\<lparr>isEditing := False\<rparr>, []) else (s, []))"
| "taskItem_step task s ItemSave =
     (if isEditing s then (s\<lparr>isEditing := False\<rparr>, [IEditTask (task_id task) (full_patch (editedTask s))])
      else (s, []))"

text \<open>
  The states an item reaches while it stays mounted: React keys the items by
  \<open>task.id\<close>, so every prop it is rendered with has the identifier it mounted with.
\<close>

inductive item_reachable :: "ident \<Rightarrow> TaskItemState \<Rightarrow> bool" for i where
  mount: "task_id t = i \<Longrightarrow> item_reachable i (taskItem_mount t)"
| step: "item_reachable i s \<Longrightarrow> task_id task = i \<Longrightarrow> taskItem_step task s inp = (s', is) \<Longrightarrow>
    item_reachable i s'"

text \<open>What the item renders besides the task's own fields (lines 35 and 165 to 184).\<close>

definition category_shown :: "Category list \<Rightarrow> Task \<Rightarrow> Category option" where
  "category_shown cats task = find (\<lambda>c. cat_id c = category task) cats"

definition days_left_badge :: "ViewEnv \<Rightarrow> Task \<Rightarrow> int option" where
  "days_left_badge env task =
     (if dueDate task = [] then None
      else case getDaysRemaining env (dueDate task) of
             Some n \<Rightarrow> if 0 < n then Some n else None
           | None \<Rightarrow> None)"

text \<open>
  \<open>formatDate\<close> (lines 46 to 51): the empty string for a missing or unparsable date,
  otherwise date-fns \<open>format(date, "MMM dd, yyyy")\<close>, the argument \<open>fmt\<close>.
\<close>

definition formatDate :: "ViewEnv \<Rightarrow> (int \<Rightarrow> string) \<Rightarrow> string \<Rightarrow> string" where
  "formatDate env fmt dateStr =
     (if dateStr = [] then [] else case parse_date env dateStr of None \<Rightarrow> [] | Some date \<Rightarrow> fmt date)"

subsection \<open>AddTaskModal\<close>

text \<open>
  \<open>AddTaskModal.tsx\<close>: the form record \<open>newTask\<close> starts with today's date as due date
  (\<open>new Date().toISOString().split("T")[0]\<close>, the argument \<open>today\<close>) and
  \<open>completed: false\<close>; \<open>shouldRender\<close> follows \<open>isOpen\<close> through an effect and the
  closing animation. The prop \<open>isOpen\<close> is the first argument of the step.
\<close>

record ModalState =
  shouldRender :: bool
  newTask :: NewTask

definition empty_form :: "string \<Rightarrow> NewTask" where
  "empty_form today =
     \<lparr>title = [], description = [], category = [], dueDate = today, completed = False\<rparr>"

definition modal_mount :: "string \<Rightarrow> ModalState" where
  "modal_mount today = \<lparr>shouldRender = False, newTask = empty_form today\<rparr>"

datatype modal_input =
    ModalOpenEffect
  | ModalAnimationComplete
  | ModalSetTitle string
  | ModalSetDescription string
  | ModalSetCategory ident
  | ModalSetDueDate string
  | ModalSubmit string
  | ModalClose

definition modal_visible :: "bool \<Rightarrow> ModalState \<Rightarrow> bool" where
  "modal_visible isOpen s \<longleftrightarrow> shouldRender s \<and> isOpen"

fun modal_step :: "bool \<Rightarrow> ModalState \<Rightarrow> modal_input \<Rightarrow> ModalState \<times> intent list" where
  "modal_step isOpen s ModalOpenEffect = (if isOpen then s\<lparr>shouldRender := True\<rparr> else s, [])"
| "modal_step isOpen s ModalAnimationComplete = (if \<not> isOpen then s\<lparr>shouldRender := False\<rparr> else s, [])"
| "modal_step isOpen s (ModalSetTitle v) =
     (if modal_visible isOpen s then s\<lparr>newTask := (newTask s)\<lparr>title := v\<rparr>\<rparr> else s, [])"
| "modal_step isOpen s (ModalSetDescription v) =
     (if modal_visible isOpen s then s\<lparr>newTask := (newTask s)\<lparr>description := v\<rparr>\<rparr> else s, [])"
| "modal_step isOpen s (ModalSetCategory v) =
     (if modal_visible isOpen s then s\<lparr>newTask := (newTask s)\<lparr>category := v\<rparr>\<rparr> else s, [])"
| "modal_step isOpen s (ModalSetDueDate v) =
     (if modal_visible isOpen s then s\<lparr>newTask := (newTask s)\<lparr>dueDate := v\<rparr>\<rparr> else s, [])"
| "modal_step isOpen s (ModalSubmit today) =
     (if modal_visible isOpen s \<and> js_trim (title (newTask s)) \<noteq> []
      then (s\<lparr>newTask := empty_form today\<rparr>, [IAddTask (newTask s), ICloseModal])
      else (s, []))"
| "modal_step isOpen s ModalClose = (s, if modal_visible isOpen s then [ICloseModal] else [])"

inductive modal_reachable :: "ModalState \<Rightarrow> bool" where
  mount: "modal_reachable (modal_mount today)"
| step: "modal_reachable s \<Longrightarrow> modal_step isOpen s inp = (s', is) \<Longrightarrow> modal_reachable s'"

subsection \<open>CategoryManager\<close>

text \<open>
  \<open>CategoryManager.tsx\<close>: the add form trims the name and refuses a blank one; the
  edit controls of a category send only \<open>{ color }\<close>; the delete button is rendered
  for the categories not being edited.
\<close>

record CatMgrState =
  isAdding :: bool
  newCategoryName :: string
  selectedColor :: PresetColor
  editingCategory :: "ident option"
  editingColor :: PresetColor

definition catmgr_mount :: CatMgrState where
  "catmgr_mount =
     \<lparr>isAdding = False, newCategoryName = [], selectedColor = Red, editingCategory = None,
      editingColor = Red\<rparr>"

definition no_category_patch :: CategoryPatch where
  "no_category_patch = \<lparr>cupd_id = None, cupd_name = None, cupd_color = None\<rparr>"

datatype catmgr_input =
    CmToggleAdding
  | CmSetName string
  | CmPickColor PresetColor
  | CmSubmit
  | CmSelect "ident option"
  | CmStartEditing Category
  | CmPickEditColor PresetColor
  | CmEditSubmit ident
  | CmCancelEdit
  | CmDelete ident

fun catmgr_step :: "CatMgrState \<Rightarrow> catmgr_input \<Rightarrow> CatMgrState \<times> intent list" where
  "catmgr_step s CmToggleAdding = (s\<lparr>isAdding := \<not> isAdding s\<rparr>, [])"
| "catmgr_step s (CmSetName v) = (if isAdding s then s\<lparr>newCategoryName := v\<rparr> else s, [])"
| "catmgr_step s (CmPickColor c) = (if isAdding s then s\<lparr>selectedColor := c\<rparr> else s, [])"
| "catmgr_step s CmSubmit =
     (if isAdding s \<and> js_trim (newCategoryName s) \<noteq> []
      then (s\<lparr>newCategoryName := [], isAdding := False\<rparr>,
            [IAddCategory \<lparr>name = js_trim (newCategoryName s), color = selectedColor s\<rparr>])
      else (s, []))"
| "catmgr_step s (CmSelect c) = (s, [ISelectCategory c])"
| "catmgr_step s (CmStartEditing c) =
     (if editingCategory s = Some (cat_id c) then (s, [])
      else (s\<lparr>editingCategory := Some (cat_id c), editingColor := color c\<rparr>, []))"
| "catmgr_step s (CmPickEditColor c) =
     (if editingCategory s = None then s else s\<lparr>editingColor := c\<rparr>, [])"
| "catmgr_step s (CmEditSubmit i) =
     (if editingCategory s = Some i
      then (s\<lparr>editingCategory := None\<rparr>, [IUpdateCategory i (no_category_patch\<lparr>cupd_color := Some (editingColor s)\<rparr>)])
      else (s, []))"
| "catmgr_step s CmCancelEdit = (s\<lparr>editingCategory := None\<rparr>, [])"
| "catmgr_step s (CmDelete i) =
     (if editingCategory s = Some i then (s, []) else (s, [IDeleteCategory i]))"

subsection \<open>SearchBar, LanguageToggle, ThemeToggle\<close>

definition searchBar_change :: "string \<Rightarrow> intent list" where
  "searchBar_change value = [ISearch value]"

record LanguageToggleState =
  isEnglish :: bool

definition languageToggle_mount :: LanguageToggleState where
  "languageToggle_mount = \<lparr>isEnglish = True\<rparr>"

definition toggleLanguage :: "LanguageToggleState \<Rightarrow> LanguageToggleState \<times> intent list" where
  "toggleLanguage s =
     (let newIsEnglish = \<not> isEnglish s
      in (s\<lparr>isEnglish := newIsEnglish\<rparr>, [ILanguage (if newIsEnglish then En else Fa)]))"

text \<open>
  \<open>ThemeToggle.tsx\<close>: besides its \<open>isDark\<close> hook, the component touches two pieces of
  browser state, the \<open>dark\<close> class of the document element and the \<open>theme\<close> key of
  localStorage.
\<close>

record ThemeState =
  isDark :: bool
  doc_dark :: bool
  stored_theme :: "string option"

definition themeToggle_mount :: "ThemeState \<Rightarrow> ThemeState" where
  "themeToggle_mount s = s\<lparr>isDark := doc_dark s\<rparr>"

definition toggleTheme :: "ThemeState \<Rightarrow> ThemeState" where
  "toggleTheme s =
     (let newIsDark = \<not> isDark s
      in s\<lparr>isDark := newIsDark, doc_dark := newIsDark,
           stored_theme := Some (if newIsDark then ''dark'' else ''light'')\<rparr>)"

subsection \<open>Invariants of the components\<close>

lemma modal_step_not_completed:
  "\<not> completed (newTask s) \<Longrightarrow> modal_step isOpen s inp = (s', is) \<Longrightarrow> \<not> completed (newTask s')"
  by (cases inp) (auto simp: empty_form_def split: if_splits)

lemma modal_reachable_not_completed: "modal_reachable s \<Longrightarrow> \<not> completed (newTask s)"
  by (induction rule: modal_reachable.induct)
    (auto simp: modal_mount_def empty_form_def dest: modal_step_not_completed)

lemma item_step_id:
  "task_id (editedTask s) = i \<Longrightarrow> taskItem_step task s inp = (s', is) \<Longrightarrow> task_id (editedTask s') = i"
  by (cases inp) (auto split: if_splits)

lemma item_reachable_id: "item_reachable i s \<Longrightarrow> task_id (editedTask s) = i"
proof (induction rule: item_reachable.induct)
  case (mount t)
  then show ?case by (simp add: taskItem_mount_def)
next
  case (step s task inp s' out)
  from step.IH step.hyps(3) show ?case by (rule item_step_id)
qed

lemma full_patch_id [simp]: "upd_id (full_patch t) = Some (task_id t)"
  by (simp add: full_patch_def)

lemma item_intents:
  "taskItem_step task s inp = (s', is) \<Longrightarrow> ev \<in> set is \<Longrightarrow>
     ev = IEditTask (task_id task) (full_patch (task\<lparr>completed := \<not> completed task\<rparr>)) \<or>
     ev = IEditTask (task_id task) (full_patch (editedTask s)) \<or> ev = IDeleteTask (task_id task)"
  by (cases inp) (auto split: if_splits)

lemma catmgr_intents:
  "catmgr_step s inp = (s', is) \<Longrightarrow> ev \<in> set is \<Longrightarrow>
     (\<exists>c. ev = IAddCategory c \<and> c = \<lparr>name = js_trim (newCategoryName s), color = selectedColor s\<rparr> \<and>
        js_trim (newCategoryName s) \<noteq> []) \<or>
     (\<exists>i. ev = IUpdateCategory i (no_category_patch\<lparr>cupd_color := Some (editingColor s)\<rparr>)) \<or>
     (\<exists>i. ev = IDeleteCategory i) \<or> (\<exists>c. ev = ISelectCategory c)"
  by (cases inp) (auto split: if_splits)

subsection \<open>Properties of the components\<close>

text \<open>
  C22. Every task the add-task modal submits has a title that is not blank and is not
  completed: the submit handler refuses a blank title, and no input of the form sets
  \<open>completed\<close>.
\<close>

theorem modal_submits_valid_task:
  assumes "modal_reachable s" and "modal_step isOpen s inp = (s', is)" and "IAddTask t \<in> set is"
  shows "js_trim (title t) \<noteq> [] \<and> \<not> completed t"
proof -
  from assms(2,3) have "t = newTask s \<and> js_trim (title t) \<noteq> []"
    by (cases inp) (auto split: if_splits)
  with modal_reachable_not_completed [OF assms(1)] show ?thesis by auto
qed

theorem modal_submits_valid_task_witness:
  "modal_reachable \<lparr>shouldRender = True, newTask = (empty_form ''2024-01-01'')\<lparr>title := ''Buy milk''\<rparr>\<rparr> \<and>
   modal_step True \<lparr>shouldRender = True, newTask = (empty_form ''2024-01-01'')\<lparr>title := ''Buy milk''\<rparr>\<rparr>
     (ModalSubmit ''2024-01-02'') =
     (\<lparr>shouldRender = True, newTask = empty_form ''2024-01-02''\<rparr>,
      [IAddTask ((empty_form ''2024-01-01'')\<lparr>title := ''Buy milk''\<rparr>), ICloseModal]) \<and>
   js_trim (title ((empty_form ''2024-01-01'')\<lparr>title := ''Buy milk''\<rparr>)) \<noteq> [] \<and>
   \<not> completed ((empty_form ''2024-01-01'')\<lparr>title := ''Buy milk''\<rparr>)"
proof -
  have r0: "modal_reachable (modal_mount ''2024-01-01'')" by (rule modal_reachable.mount)
  have e1: "modal_step True (modal_mount ''2024-01-01'') ModalOpenEffect =
      (\<lparr>shouldRender = True, newTask = empty_form ''2024-01-01''\<rparr>, [])"
    by (simp add: modal_mount_def)
  have r1: "modal_reachable \<lparr>shouldRender = True, newTask = empty_form ''2024-01-01''\<rparr>"
    using r0 e1 by (rule modal_reachable.step)
  have e2: "modal_step True \<lparr>shouldRender = True, newTask = empty_form ''2024-01-01''\<rparr> (ModalSetTitle ''Buy milk'') =
      (\<lparr>shouldRender = True, newTask = (empty_form ''2024-01-01'')\<lparr>title := ''Buy milk''\<rparr>\<rparr>, [])"
    by (simp add: modal_visible_def)
  have r2: "modal_reachable \<lparr>shouldRender = True, newTask = (empty_form ''2024-01-01'')\<lparr>title := ''Buy milk''\<rparr>\<rparr>"
    using r1 e2 by (rule modal_reachable.step)
  have e3: "modal_step True \<lparr>shouldRender = True, newTask = (empty_form ''2024-01-01'')\<lparr>title := ''Buy milk''\<rparr>\<rparr>
     (ModalSubmit ''2024-01-02'') =
     (\<lparr>shouldRender = True, newTask = empty_form ''2024-01-02''\<rparr>,
      [IAddTask ((empty_form ''2024-01-01'')\<lparr>title := ''Buy milk''\<rparr>), ICloseModal])"
    by (simp add: modal_visible_def js_trim_def is_js_space_def)
  have m: "IAddTask ((empty_form ''2024-01-01'')\<lparr>title := ''Buy milk''\<rparr>) \<in>
      set [IAddTask ((empty_form ''2024-01-01'')\<lparr>title := ''Buy milk''\<rparr>), ICloseModal]" by simp
  from r2 e3 modal_submits_valid_task [OF r2 e3 m] show ?thesis by (intro conjI) simp_all
qed

end
