(* ===== verification/DataManagement.thy ===== *)
theory DataManagement
  imports Db
begin

text \<open>
  \<open>src/app/components/DataManagement.tsx\<close>: export reads both stores through
  \<open>getAllTasks\<close> and \<open>getAllCategories\<close>; import parses the chosen file and awaits
  \<open>addTask\<close> for every task and then \<open>addCategory\<close> for every category, one call at a
  time, writing a status message. Each awaited call is a separate request with its own
  storage outcome and clock reading: the \<open>k\<close>-th call of the import is given
  \<open>r k\<close>. JSON text and the Blob download are not modelled: the file is the parsed
  payload (\<open>import_file\<close>). The import calls \<open>db.ts\<close> directly and does not reach
  \<open>Home\<close>'s state.
\<close>

type_synonym requests = "nat \<Rightarrow> outcome \<times> nat"

definition rid :: "requests \<Rightarrow> nat \<Rightarrow> ident" where
  "rid r j = dec_string (snd (r j))"

record DmState =
  importStatus :: string

definition dm_mount :: DmState where
  "dm_mount = \<lparr>importStatus = []\<rparr>"

definition exportData :: "outcome \<Rightarrow> outcome \<Rightarrow> Db \<Rightarrow> Task list \<times> Category list" where
  "exportData io1 io2 d = (getAllTasks io1 d, getAllCategories io2 d)"

text \<open>
  A parsed file: \<open>Malformed\<close> when \<open>JSON.parse\<close> throws; otherwise each of
  \<open>data.tasks\<close> and \<open>data.categories\<close> is an array, or \<open>None\<close> when it is missing
  or not iterable, so that its \<open>for ... of\<close> loop throws a \<open>TypeError\<close>.
\<close>

datatype import_file = Parsed "Task list option" "Category list option" | Malformed

text \<open>
  The file the export writes, read back: \<open>JSON.stringify\<close> of plain records of strings
  and booleans is parsed by \<open>JSON.parse\<close> to equal records.
\<close>

definition export_file :: "Task list \<times> Category list \<Rightarrow> import_file" where
  "export_file data = Parsed (Some (fst data)) (Some (snd data))"

text \<open>
  The \<open>for ... of\<close> loop with \<open>await\<close>: the first call that throws ends the loop (the
  exception reaches the \<open>catch\<close>), and the records added before it stay stored.
\<close>

fun add_each ::
  "(outcome \<Rightarrow> nat \<Rightarrow> 'a \<Rightarrow> Db \<Rightarrow> db_error + ('b \<times> Db)) \<Rightarrow> requests \<Rightarrow> nat \<Rightarrow> 'a list \<Rightarrow> Db \<Rightarrow>
     db_error option \<times> nat \<times> Db" where
  "add_each add r k [] d = (None, k, d)"
| "add_each add r k (x # xs) d =
     (case add (fst (r k)) (snd (r k)) x d of
        Inl e \<Rightarrow> (Some e, Suc k, d)
      | Inr (_, d') \<Rightarrow> add_each add r (Suc k) xs d')"

text \<open>
  \<open>addTask(task)\<close> receives the exported record with its \<open>id\<close>; the spread
  \<open>{ ...task, id }\<close> overwrites it, so only the other fields matter (\<open>truncate\<close>).
\<close>

definition importData :: "requests \<Rightarrow> import_file option \<Rightarrow> Db \<Rightarrow> DmState \<Rightarrow> Db \<times> DmState" where
  "importData r file d s =
     (case file of
        None \<Rightarrow> (d, s)
      | Some Malformed \<Rightarrow> (d, s\<lparr>importStatus := ''Error importing data''\<rparr>)
      | Some (Parsed tasks categories) \<Rightarrow>
          (case tasks of
             None \<Rightarrow> (d, s\<lparr>importStatus := ''Error importing data''\<rparr>)
           | Some ts \<Rightarrow>
               (case add_each addTask r 0 (map NewTask.truncate ts) d of
                  (Some e, k, d1) \<Rightarrow> (d1, s\<lparr>importStatus := ''Error importing data''\<rparr>)
                | (None, k, d1) \<Rightarrow>
                    (case categories of
                       None \<Rightarrow> (d1, s\<lparr>importStatus := ''Error importing data''\<rparr>)
                     | Some cs \<Rightarrow>
                         (case add_each addCategory r k (map NewCategory.truncate cs) d1 of
                            (Some e, k', d2) \<Rightarrow> (d2, s\<lparr>importStatus := ''Error importing data''\<rparr>)
                          | (None, k', d2) \<Rightarrow> (d2, s\<lparr>importStatus := ''Data imported successfully''\<rparr>))))))"

text \<open>
  The two controls the component renders: the export button, whose click downloads the
  exported data (the third component of the result), and the file input, whose change
  runs the import. Both reads of the export have their own storage outcome.
\<close>

datatype dm_input = DmExportClick | DmFileChange "import_file option"

fun dm_step ::
  "outcome \<Rightarrow> outcome \<Rightarrow> requests \<Rightarrow> Db \<Rightarrow> DmState \<Rightarrow> dm_input \<Rightarrow>
     Db \<times> DmState \<times> (Task list \<times> Category list) option" where
  "dm_step io1 io2 r d s DmExportClick = (d, s, Some (exportData io1 io2 d))"
| "dm_step io1 io2 r d s (DmFileChange f) = (let (d', s') = importData r f d s in (d', s', None))"

subsection \<open>The import loop\<close>

lemma upt_Suc_shift: "[k..<Suc (k + n)] = k # [Suc k..<Suc (k + n)]"
  by (simp add: upt_rec)

text \<open>Conditions under which every call of a loop from call \<open>k\<close> on commits with a fresh key.\<close>

definition fresh_run :: "requests \<Rightarrow> nat \<Rightarrow> nat \<Rightarrow> ident set \<Rightarrow> bool" where
  "fresh_run r k n used \<longleftrightarrow>
     list_all (\<lambda>j. fst (r j) = Committed \<and> rid r j \<notin> used) [k..<k + n] \<and>
     distinct (map (rid r) [k..<k + n])"

lemma fresh_run_Suc:
  "fresh_run r k (Suc n) used \<longleftrightarrow>
     fst (r k) = Committed \<and> rid r k \<notin> used \<and> fresh_run r (Suc k) n (insert (rid r k) used)"
  by (simp add: fresh_run_def upt_Suc_shift list_all_iff del: upt_Suc) (auto simp: image_iff)

lemma add_each_tasks:
  "fresh_run r k (length xs) (task_id ` set (store_tasks d)) \<Longrightarrow>
   \<exists>d'. add_each addTask r k xs d = (None, k + length xs, d') \<and>
     store_categories d' = store_categories d \<and>
     mset (store_tasks d') = mset (store_tasks d) + mset (map2 with_task_id xs (map (rid r) [k..<k + length xs]))"
proof (induction xs arbitrary: k d)
  case Nil
  then show ?case by simp
next
  case (Cons x xs)
  obtain now where r: "r k = (Committed, now)" and fresh: "dec_string now \<notin> task_id ` set (store_tasks d)"
    and run: "fresh_run r (Suc k) (length xs) (insert (dec_string now) (task_id ` set (store_tasks d)))"
    using Cons.prems by (cases "r k") (auto simp: fresh_run_Suc rid_def)
  define d1 where "d1 = d\<lparr>store_tasks := insort_key task_id (with_task_id x (dec_string now)) (store_tasks d)\<rparr>"
  have "task_id ` set (store_tasks d1) = insert (dec_string now) (task_id ` set (store_tasks d))"
    by (simp add: d1_def set_insort_key)
  with run Cons.IH obtain d' where
    "add_each addTask r (Suc k) xs d1 = (None, Suc k + length xs, d')"
    "store_categories d' = store_categories d1"
    "mset (store_tasks d') = mset (store_tasks d1) + mset (map2 with_task_id xs (map (rid r) [Suc k..<Suc k + length xs]))"
    by metis
  moreover from r have "rid r k = dec_string now" by (simp add: rid_def)
  ultimately show ?case using r fresh
    by (simp add: addTask_fresh d1_def upt_Suc_shift del: upt_Suc)
qed

lemma add_each_categories:
  "fresh_run r k (length xs) (cat_id ` set (store_categories d)) \<Longrightarrow>
   \<exists>d'. add_each addCategory r k xs d = (None, k + length xs, d') \<and>
     store_tasks d' = store_tasks d \<and>
     mset (store_categories d') = mset (store_categories d) + mset (map2 with_cat_id xs (map (rid r) [k..<k + length xs]))"
proof (induction xs arbitrary: k d)
  case Nil
  then show ?case by simp
next
  case (Cons x xs)
  obtain now where r: "r k = (Committed, now)" and fresh: "dec_string now \<notin> cat_id ` set (store_categories d)"
    and run: "fresh_run r (Suc k) (length xs) (insert (dec_string now) (cat_id ` set (store_categories d)))"
    using Cons.prems by (cases "r k") (auto simp: fresh_run_Suc rid_def)
  define d1 where "d1 = d\<lparr>store_categories := insort_key cat_id (with_cat_id x (dec_string now)) (store_categories d)\<rparr>"
  have "cat_id ` set (store_categories d1) = insert (dec_string now) (cat_id ` set (store_categories d))"
    by (simp add: d1_def set_insort_key)
  with run Cons.IH obtain d' where
    "add_each addCategory r (Suc k) xs d1 = (None, Suc k + length xs, d')"
    "store_tasks d' = store_tasks d1"
    "mset (store_categories d') = mset (store_categories d1) + mset (map2 with_cat_id xs (map (rid r) [Suc k..<Suc k + length xs]))"
    by metis
  moreover from r have "rid r k = dec_string now" by (simp add: rid_def)
  ultimately show ?case using r fresh
    by (simp add: addCategory_fresh d1_def upt_Suc_shift del: upt_Suc)
qed

lemma importData_Parsed:
  assumes "fresh_run r 0 (length ts) (task_id ` set (store_tasks d))"
    and "fresh_run r (length ts) (length cs) (cat_id ` set (store_categories d))"
  shows "\<exists>d'. importData r (Some (Parsed (Some ts) (Some cs))) d s = (d', s\<lparr>importStatus := ''Data imported successfully''\<rparr>) \<and>
    mset (store_tasks d') = mset (store_tasks d) + mset (map2 with_task_id (map NewTask.truncate ts) (map (rid r) [0..<length ts])) \<and>
    mset (store_categories d') = mset (store_categories d) +
      mset (map2 with_cat_id (map NewCategory.truncate cs) (map (rid r) [length ts..<length ts + length cs]))"
proof -
  from add_each_tasks [of r 0 "map NewTask.truncate ts" d] assms(1) obtain d1 where
    t1: "add_each addTask r 0 (map NewTask.truncate ts) d = (None, length ts, d1)"
    and t2: "store_categories d1 = store_categories d"
    and t3: "mset (store_tasks d1) = mset (store_tasks d) + mset (map2 with_task_id (map NewTask.truncate ts) (map (rid r) [0..<length ts]))"
    by auto
  from add_each_categories [of r "length ts" "map NewCategory.truncate cs" d1] assms(2) t2 obtain d2 where
    c1: "add_each addCategory r (length ts) (map NewCategory.truncate cs) d1 = (None, length ts + length cs, d2)"
    and c2: "store_tasks d2 = store_tasks d1"
    and c3: "mset (store_categories d2) = mset (store_categories d1) +
      mset (map2 with_cat_id (map NewCategory.truncate cs) (map (rid r) [length ts..<length ts + length cs]))"
    by auto
  from t1 c1 have "importData r (Some (Parsed (Some ts) (Some cs))) d s = (d2, s\<lparr>importStatus := ''Data imported successfully''\<rparr>)"
    by (simp add: importData_def)
  with t2 t3 c2 c3 show ?thesis by auto
qed

lemma map2_truncate_task:
  "length ids = length xs \<Longrightarrow> map NewTask.truncate (map2 with_task_id xs ids) = xs"
proof (induction xs arbitrary: ids)
  case (Cons x xs)
  then show ?case by (cases ids) (auto simp: with_task_id_def NewTask.truncate_def)
qed simp

lemma map2_truncate_category:
  "length ids = length xs \<Longrightarrow> map NewCategory.truncate (map2 with_cat_id xs ids) = xs"
proof (induction xs arbitrary: ids)
  case (Cons x xs)
  then show ?case by (cases ids) (auto simp: with_cat_id_def NewCategory.truncate_def)
qed simp

text \<open>An operation that, when it succeeds, keeps the stores well formed and only adds records.\<close>

definition grows :: "Db \<Rightarrow> Db \<Rightarrow> bool" where
  "grows d d' \<longleftrightarrow> (db_wf d \<longrightarrow> db_wf d') \<and> set (store_tasks d) \<subseteq> set (store_tasks d') \<and>
     set (store_categories d) \<subseteq> set (store_categories d')"

lemma grows_refl [simp]: "grows d d"
  by (simp add: grows_def)

lemma grows_trans: "grows d d1 \<Longrightarrow> grows d1 d2 \<Longrightarrow> grows d d2"
  by (auto simp: grows_def)

lemma add_each_grows:
  assumes add: "\<And>io now x d y d'. add io now x d = Inr (y, d') \<Longrightarrow> grows d d'"
  shows "add_each add r k xs d = (e, k', d') \<Longrightarrow> grows d d'"
proof (induction xs arbitrary: k d)
  case (Cons x xs)
  show ?case
  proof (cases "add (fst (r k)) (snd (r k)) x d")
    case (Inl err)
    with Cons.prems show ?thesis by simp
  next
    case (Inr yd)
    obtain y d1 where yd: "yd = (y, d1)" by force
    with Inr add have "grows d d1" by blast
    moreover from Inr yd Cons.prems have "add_each add r (Suc k) xs d1 = (e, k', d')" by simp
    ultimately show ?thesis using Cons.IH by (blast intro: grows_trans)
  qed
qed simp

lemma addTask_grows: "addTask io now x d = Inr (y, d') \<Longrightarrow> grows d d'"
  by (auto simp: addTask_Inr os_add_Some_iff set_insort_key db_wf_def os_lookup_None_iff grows_def)

lemma addCategory_grows: "addCategory io now x d = Inr (y, d') \<Longrightarrow> grows d d'"
  by (auto simp: addCategory_Inr os_add_Some_iff set_insort_key db_wf_def os_lookup_None_iff grows_def)

lemma importData_grows:
  assumes "importData r f d s = (d', s')"
  shows "grows d d'"
proof (cases "\<exists>tasks categories ts. f = Some (Parsed tasks categories) \<and> tasks = Some ts")
  case True
  then obtain categories ts where f: "f = Some (Parsed (Some ts) categories)" by blast
  obtain e1 k d1 where t: "add_each addTask r 0 (map NewTask.truncate ts) d = (e1, k, d1)"
    by (metis prod_cases3)
  have g1: "grows d d1" by (rule add_each_grows [OF _ t]) (erule addTask_grows)
  show ?thesis
  proof (cases "\<exists>cs. e1 = None \<and> categories = Some cs")
    case True
    then obtain cs where e1: "e1 = None" and c: "categories = Some cs" by blast
    obtain e2 k' d2 where c2: "add_each addCategory r k (map NewCategory.truncate cs) d1 = (e2, k', d2)"
      by (metis prod_cases3)
    have "grows d1 d2" by (rule add_each_grows [OF _ c2]) (erule addCategory_grows)
    moreover from assms f t c2 e1 c have "d' = d2" by (cases e2) (auto simp: importData_def)
    ultimately show ?thesis using g1 by (blast intro: grows_trans)
  next
    case False
    with assms f t have "d' = d1"
      by (cases e1; cases categories) (auto simp: importData_def)
    with g1 show ?thesis by blast
  qed
next
  case False
  with assms have "d' = d"
    by (cases f) (auto simp: importData_def split: import_file.splits option.splits)
  then show ?thesis by simp
qed

lemma export_file_exportData:
  "export_file (exportData Committed Committed d) = Parsed (Some (store_tasks d)) (Some (store_categories d))"
  by (simp add: export_file_def exportData_def getAllTasks_def getAllCategories_def os_getAll_def)

lemma mset_truncate_added:
  "mset (map NewTask.truncate (map2 with_task_id (map NewTask.truncate ts) (map f [k..<k + length ts]))) =
     mset (map NewTask.truncate ts)"
  "mset (map NewCategory.truncate (map2 with_cat_id (map NewCategory.truncate cs) (map f [k..<k + length cs]))) =
     mset (map NewCategory.truncate cs)"
  by (subst map2_truncate_task map2_truncate_category, simp, rule refl)+

lemma mset_map_plus: "mset xs = A + mset ys \<Longrightarrow> mset (map f xs) = image_mset f A + mset (map f ys)"
  by simp

abbreviation linked_db :: Db where
  "linked_db \<equiv> \<lparr>store_tasks = [(with_task_id buy_milk ''7'')\<lparr>category := ''1''\<rparr>],
     store_categories = [with_cat_id work_cat ''1'']\<rparr>"

lemmas dm_eval = importData_def export_file_def exportData_def getAllTasks_def getAllCategories_def
  os_getAll_def addTask_def addCategory_def os_add_def os_get_def with_task_id_def with_cat_id_def
  NewTask.truncate_def NewCategory.truncate_def Let_def js_eval less_char_def less_eq_char_def

subsection \<open>Properties of export and import\<close>

text \<open>
  C29. Export followed by import into an empty database restores every task and every
  category, field for field except the identifier, provided each \<open>add\<close> call commits
  with a clock reading different from the others.
\<close>

theorem export_import_roundtrip:
  assumes "fresh_run r 0 (length (store_tasks d)) {}"
    and "fresh_run r (length (store_tasks d)) (length (store_categories d)) {}"
    and "importData r (Some (export_file (exportData Committed Committed d))) empty_db s = (d', s')"
  shows "importStatus s' = ''Data imported successfully'' \<and>
    mset (map NewTask.truncate (store_tasks d')) = mset (map NewTask.truncate (store_tasks d)) \<and>
    mset (map NewCategory.truncate (store_categories d')) = mset (map NewCategory.truncate (store_categories d))"
proof -
  from importData_Parsed [of r "store_tasks d" empty_db "store_categories d" s] assms(1,2)
  obtain d2 where
    i: "importData r (Some (Parsed (Some (store_tasks d)) (Some (store_categories d)))) empty_db s =
       (d2, s\<lparr>importStatus := ''Data imported successfully''\<rparr>)"
    and t: "mset (store_tasks d2) = {#} + mset (map2 with_task_id (map NewTask.truncate (store_tasks d))
       (map (rid r) [0..<0 + length (store_tasks d)]))"
    and c: "mset (store_categories d2) = {#} + mset (map2 with_cat_id (map NewCategory.truncate (store_categories d))
       (map (rid r) [length (store_tasks d)..<length (store_tasks d) + length (store_categories d)]))"
    by (auto simp: empty_db_def)
  from assms(3) i have "d' = d2" and "s' = s\<lparr>importStatus := ''Data imported successfully''\<rparr>"
    by (auto simp: export_file_exportData)
  with mset_map_plus [OF t, of NewTask.truncate] mset_map_plus [OF c, of NewCategory.truncate]
  show ?thesis by (simp only: mset_truncate_added) simp
qed

theorem export_import_roundtrip_witness:
  "fresh_run (\<lambda>j. (Committed, 5 + j)) 0 (length (store_tasks milk_db)) {} \<and>
   fresh_run (\<lambda>j. (Committed, 5 + j)) (length (store_tasks milk_db)) (length (store_categories milk_db)) {} \<and>
   importData (\<lambda>j. (Committed, 5 + j)) (Some (export_file (exportData Committed Committed milk_db))) empty_db dm_mount =
     (\<lparr>store_tasks = [with_task_id buy_milk ''5''], store_categories = []\<rparr>,
      \<lparr>importStatus = ''Data imported successfully''\<rparr>) \<and>
   mset (map NewTask.truncate [with_task_id buy_milk ''5'']) = mset (map NewTask.truncate (store_tasks milk_db))"
proof -
  have f1: "fresh_run (\<lambda>j. (Committed, 5 + j)) 0 (length (store_tasks milk_db)) {}"
    by (simp add: fresh_run_def)
  have f2: "fresh_run (\<lambda>j. (Committed, 5 + j)) (length (store_tasks milk_db)) (length (store_categories milk_db)) {}"
    by (simp add: fresh_run_def)
  have i: "importData (\<lambda>j. (Committed, 5 + j)) (Some (export_file (exportData Committed Committed milk_db))) empty_db dm_mount =
     (\<lparr>store_tasks = [with_task_id buy_milk ''5''], store_categories = []\<rparr>,
      \<lparr>importStatus = ''Data imported successfully''\<rparr>)"
    by (simp add: dm_eval empty_db_def dm_mount_def)
  from export_import_roundtrip [OF f1 f2 i] have
    "mset (map NewTask.truncate [with_task_id buy_milk ''5'']) = mset (map NewTask.truncate (store_tasks milk_db))"
    by simp
  with f1 f2 i show ?thesis by (intro conjI)
qed

text \<open>
  C30. Import never checks what is already stored: importing a database's own export
  into it, with fresh clock readings, succeeds and stores every task and every
  category a second time under a new identifier.
\<close>

theorem reimport_duplicates:
  assumes "fresh_run r 0 (length (store_tasks d)) (task_id ` set (store_tasks d))"
    and "fresh_run r (length (store_tasks d)) (length (store_categories d)) (cat_id ` set (store_categories d))"
    and "importData r (Some (export_file (exportData Committed Committed d))) d s = (d', s')"
  shows "importStatus s' = ''Data imported successfully'' \<and>
    mset (map NewTask.truncate (store_tasks d')) =
      mset (map NewTask.truncate (store_tasks d)) + mset (map NewTask.truncate (store_tasks d)) \<and>
    mset (map NewCategory.truncate (store_categories d')) =
      mset (map NewCategory.truncate (store_categories d)) + mset (map NewCategory.truncate (store_categories d))"
proof -
  from importData_Parsed [of r "store_tasks d" d "store_categories d" s] assms(1,2)
  obtain d2 where
    i: "importData r (Some (Parsed (Some (store_tasks d)) (Some (store_categories d)))) d s =
       (d2, s\<lparr>importStatus := ''Data imported successfully''\<rparr>)"
    and t: "mset (store_tasks d2) = mset (store_tasks d) + mset (map2 with_task_id (map NewTask.truncate (store_tasks d))
       (map (rid r) [0..<0 + length (store_tasks d)]))"
    and c: "mset (store_categories d2) = mset (store_categories d) + mset (map2 with_cat_id (map NewCategory.truncate (store_categories d))
       (map (rid r) [length (store_tasks d)..<length (store_tasks d) + length (store_categories d)]))"
    by auto
  from assms(3) i have "d' = d2" and "s' = s\<lparr>importStatus := ''Data imported successfully''\<rparr>"
    by (auto simp: export_file_exportData)
  with mset_map_plus [OF t, of NewTask.truncate] mset_map_plus [OF c, of NewCategory.truncate]
  show ?thesis by (simp only: mset_truncate_added) simp
qed

theorem reimport_duplicates_witness:
  "fresh_run (\<lambda>j. (Committed, 5 + j)) 0 (length (store_tasks milk_db)) (task_id ` set (store_tasks milk_db)) \<and>
   fresh_run (\<lambda>j. (Committed, 5 + j)) (length (store_tasks milk_db)) (length (store_categories milk_db))
     (cat_id ` set (store_categories milk_db)) \<and>
   importData (\<lambda>j. (Committed, 5 + j)) (Some (export_file (exportData Committed Committed milk_db))) milk_db dm_mount =
     (\<lparr>store_tasks = [with_task_id buy_milk ''5'', with_task_id buy_milk ''7''], store_categories = []\<rparr>,
      \<lparr>importStatus = ''Data imported successfully''\<rparr>) \<and>
   mset (map NewTask.truncate [with_task_id buy_milk ''5'', with_task_id buy_milk ''7'']) =
     mset (map NewTask.truncate (store_tasks milk_db)) + mset (map NewTask.truncate (store_tasks milk_db))"
proof -
  have f1: "fresh_run (\<lambda>j. (Committed, 5 + j)) 0 (length (store_tasks milk_db)) (task_id ` set (store_tasks milk_db))"
    by (simp add: fresh_run_def rid_def js_eval)
  have f2: "fresh_run (\<lambda>j. (Committed, 5 + j)) (length (store_tasks milk_db)) (length (store_categories milk_db))
     (cat_id ` set (store_categories milk_db))"
    by (simp add: fresh_run_def)
  have i: "importData (\<lambda>j. (Committed, 5 + j)) (Some (export_file (exportData Committed Committed milk_db))) milk_db dm_mount =
     (\<lparr>store_tasks = [with_task_id buy_milk ''5'', with_task_id buy_milk ''7''], store_categories = []\<rparr>,
      \<lparr>importStatus = ''Data imported successfully''\<rparr>)"
    by (simp add: dm_eval dm_mount_def)
  from reimport_duplicates [OF f1 f2 i] have
    "mset (map NewTask.truncate [with_task_id buy_milk ''5'', with_task_id buy_milk ''7'']) =
     mset (map NewTask.truncate (store_tasks milk_db)) + mset (map NewTask.truncate (store_tasks milk_db))"
    by simp
  with f1 f2 i show ?thesis by (intro conjI)
qed

lemma map_cat_id_map2: "length ids = length xs \<Longrightarrow> map cat_id (map2 with_cat_id xs ids) = ids"
proof (induction xs arbitrary: ids)
  case (Cons x xs)
  then show ?case by (cases ids) auto
qed simp

lemma map_task_id_map2: "length ids = length xs \<Longrightarrow> map task_id (map2 with_task_id xs ids) = ids"
proof (induction xs arbitrary: ids)
  case (Cons x xs)
  then show ?case by (cases ids) auto
qed simp

lemma map_category_map2:
  "length ids = length ts \<Longrightarrow> map category (map2 with_task_id (map NewTask.truncate ts) ids) = map category ts"
proof (induction ts arbitrary: ids)
  case (Cons t ts)
  then show ?case by (cases ids) (auto simp: with_task_id_def NewTask.truncate_def)
qed simp

text \<open>
  C31. Import renames categories without renaming the references to them. After an
  export is imported into an empty database, the category identifiers are exactly the
  fresh readings of the category calls. The tasks carry the same category references as
  before. A reference therefore resolves after the import only if the old identifier
  happens to equal one of the new ones.
\<close>

theorem import_breaks_category_refs:
  assumes "fresh_run r 0 (length (store_tasks d)) {}"
    and "fresh_run r (length (store_tasks d)) (length (store_categories d)) {}"
    and "importData r (Some (export_file (exportData Committed Committed d))) empty_db s = (d', s')"
  shows "cat_id ` set (store_categories d') =
      rid r ` {length (store_tasks d)..<length (store_tasks d) + length (store_categories d)} \<and>
    category ` set (store_tasks d') = category ` set (store_tasks d)"
proof -
  from importData_Parsed [of r "store_tasks d" empty_db "store_categories d" s] assms(1,2)
  obtain d2 where
    i: "importData r (Some (Parsed (Some (store_tasks d)) (Some (store_categories d)))) empty_db s =
       (d2, s\<lparr>importStatus := ''Data imported successfully''\<rparr>)"
    and t: "mset (store_tasks d2) = mset (map2 with_task_id (map NewTask.truncate (store_tasks d))
       (map (rid r) [0..<length (store_tasks d)]))"
    and c: "mset (store_categories d2) = mset (map2 with_cat_id (map NewCategory.truncate (store_categories d))
       (map (rid r) [length (store_tasks d)..<length (store_tasks d) + length (store_categories d)]))"
    by (auto simp: empty_db_def)
  from assms(3) i have d': "d' = d2" by (simp add: export_file_exportData)
  from c have "cat_id ` set (store_categories d2) = set (map cat_id (map2 with_cat_id
      (map NewCategory.truncate (store_categories d))
      (map (rid r) [length (store_tasks d)..<length (store_tasks d) + length (store_categories d)])))"
    by (metis set_map set_mset_mset)
  also have "\<dots> = rid r ` {length (store_tasks d)..<length (store_tasks d) + length (store_categories d)}"
  proof -
    have eq: "map cat_id (map2 with_cat_id (map NewCategory.truncate (store_categories d))
        (map (rid r) [length (store_tasks d)..<length (store_tasks d) + length (store_categories d)])) =
        map (rid r) [length (store_tasks d)..<length (store_tasks d) + length (store_categories d)]"
      by (rule map_cat_id_map2) simp
    show ?thesis unfolding eq by simp
  qed
  finally have cats: "cat_id ` set (store_categories d2) =
      rid r ` {length (store_tasks d)..<length (store_tasks d) + length (store_categories d)}" .
  from t have "category ` set (store_tasks d2) = set (map category (map2 with_task_id
      (map NewTask.truncate (store_tasks d)) (map (rid r) [0..<length (store_tasks d)])))"
    by (metis set_map set_mset_mset)
  also have "\<dots> = category ` set (store_tasks d)"
  proof -
    have eq: "map category (map2 with_task_id (map NewTask.truncate (store_tasks d))
        (map (rid r) [0..<length (store_tasks d)])) = map category (store_tasks d)"
      by (rule map_category_map2) simp
    show ?thesis unfolding eq by simp
  qed
  finally show ?thesis using cats d' by simp
qed

theorem import_breaks_category_refs_witness:
  "fresh_run (\<lambda>j. (Committed, 5 + j)) 0 (length (store_tasks linked_db)) {} \<and>
   fresh_run (\<lambda>j. (Committed, 5 + j)) (length (store_tasks linked_db)) (length (store_categories linked_db)) {} \<and>
   importData (\<lambda>j. (Committed, 5 + j)) (Some (export_file (exportData Committed Committed linked_db))) empty_db dm_mount =
     (\<lparr>store_tasks = [(with_task_id buy_milk ''5'')\<lparr>category := ''1''\<rparr>],
       store_categories = [with_cat_id work_cat ''6'']\<rparr>,
      \<lparr>importStatus = ''Data imported successfully''\<rparr>) \<and>
   cat_id ` set [with_cat_id work_cat ''6''] = rid (\<lambda>j. (Committed, 5 + j)) ` {1..<2} \<and>
   category ` set [(with_task_id buy_milk ''5'')\<lparr>category := ''1''\<rparr>] = category ` set (store_tasks linked_db)"
proof -
  have f1: "fresh_run (\<lambda>j. (Committed, 5 + j)) 0 (length (store_tasks linked_db)) {}"
    by (simp add: fresh_run_def)
  have f2: "fresh_run (\<lambda>j. (Committed, 5 + j)) (length (store_tasks linked_db)) (length (store_categories linked_db)) {}"
    by (simp add: fresh_run_def)
  have i: "importData (\<lambda>j. (Committed, 5 + j)) (Some (export_file (exportData Committed Committed linked_db))) empty_db dm_mount =
     (\<lparr>store_tasks = [(with_task_id buy_milk ''5'')\<lparr>category := ''1''\<rparr>],
       store_categories = [with_cat_id work_cat ''6'']\<rparr>,
      \<lparr>importStatus = ''Data imported successfully''\<rparr>)"
    by (simp add: dm_eval empty_db_def dm_mount_def)
  have one: "{1..<2::nat} = {1}" by auto
  from import_breaks_category_refs [OF f1 f2 i] have
    "cat_id ` set [with_cat_id work_cat ''6''] = rid (\<lambda>j. (Committed, 5 + j)) ` {1..<2} \<and>
     category ` set [(with_task_id buy_milk ''5'')\<lparr>category := ''1''\<rparr>] = category ` set (store_tasks linked_db)"
    using one by simp
  with f1 f2 i show ?thesis by (intro conjI) simp_all
qed

lemma add_each_append:
  "add_each add r k (xs @ ys) d =
     (case add_each add r k xs d of (None, k', d1) \<Rightarrow> add_each add r k' ys d1 | res \<Rightarrow> res)"
proof (induction xs arbitrary: k d)
  case (Cons x xs)
  then show ?case by (simp split: sum.split prod.split option.split)
qed simp

lemma addTask_fails:
  "io = Failed \<or> dec_string now \<in> task_id ` set (store_tasks d) \<Longrightarrow> \<exists>e. addTask io now t d = Inl e"
  by (cases io) (auto simp: addTask_def os_add_cases os_lookup_None_iff Let_def)

text \<open>
  C32. A failed call does not roll the import back. Suppose the first \<open>k\<close> task calls
  commit with fresh readings, and call \<open>k\<close> fails, either because storage fails or
  because its reading repeats an identifier already stored (the same millisecond). Then
  the import reports an error, the first \<open>k\<close> tasks stay stored, and no category is
  imported.
\<close>

theorem import_no_rollback:
  assumes "fresh_run r 0 k (task_id ` set (store_tasks d))" and "k < length ts"
    and "fst (r k) = Failed \<or> rid r k \<in> task_id ` set (store_tasks d) \<union> rid r ` {0..<k}"
  shows "\<exists>d'. importData r (Some (Parsed (Some ts) cs)) d s = (d', s\<lparr>importStatus := ''Error importing data''\<rparr>) \<and>
    mset (store_tasks d') = mset (store_tasks d) +
      mset (map2 with_task_id (map NewTask.truncate (take k ts)) (map (rid r) [0..<k])) \<and>
    store_categories d' = store_categories d"
proof -
  from assms(2) have lk: "length (map NewTask.truncate (take k ts)) = k" by simp
  from add_each_tasks [of r 0 "map NewTask.truncate (take k ts)" d] assms(1) lk obtain d1 where
    t1: "add_each addTask r 0 (map NewTask.truncate (take k ts)) d = (None, k, d1)"
    and t2: "store_categories d1 = store_categories d"
    and t3: "mset (store_tasks d1) = mset (store_tasks d) +
      mset (map2 with_task_id (map NewTask.truncate (take k ts)) (map (rid r) [0..<k]))"
    by auto
  from t3 have "task_id ` set (store_tasks d1) = task_id ` set (store_tasks d) \<union>
      set (map task_id (map2 with_task_id (map NewTask.truncate (take k ts)) (map (rid r) [0..<k])))"
    by (metis image_Un set_map set_mset_mset set_mset_union)
  also have "\<dots> = task_id ` set (store_tasks d) \<union> rid r ` {0..<k}"
  proof -
    have eq: "map task_id (map2 with_task_id (map NewTask.truncate (take k ts)) (map (rid r) [0..<k])) =
        map (rid r) [0..<k]"
      by (rule map_task_id_map2) (use assms(2) in simp)
    show ?thesis unfolding eq by simp
  qed
  finally have keys: "task_id ` set (store_tasks d1) = task_id ` set (store_tasks d) \<union> rid r ` {0..<k}" .
  from assms(2) obtain y ys where dr: "drop k ts = y # ys" by (cases "drop k ts") auto
  from assms(3) keys have "fst (r k) = Failed \<or> dec_string (snd (r k)) \<in> task_id ` set (store_tasks d1)"
    by (simp add: rid_def)
  from addTask_fails [OF this] obtain e where
    fail: "addTask (fst (r k)) (snd (r k)) (NewTask.truncate y) d1 = Inl e" by blast
  have "map NewTask.truncate ts = map NewTask.truncate (take k ts) @ NewTask.truncate y # map NewTask.truncate ys"
    by (metis append_take_drop_id dr list.simps(9) map_append)
  with t1 fail have "add_each addTask r 0 (map NewTask.truncate ts) d = (Some e, Suc k, d1)"
    by (simp add: add_each_append)
  then have "importData r (Some (Parsed (Some ts) cs)) d s = (d1, s\<lparr>importStatus := ''Error importing data''\<rparr>)"
    by (simp add: importData_def)
  with t2 t3 show ?thesis by blast
qed

theorem import_no_rollback_witness:
  "fresh_run (\<lambda>j. (Committed, 5)) 0 1 (task_id ` set (store_tasks empty_db)) \<and>
   1 < length [with_task_id buy_milk ''7'', with_task_id pay_rent ''8''] \<and>
   (fst ((\<lambda>j. (Committed, 5)) 1) = Failed \<or>
    rid (\<lambda>j. (Committed, 5)) 1 \<in> task_id ` set (store_tasks empty_db) \<union> rid (\<lambda>j. (Committed, 5)) ` {0..<1}) \<and>
   (\<exists>d'. importData (\<lambda>j. (Committed, 5))
       (Some (Parsed (Some [with_task_id buy_milk ''7'', with_task_id pay_rent ''8'']) (Some [with_cat_id work_cat ''1''])))
       empty_db dm_mount = (d', dm_mount\<lparr>importStatus := ''Error importing data''\<rparr>) \<and>
     mset (store_tasks d') = mset (store_tasks empty_db) +
       mset (map2 with_task_id (map NewTask.truncate (take 1 [with_task_id buy_milk ''7'', with_task_id pay_rent ''8'']))
         (map (rid (\<lambda>j. (Committed, 5))) [0..<1])) \<and>
     store_categories d' = store_categories empty_db)"
proof -
  have f: "fresh_run (\<lambda>j. (Committed, 5)) 0 1 (task_id ` set (store_tasks empty_db))"
    by (simp add: fresh_run_def empty_db_def)
  have l: "1 < length [with_task_id buy_milk ''7'', with_task_id pay_rent ''8'']" by simp
  have c: "fst ((\<lambda>j. (Committed, 5)) 1) = Failed \<or>
    rid (\<lambda>j. (Committed, 5)) 1 \<in> task_id ` set (store_tasks empty_db) \<union> rid (\<lambda>j. (Committed, 5)) ` {0..<1}"
    by (simp add: rid_def)
  from f l c import_no_rollback [OF f l c, of "Some [with_cat_id work_cat ''1'']" dm_mount] show ?thesis
    by blast
qed

text \<open>
  A failed read during an export is not reported: the click downloads a file with no
  tasks although the store holds some, and the status line says nothing.
\<close>

lemma export_failed_read_empty:
  "dm_step Failed Committed r milk_db dm_mount DmExportClick =
     (milk_db, dm_mount, Some ([], []))"
  by (simp add: exportData_def getAllTasks_def getAllCategories_def os_getAll_def)

end
