(* ===== verification/UseTasks.thy ===== *)
theory UseTasks
  imports Model JsRuntime
begin

text \<open>
  The localStorage hook \<open>src/app/hooks/useTasks.ts\<close>. No page uses it any more (the
  page uses \<open>db.ts\<close>), but it is part of the sources; the components written for it
  are in \<open>Legacy\<close>. The hook keeps its tasks and
  its category names in two \<open>useState\<close> hooks; a first effect loads both from
  localStorage at mount, a second writes both back after every render in which one of
  them changed. localStorage holds the JSON text the hook wrote, so the model stores
  the decoded values; \<open>None\<close> is a missing key.
\<close>

record LocalStorage =
  ls_tasks :: "Task list option"
  ls_categories :: "string list option"

record UtState =
  ut_tasks :: "Task list"
  ut_categories :: "string list"

definition ut_initial :: UtState where
  "ut_initial = \<lparr>ut_tasks = [], ut_categories = []\<rparr>"

text \<open>The two effects: loading (lines 16 to 21) and persisting (lines 23 to 26).\<close>

definition ut_load :: "LocalStorage \<Rightarrow> UtState \<Rightarrow> UtState" where
  "ut_load ls s =
     (let s1 = (case ls_tasks ls of Some ts \<Rightarrow> s\<lparr>ut_tasks := ts\<rparr> | None \<Rightarrow> s)
      in case ls_categories ls of Some cs \<Rightarrow> s1\<lparr>ut_categories := cs\<rparr> | None \<Rightarrow> s1)"

definition ut_persist :: "UtState \<Rightarrow> LocalStorage \<Rightarrow> LocalStorage" where
  "ut_persist s ls = ls\<lparr>ls_tasks := Some (ut_tasks s), ls_categories := Some (ut_categories s)\<rparr>"

text \<open>
  Mount: both effects run after the first render, in order, with the initial state, so
  the persisting effect first writes the empty lists; if the load called a setter, the
  next render runs the persisting effect again with the loaded state.
\<close>

definition ut_mount :: "LocalStorage \<Rightarrow> UtState \<times> LocalStorage" where
  "ut_mount ls =
     (let s = ut_load ls ut_initial;
          ls1 = ut_persist ut_initial ls
      in (s, if ls_tasks ls = None \<and> ls_categories ls = None then ls1 else ut_persist s ls1))"

text \<open>The four operations; \<open>None\<close> when the operation calls no setter.\<close>

definition ut_addTask :: "nat \<Rightarrow> NewTask \<Rightarrow> UtState \<Rightarrow> UtState option" where
  "ut_addTask now task s =
     (let newTask = with_task_id task (dec_string now) in Some (s\<lparr>ut_tasks := ut_tasks s @ [newTask]\<rparr>))"

definition ut_editTask :: "ident \<Rightarrow> TaskPatch \<Rightarrow> UtState \<Rightarrow> UtState option" where
  "ut_editTask i updatedTask s =
     Some (s\<lparr>ut_tasks := map (\<lambda>task. if task_id task = i then merge_task task updatedTask else task) (ut_tasks s)\<rparr>)"

definition ut_deleteTask :: "ident \<Rightarrow> UtState \<Rightarrow> UtState option" where
  "ut_deleteTask i s = Some (s\<lparr>ut_tasks := filter (\<lambda>task. task_id task \<noteq> i) (ut_tasks s)\<rparr>)"

definition ut_addCategory :: "string \<Rightarrow> UtState \<Rightarrow> UtState option" where
  "ut_addCategory c s =
     (if c \<notin> set (ut_categories s) then Some (s\<lparr>ut_categories := ut_categories s @ [c]\<rparr>) else None)"

datatype ut_op =
    UtAddTask nat NewTask
  | UtEditTask ident TaskPatch
  | UtDeleteTask ident
  | UtAddCategory string

fun ut_call :: "ut_op \<Rightarrow> UtState \<Rightarrow> UtState option" where
  "ut_call (UtAddTask now t) = ut_addTask now t"
| "ut_call (UtEditTask i u) = ut_editTask i u"
| "ut_call (UtDeleteTask i) = ut_deleteTask i"
| "ut_call (UtAddCategory c) = ut_addCategory c"

text \<open>One operation followed by the persisting effect when a setter was called.\<close>

definition ut_step :: "UtState \<times> LocalStorage \<Rightarrow> ut_op \<Rightarrow> UtState \<times> LocalStorage" where
  "ut_step sl op =
     (case ut_call op (fst sl) of
        None \<Rightarrow> sl
      | Some s' \<Rightarrow> (s', ut_persist s' (snd sl)))"

definition ut_run :: "ut_op list \<Rightarrow> UtState \<times> LocalStorage \<Rightarrow> UtState \<times> LocalStorage" where
  "ut_run ops sl = foldl ut_step sl ops"

subsection \<open>Properties of the hook\<close>

definition ut_synced :: "UtState \<times> LocalStorage \<Rightarrow> bool" where
  "ut_synced sl \<longleftrightarrow>
     ls_tasks (snd sl) = Some (ut_tasks (fst sl)) \<and> ls_categories (snd sl) = Some (ut_categories (fst sl))"

lemma ut_synced_persist [simp]: "ut_synced (s, ut_persist s ls)"
  by (simp add: ut_synced_def ut_persist_def)

lemma ut_mount_synced: "ut_synced (ut_mount ls)"
  by (auto simp: ut_mount_def ut_load_def ut_initial_def ut_persist_def ut_synced_def Let_def
      split: option.split)

lemma ut_step_synced: "ut_synced sl \<Longrightarrow> ut_synced (ut_step sl op)"
  by (simp add: ut_step_def split: option.split)

lemma ut_run_synced: "ut_synced sl \<Longrightarrow> ut_synced (ut_run ops sl)"
  unfolding ut_run_def by (induction ops arbitrary: sl) (simp_all add: ut_step_synced)

lemma ut_load_synced: "ut_synced sl \<Longrightarrow> ut_load (snd sl) ut_initial = fst sl"
  by (simp add: ut_synced_def ut_load_def ut_initial_def)

lemma ut_step_categories:
  "distinct (ut_categories (fst sl)) \<Longrightarrow> distinct (ut_categories (fst (ut_step sl op)))"
  by (cases op) (auto simp: ut_step_def ut_addTask_def ut_editTask_def ut_deleteTask_def ut_addCategory_def
      Let_def split: option.split)

text \<open>
  C33. From mount on, after every sequence of operations, localStorage holds exactly the
  hook's current tasks and categories.
\<close>

theorem ut_storage_synced:
  "ls_tasks (snd (ut_run ops (ut_mount ls))) = Some (ut_tasks (fst (ut_run ops (ut_mount ls)))) \<and>
   ls_categories (snd (ut_run ops (ut_mount ls))) = Some (ut_categories (fst (ut_run ops (ut_mount ls))))"
  using ut_run_synced [OF ut_mount_synced, of ops ls] by (simp add: ut_synced_def)

text \<open>
  C34. Reloading the page restores the hook's state: mounting again on the storage left by
  any session yields the state that session ended in.
\<close>

theorem ut_reload_roundtrip:
  "fst (ut_mount (snd (ut_run ops (ut_mount ls)))) = fst (ut_run ops (ut_mount ls))"
  using ut_load_synced [OF ut_run_synced [OF ut_mount_synced, of ops ls]]
  by (simp add: ut_mount_def Let_def)

text \<open>
  C35. The hook does not keep task identifiers unique. In any state, two tasks added at
  the same clock reading are both appended with the same identifier, and deleting that
  identifier then removes both of them, together with any older task that has it.
\<close>

theorem ut_same_ms_duplicates:
  "map task_id (ut_tasks (fst (ut_run [UtAddTask now t1, UtAddTask now t2] sl))) =
     map task_id (ut_tasks (fst sl)) @ [dec_string now, dec_string now] \<and>
   ut_tasks (fst (ut_run [UtAddTask now t1, UtAddTask now t2, UtDeleteTask (dec_string now)] sl)) =
     filter (\<lambda>t. task_id t \<noteq> dec_string now) (ut_tasks (fst sl))"
  by (simp add: ut_run_def ut_step_def ut_addTask_def ut_deleteTask_def with_task_id_def Let_def)

text \<open>
  C36. \<open>addCategory\<close> keeps the category names free of duplicates: from a state without
  duplicates, every sequence of operations leads to one without duplicates.
\<close>

theorem ut_categories_distinct:
  assumes "distinct (ut_categories (fst sl))"
  shows "distinct (ut_categories (fst (ut_run ops sl)))"
  using assms unfolding ut_run_def
  by (induction ops arbitrary: sl) (simp_all add: ut_step_categories)

theorem ut_categories_distinct_witness:
  "distinct (ut_categories (fst (ut_mount \<lparr>ls_tasks = None, ls_categories = Some [''Work'']\<rparr>))) \<and>
   ut_categories (fst (ut_run [UtAddCategory ''Work'', UtAddCategory ''Home'', UtAddCategory ''Work'']
     (ut_mount \<lparr>ls_tasks = None, ls_categories = Some [''Work'']\<rparr>))) = [''Work'', ''Home''] \<and>
   distinct (ut_categories (fst (ut_run [UtAddCategory ''Work'', UtAddCategory ''Home'', UtAddCategory ''Work'']
     (ut_mount \<lparr>ls_tasks = None, ls_categories = Some [''Work'']\<rparr>))))"
proof -
  have d: "distinct (ut_categories (fst (ut_mount \<lparr>ls_tasks = None, ls_categories = Some [''Work'']\<rparr>)))"
    by (simp add: ut_mount_def ut_load_def ut_initial_def Let_def)
  have e: "ut_categories (fst (ut_run [UtAddCategory ''Work'', UtAddCategory ''Home'', UtAddCategory ''Work'']
     (ut_mount \<lparr>ls_tasks = None, ls_categories = Some [''Work'']\<rparr>))) = [''Work'', ''Home'']"
    by (simp add: ut_run_def ut_step_def ut_mount_def ut_load_def ut_initial_def ut_persist_def
        ut_addCategory_def Let_def)
  from d e ut_categories_distinct [OF d, of "[UtAddCategory ''Work'', UtAddCategory ''Home'', UtAddCategory ''Work'']"]
  show ?thesis by (intro conjI)
qed

end
