(* ===== verification/Legacy.thy ===== *)
theory Legacy
  imports UseTasks Components
begin

text \<open>
  The components written for the localStorage hook of \<open>UseTasks\<close>:
  \<^item> \<open>AddTask.tsx\<close>, a form with four text fields;
  \<^item> \<open>CategoryList.tsx\<close>, a list of category names with a selector and an add form;
  \<^item> \<open>TaskList.tsx\<close>, which renders one \<open>TaskItem\<close> per task.
  Each form is a record of its hooks and a step function on its inputs that returns
  the callbacks it invokes (\<open>legacy_intent\<close>); \<open>legacy_deliver\<close> hands these to the
  hook. No page renders these components.
\<close>

datatype legacy_intent = LAddTask NewTask | LAddCategory string | LSelectCategory "string option"

subsection \<open>AddTask\<close>

text \<open>
  \<open>AddTask.tsx\<close> refuses a blank title but submits the title as typed, and resets every
  field after a submit.
\<close>

record AddTaskForm =
  af_title :: string
  af_description :: string
  af_category :: string
  af_dueDate :: string

definition addTaskForm_empty :: AddTaskForm where
  "addTaskForm_empty = \<lparr>af_title = [], af_description = [], af_category = [], af_dueDate = []\<rparr>"

definition addTaskForm_submit :: "AddTaskForm \<Rightarrow> AddTaskForm \<times> NewTask list" where
  "addTaskForm_submit f =
     (if js_trim (af_title f) = [] then (f, [])
      else (addTaskForm_empty,
            [\<lparr>title = af_title f, description = af_description f, category = af_category f,
              dueDate = af_dueDate f, completed = False\<rparr>]))"

datatype af_input =
    AfSetTitle string
  | AfSetDescription string
  | AfSetCategory string
  | AfSetDueDate string
  | AfSubmit

fun addTaskForm_step :: "AddTaskForm \<Rightarrow> af_input \<Rightarrow> AddTaskForm \<times> legacy_intent list" where
  "addTaskForm_step f (AfSetTitle v) = (f\<lparr>af_title := v\<rparr>, [])"
| "addTaskForm_step f (AfSetDescription v) = (f\<lparr>af_description := v\<rparr>, [])"
| "addTaskForm_step f (AfSetCategory v) = (f\<lparr>af_category := v\<rparr>, [])"
| "addTaskForm_step f (AfSetDueDate v) = (f\<lparr>af_dueDate := v\<rparr>, [])"
| "addTaskForm_step f AfSubmit = (let (f', ts) = addTaskForm_submit f in (f', map LAddTask ts))"

subsection \<open>CategoryList\<close>

text \<open>\<open>CategoryList.tsx\<close> submits the trimmed name and clears its field.\<close>

definition categoryList_submit :: "string \<Rightarrow> string \<times> string list" where
  "categoryList_submit newCategory =
     (if js_trim newCategory \<noteq> [] then ([], [js_trim newCategory]) else (newCategory, []))"

datatype cl_input = ClSelect "string option" | ClSetName string | ClSubmit

fun categoryList_step :: "string \<Rightarrow> cl_input \<Rightarrow> string \<times> legacy_intent list" where
  "categoryList_step s (ClSelect c) = (s, [LSelectCategory c])"
| "categoryList_step s (ClSetName v) = (v, [])"
| "categoryList_step s ClSubmit = (let (s', cs) = categoryList_submit s in (s', map LAddCategory cs))"

subsection \<open>TaskList\<close>

text \<open>
  \<open>TaskList.tsx\<close> renders \<open>TaskItem\<close> without its \<open>categories\<close> prop. The first
  statement of \<open>TaskItem\<close> that reads it, \<open>categories.find(...)\<close> (line 35), then runs
  on \<open>undefined\<close> and throws a \<open>TypeError\<close>; \<open>None\<close> is the missing prop.
\<close>

datatype js_error = TypeError

definition taskItem_category :: "Category list option \<Rightarrow> Task \<Rightarrow> js_error + Category option" where
  "taskItem_category cats task =
     (case cats of None \<Rightarrow> Inl TypeError | Some cs \<Rightarrow> Inr (category_shown cs task))"

definition taskList_render :: "Task list \<Rightarrow> (js_error + Category option) list" where
  "taskList_render ts = map (taskItem_category None) ts"

subsection \<open>The forms and the hook\<close>

text \<open>
  A callback of a form calls the hook's operation; \<open>now\<close> is the clock reading of
  \<open>addTask\<close>. The selection is held by the parent, not by the hook.
\<close>

fun legacy_deliver :: "nat \<Rightarrow> UtState \<times> LocalStorage \<Rightarrow> legacy_intent \<Rightarrow> UtState \<times> LocalStorage" where
  "legacy_deliver now sl (LAddTask t) = ut_step sl (UtAddTask now t)"
| "legacy_deliver now sl (LAddCategory c) = ut_step sl (UtAddCategory c)"
| "legacy_deliver now sl (LSelectCategory c) = sl"

subsection \<open>Properties of the legacy components\<close>

lemma addTaskForm_intents:
  "addTaskForm_step f inp = (f', out) \<Longrightarrow> LAddTask t \<in> set out \<Longrightarrow>
     js_trim (title t) \<noteq> [] \<and> \<not> completed t \<and> title t = af_title f"
  by (cases inp) (auto simp: addTaskForm_submit_def split: if_splits)

lemma categoryList_intents:
  "categoryList_step s inp = (s', out) \<Longrightarrow> LAddCategory c \<in> set out \<Longrightarrow>
     c = js_trim s \<and> c \<noteq> []"
  by (cases inp) (auto simp: categoryList_submit_def split: if_splits)

lemma taskList_render_throws: "ts \<noteq> [] \<Longrightarrow> Inl TypeError \<in> set (taskList_render ts)"
  by (cases ts) (simp_all add: taskList_render_def taskItem_category_def)

definition titles_filled :: "UtState \<times> LocalStorage \<Rightarrow> bool" where
  "titles_filled sl \<longleftrightarrow> list_all (\<lambda>t. js_trim (title t) \<noteq> []) (ut_tasks (fst sl))"

lemma deliver_titles_filled:
  assumes "titles_filled sl" and "addTaskForm_step f inp = (f', out)"
  shows "titles_filled (foldl (legacy_deliver now) sl out)"
proof -
  have "\<forall>e \<in> set out. \<forall>t. e = LAddTask t \<longrightarrow> js_trim (title t) \<noteq> []"
    using addTaskForm_intents [OF assms(2)] by blast
  with assms(1) show ?thesis
  proof (induction out arbitrary: sl)
    case (Cons e out)
    have "titles_filled (legacy_deliver now sl e)"
    proof (cases e)
      case (LAddTask t)
      with Cons.prems show ?thesis
        by (simp add: titles_filled_def ut_step_def ut_addTask_def with_task_id_def Let_def)
    next
      case (LAddCategory c)
      with Cons.prems(1) show ?thesis
        by (auto simp: titles_filled_def ut_step_def ut_addCategory_def split: option.split)
    qed (use Cons.prems(1) in simp)
    with Cons.IH Cons.prems(2) show ?case by simp
  qed simp
qed

end
