(* ===== verification/Spec2Isabelle.thy ===== *)
theory Spec2Isabelle
  imports Components DataManagement UseTasks Legacy
begin

text \<open>
  \<^bold>\<open>A verification model of the To-do app (Mahdirnj/To-do-app).\<close>

  The program is a Next.js client: a single page (\<open>src/app/page.tsx\<close>, the \<open>Home\<close>
  component) keeps the task and category collections in React state, mirrors them into
  IndexedDB through \<open>src/app/lib/db.ts\<close>, and computes the displayed list from the
  collection and four view settings. Child components (\<open>src/app/components/\<close>) turn
  user input into calls of \<open>Home\<close>'s handlers; \<open>DataManagement\<close> exports and imports
  the database directly; \<open>src/app/hooks/useTasks.ts\<close> is an older, localStorage-based
  variant of the collection state used by \<open>AddTask\<close>, \<open>TaskList\<close> and
  \<open>CategoryList\<close>.

  \<^bold>\<open>Theories.\<close>
  \<^item> \<open>Prelude\<close>: the \<open>ident\<close> type, the theorem collections, generic facts on lists
    sorted by a key and on key-directed list updates (\<open>replace_key\<close> is
    \<open>xs.map(x => x.id === k ? v : x)\<close>, \<open>drop_key\<close> is \<open>xs.filter(x => x.id !== k)\<close>).
  \<^item> \<open>JsRuntime\<close>: the JavaScript and date-fns behaviour the code relies on, modelled from
    their specifications: \<open>trim\<close>, \<open>toLowerCase\<close> (ASCII), \<open>includes\<close> (shown equal
    to \<open>sublist\<close>), number subtraction with infinities and NaN, \<open>Array.prototype.sort\<close>
    as a stable insertion sort with SortCompare's NaN rule (shown equal to
    \<open>sort_key\<close> for any comparator that orders by a key), \<open>Date.now().toString()\<close>
    (\<open>dec_string\<close>, with its parser as a round trip), \<open>differenceInDays\<close>.
  \<^item> \<open>Model\<close>: the \<open>Task\<close> and \<open>Category\<close> interfaces as records (\<open>NewTask\<close> is
    \<open>Omit<Task, "id">\<close>), \<open>PRESET_COLORS\<close>, \<open>SortOption\<close>, the filter values, and the
    loosely typed \<open>Partial<...>\<close> payloads with the object-spread merge.
  \<^item> \<open>ObjectStore\<close>: an IndexedDB object store with key path \<open>id\<close>: a list of records
    sorted by key; \<open>add\<close> refuses a present key, \<open>put\<close> upserts, \<open>delete\<close> is
    idempotent. Each operation refines the corresponding finite-map operation
    (\<open>os_lookup\<close> is the abstraction).
  \<^item> \<open>Db\<close>: \<open>db.ts\<close>. State: the record \<open>Db\<close> of the two stores. Operations: one
    definition per exported function (\<open>getAllTasks\<close>, \<open>addTask\<close>, \<open>updateTask\<close>,
    \<open>deleteTask\<close> and the four category functions), each taking the storage outcome
    (\<open>Committed\<close>/\<open>Failed\<close>) and, for the two \<open>add\<close> functions, the clock reading
    \<open>now\<close> that \<open>Date.now()\<close> returns. Exceptions are \<open>Inl\<close> values of \<open>db_error\<close>;
    the two \<open>getAll\<close> functions swallow errors and return \<open>[]\<close>, as the code does.
    \<open>db_op\<close>/\<open>db_apply\<close> present the six mutations as data; \<open>map_apply\<close> is the
    specification's store of two finite maps.
  \<^item> \<open>Projection\<close>: the filtering effect of \<open>Home\<close> (\<open>page.tsx\<close> lines 72 to 119):
    \<open>status_filter\<close>, \<open>category_filter\<close>, \<open>search_filter\<close>, the four comparators
    (\<open>daysAsc_cmp\<close> to \<open>alphaDesc_cmp\<close>) applied by \<open>apply_sort\<close> through
    \<open>js_sort\<close>, their composition \<open>compute_filtered\<close>, \<open>getDaysRemaining\<close>
    (lines 121 to 126) and \<open>displayedTasks\<close> (line 197). The date parser, the clock and
    \<open>localeCompare\<close> are fields of a \<open>ViewEnv\<close> argument.
  \<^item> \<open>Mirror\<close>: when an in-memory list mirrors an object store (contained in it, or
    equal to it, with distinct keys), stated for any key path, with the lemmas that the
    store operations and the matching list updates keep a mirror.
  \<^item> \<open>Collection\<close>: \<open>Home\<close>'s \<open>useState\<close> hooks as the record \<open>HomeState\<close>, and
    \<open>App\<close> pairing it with the database. \<open>loadData\<close> and the six \<open>handle*\<close>
    handlers call the \<open>Db\<close> operations and update the state only on success, as the
    code does. The JSX wiring is the datatype \<open>event\<close> with \<open>dispatch\<close>, and
    \<open>home_step\<close> is one handler followed by the filtering effect. \<open>mount\<close> and
    \<open>run\<close> build sessions, and the inductive \<open>reachable\<close> holds the states reachable
    through the events \<open>ui_event\<close> admits.
  \<^item> \<open>Components\<close>: \<open>TaskItem\<close>, \<open>AddTaskModal\<close>, \<open>CategoryManager\<close>,
    \<open>SearchBar\<close>, \<open>LanguageToggle\<close> and \<open>ThemeToggle\<close>. Each has a record of
    its hooks and a step function on its inputs that returns the new state and the
    callbacks it invokes (\<open>intent\<close>). An input acts only when the JSX renders the
    control that receives it. \<open>intent_event\<close> maps a callback to the \<open>Collection\<close>
    event it triggers.
  \<^item> \<open>DataManagement\<close>: \<open>exportData\<close> reads both stores. \<open>importData\<close> runs the
    awaited loop \<open>add_each\<close> of \<open>Db.addTask\<close> and then of \<open>Db.addCategory\<close>.
    Call \<open>k\<close> of an import gets its storage outcome and clock reading from a request
    trace \<open>r k\<close>.
    \<open>dm_step\<close> is the component's two controls, the export button and the file
    input. A failed read exports an empty file without notice
    (\<open>export_failed_read_empty\<close>).
  \<^item> \<open>UseTasks\<close>: the localStorage hook of \<open>useTasks.ts\<close>. Its two effects run in
    React's order at mount (\<open>ut_mount\<close>), and each operation is followed by the
    persisting effect (\<open>ut_step\<close>).
  \<^item> \<open>Legacy\<close>: the components written for that hook. \<open>AddTask\<close> and
    \<open>CategoryList\<close> are step functions returning their callbacks, which
    \<open>legacy_deliver\<close> hands to the hook. \<open>TaskList\<close> is the render of \<open>TaskItem\<close>
    without its \<open>categories\<close> prop, which throws a \<open>TypeError\<close>
    (\<open>taskList_render_throws\<close>). The lemma \<open>deliver_titles_filled\<close> shows that the
    form gives the hook only tasks with a title.

  \<^bold>\<open>What is proved.\<close>
  \<^item> Store (\<open>Db\<close>, C1 to C6, C10):
    \<^item> the implementation refines the finite-map specification, errors included; its
      \<open>updateCategory\<close> case is the upsert the code performs (C1);
    \<^item> a successful \<open>addTask\<close> keeps every stored task and adds exactly one (C2);
    \<^item> two \<open>addTask\<close> calls in the same millisecond make the second fail with a
      \<open>ConstraintError\<close> (C3);
    \<^item> updating one field changes only that field (C4);
    \<^item> deleting a missing identifier is a no-op (C5);
    \<^item> \<open>updateTask\<close> fails exactly on a storage failure or a missing identifier (C6);
    \<^item> within the thirteen-digit clock bound, \<open>getAllTasks\<close> lists tasks in the order
      they were created (C10).
  \<^item> Projection (C7 to C9, C12 to C14):
    \<^item> with no active filter the displayed list ignores the chosen sort (C7);
    \<^item> the day sorts equal \<open>sort_key\<close> with undated tasks last when ascending and first
      when descending (C8, C9);
    \<^item> the search is a case-insensitive substring match with the untrimmed query (C12);
    \<^item> for every sort the projection holds exactly the tasks that pass the filters (C13);
    \<^item> the alphabetical sort is \<open>sort_key\<close> of the titles whenever \<open>localeCompare\<close>
      orders by a key (C14).
  \<^item> Collection (C11, C15 to C21):
    \<^item> every reachable state keeps the stores well formed and holds in memory only
      stored records with distinct identifiers; \<open>filteredTasks\<close> is then the
      projection of the state (C15, by rule induction);
    \<^item> after a successful load the memory equals the stores (C16);
    \<^item> a failed store call changes nothing (C17);
    \<^item> deleting the selected category clears the selection (C18) and keeps the tasks
      (C19);
    \<^item> in any consistent state, an edit whose payload carries another task's identifier
      leaves two tasks with that identifier in memory (C20);
    \<^item> a failed load cannot be told apart from loading a store without tasks (C21);
    \<^item> from every state some clock reading lets the user add a task, which is then
      stored and shown (C11, liveness).
  \<^item> Components (C22 to C28):
    \<^item> the modal submits only non-blank, open tasks (C22);
    \<^item> \<open>TaskItem\<close> and \<open>CategoryManager\<close> send only events the invariant of C15
      admits, which discharges its \<open>ui_event\<close> hypothesis (C23, C24);
    \<^item> \<open>TaskItem\<close> never refreshes its edit buffer from its prop (C25), so for any stored
      task a toggle followed by an unchanged save reverts the toggle (C26);
    \<^item> the editor stores whatever title is typed, blank included (C27);
    \<^item> a task whose category was deleted is shown without a category (C28).
  \<^item> Export and import (C29 to C32, C37, C38):
    \<^item> export followed by import restores every record up to identifiers (C29);
    \<^item> re-importing duplicates every record (C30);
    \<^item> imported categories get fresh identifiers while tasks keep the old references
      (C31);
    \<^item> when the \<open>k\<close>-th task call fails, the first \<open>k\<close> tasks stay stored (C32);
    \<^item> an import keeps \<open>Home\<close> consistent (C37), but a successful one is never shown by it
      (C38).
  \<^item> The localStorage hook (C33 to C36):
    \<^item> storage always equals the hook's state (C33), so a reload restores it (C34);
    \<^item> tasks added in the same millisecond share an identifier, and one delete removes
      them all (C35);
    \<^item> category names stay distinct (C36).

  \<^bold>\<open>Loops, clocks and bounds.\<close>
  \<^item> Every loop of the code is over a finite list and is a structural recursion
    (\<open>add_each\<close>, \<open>js_insort\<close>, \<open>js_trim\<close>) or a library fold (\<open>run\<close>, \<open>ut_run\<close>).
    No fuel is needed, and every definition is total.
  \<^item> \<open>Date.now()\<close> is an argument of each operation that reads it.
  \<^item> Identifiers are compared as the decimal strings the code builds from the clock,
    and \<open>dec_string\<close> is shown injective.
  \<^item> For readings of the same number of digits, the decimal strings order like the
    readings (\<open>dec_string_window\<close>); readings from \<open>10\<^sup>1\<^sup>2\<close> to
    \<open>10\<^sup>1\<^sup>3\<close> ms (2001 to 2286) cover every real clock. Beyond that the
    order breaks (\<open>dec_string_rollover\<close>).
  \<^item> Numbers in the comparators are integers with the two infinities and NaN
    (\<open>jsnum\<close>). Day counts are far below 2^53, so the model does not need JavaScript's
    double rounding.

  \<^bold>\<open>Not modelled.\<close>
  \<^item> Rendering, styling and animation (JSX markup, framer-motion).
  \<^item> \<open>layout.tsx\<close> (fonts and metadata).
  \<^item> The translation tables (\<open>lib/translations\<close>, not in the repository).
  \<^item> JSON text: the import takes the parsed payload, and a parse error is
    \<open>Malformed\<close>.
  \<^item> The file dialog and the \<open>Blob\<close> download of the export.
  \<^item> React's scheduling: handlers complete one at a time, as the specification
    assumes (section 5).
\<close>

section \<open>Properties across components\<close>

abbreviation mounted :: App where
  "mounted \<equiv> mount demo_env Committed Committed milk_db"

lemmas scenario_eval = home_step_def mount_def loadData_def Let_def handleEditTask_def
  updateTask_def os_get_def os_put_def with_task_id_def full_patch_def merge_task_def
  task_lookup_def os_lookup_def getAllTasks_def os_getAll_def

text \<open>
  C23. The interface between \<open>TaskItem\<close> and \<open>Home\<close>: every callback a mounted task item
  invokes, whatever the storage outcome and clock, is an event of the kind the
  consistency invariant of \<open>Collection\<close> admits (an edit payload carries the item's
  own identifier).
\<close>

theorem taskItem_intents_ui:
  assumes "item_reachable (task_id task) s" and "taskItem_step task s inp = (s', out)"
    and "ev \<in> set out"
  shows "ui_event (intent_event io now ev)"
proof -
  from assms(1) have "task_id (editedTask s) = task_id task" by (rule item_reachable_id)
  with item_intents [OF assms(2,3)] show ?thesis by auto
qed

theorem taskItem_intents_ui_witness:
  "item_reachable ''7'' (taskItem_mount milk7) \<and>
   taskItem_step milk7 (taskItem_mount milk7) ItemToggle =
     (taskItem_mount milk7, [IEditTask ''7'' (full_patch (milk7\<lparr>completed := True\<rparr>))]) \<and>
   ui_event (intent_event Committed 0 (IEditTask ''7'' (full_patch (milk7\<lparr>completed := True\<rparr>))))"
proof -
  have r: "item_reachable (task_id milk7) (taskItem_mount milk7)"
    by (rule item_reachable.mount) simp
  have e: "taskItem_step milk7 (taskItem_mount milk7) ItemToggle =
     (taskItem_mount milk7, [IEditTask ''7'' (full_patch (milk7\<lparr>completed := True\<rparr>))])"
    by (simp add: taskItem_mount_def with_task_id_def)
  have m: "IEditTask ''7'' (full_patch (milk7\<lparr>completed := True\<rparr>)) \<in>
      set [IEditTask ''7'' (full_patch (milk7\<lparr>completed := True\<rparr>))]" by simp
  from r e taskItem_intents_ui [OF r e m, of Committed 0] show ?thesis
    by (simp add: with_task_id_def)
qed

text \<open>
  C24. The interface between \<open>CategoryManager\<close> and \<open>Home\<close>: every callback it
  invokes is an admissible event, and a category it adds carries the trimmed, non-blank
  name that was typed.
\<close>

theorem catmgr_intents_ui:
  assumes "catmgr_step s inp = (s', out)" and "ev \<in> set out"
  shows "ui_event (intent_event io now ev) \<and>
    (\<forall>c. ev = IAddCategory c \<longrightarrow> name c = js_trim (newCategoryName s) \<and> name c \<noteq> [])"
  using catmgr_intents [OF assms] by (auto simp: no_category_patch_def)

theorem catmgr_intents_ui_witness:
  "catmgr_step (catmgr_mount\<lparr>isAdding := True, newCategoryName := '' Work ''\<rparr>) CmSubmit =
     (catmgr_mount, [IAddCategory \<lparr>name = ''Work'', color = Red\<rparr>]) \<and>
   ui_event (intent_event Committed 9 (IAddCategory \<lparr>name = ''Work'', color = Red\<rparr>)) \<and>
   name \<lparr>name = ''Work'', color = Red\<rparr> = js_trim '' Work ''"
proof -
  have e: "catmgr_step (catmgr_mount\<lparr>isAdding := True, newCategoryName := '' Work ''\<rparr>) CmSubmit =
     (catmgr_mount, [IAddCategory \<lparr>name = ''Work'', color = Red\<rparr>])"
    by (simp add: catmgr_mount_def js_trim_def is_js_space_def)
  have m: "IAddCategory \<lparr>name = ''Work'', color = Red\<rparr> \<in> set [IAddCategory \<lparr>name = ''Work'', color = Red\<rparr>]"
    by simp
  from e catmgr_intents_ui [OF e m, of Committed 9] show ?thesis by simp
qed

text \<open>
  C25. A task item never reads its \<open>task\<close> prop into its edit buffer: the state an
  input leads to is the same whatever the prop, so \<open>editedTask\<close> stays the snapshot
  taken at mount, updated only by the item's own edit fields.
\<close>

theorem taskItem_state_ignores_prop:
  "fst (taskItem_step task s inp) = fst (taskItem_step task' s inp)"
  by (cases inp) simp_all

lemma edit_full_patch:
  assumes "task_lookup (db a) (task_id y) \<noteq> None"
  shows "task_lookup (db (home_step env a (EvEditTask Committed (task_id y) (full_patch y)))) =
    (task_lookup (db a))(task_id y \<mapsto> y)"
  using assms
  by (auto simp: home_step_def handleEditTask_def updateTask_def task_lookup_def os_get_lookup
      os_lookup_put Let_def)

text \<open>
  C26. Consequence through \<open>Home\<close> and the store, for any stored task. Completing the
  task with its toggle and then opening and saving its editor without changing anything
  writes the stale snapshot back, so the stored task has its old status again.
\<close>

theorem stale_edit_reverts_toggle:
  assumes "task_lookup (db a) (task_id t) = Some t"
  shows "taskItem_step t (taskItem_mount t) ItemToggle =
      (taskItem_mount t, [IEditTask (task_id t) (full_patch (t\<lparr>completed := \<not> completed t\<rparr>))]) \<and>
    task_lookup (db (home_step env a (EvEditTask Committed (task_id t) (full_patch (t\<lparr>completed := \<not> completed t\<rparr>)))))
      (task_id t) = Some (t\<lparr>completed := \<not> completed t\<rparr>) \<and>
    taskItem_step (t\<lparr>completed := \<not> completed t\<rparr>) (taskItem_mount t) ItemStartEdit =
      (\<lparr>isEditing = True, editedTask = t\<rparr>, []) \<and>
    taskItem_step (t\<lparr>completed := \<not> completed t\<rparr>) \<lparr>isEditing = True, editedTask = t\<rparr> ItemSave =
      (\<lparr>isEditing = False, editedTask = t\<rparr>, [IEditTask (task_id t) (full_patch t)]) \<and>
    task_lookup (db (home_step env
        (home_step env a (EvEditTask Committed (task_id t) (full_patch (t\<lparr>completed := \<not> completed t\<rparr>))))
        (EvEditTask Committed (task_id t) (full_patch t)))) (task_id t) = Some t"
proof -
  let ?t1 = "t\<lparr>completed := \<not> completed t\<rparr>"
  let ?a1 = "home_step env a (EvEditTask Committed (task_id t) (full_patch ?t1))"
  have id1: "task_id ?t1 = task_id t" by simp
  from assms have "task_lookup (db a) (task_id ?t1) \<noteq> None" by simp
  from edit_full_patch [OF this, of env] have l1: "task_lookup (db ?a1) = (task_lookup (db a))(task_id t \<mapsto> ?t1)"
    by simp
  then have "task_lookup (db ?a1) (task_id t) \<noteq> None" by simp
  from edit_full_patch [OF this, of env] have
    "task_lookup (db (home_step env ?a1 (EvEditTask Committed (task_id t) (full_patch t)))) (task_id t) = Some t"
    by simp
  with l1 show ?thesis by (simp add: taskItem_mount_def)
qed

theorem stale_edit_reverts_toggle_witness:
  "task_lookup (db mounted) (task_id milk7) = Some milk7 \<and>
   task_lookup (db (home_step demo_env
       (home_step demo_env mounted (EvEditTask Committed (task_id milk7) (full_patch (milk7\<lparr>completed := \<not> completed milk7\<rparr>))))
       (EvEditTask Committed (task_id milk7) (full_patch milk7)))) (task_id milk7) = Some milk7"
proof -
  have h: "task_lookup (db mounted) (task_id milk7) = Some milk7"
    by (simp add: mount_def loadData_def Let_def task_lookup_def os_lookup_def with_task_id_def)
  from h stale_edit_reverts_toggle [OF h, of demo_env] show ?thesis by simp
qed

text \<open>
  C27. The editor of a task item does not validate. Whatever title is typed, blank
  included, saving sends it, and \<open>Home\<close> stores it for the item's task. The
  specification rejects an empty title, and the add-task modal does refuse one (C22).
\<close>

theorem edit_stores_blank_title:
  assumes "task_lookup (db a) (task_id t) \<noteq> None" and "task_id e = task_id t"
  shows "taskItem_step t \<lparr>isEditing = True, editedTask = e\<rparr> (ItemSetTitle v) =
      (\<lparr>isEditing = True, editedTask = e\<lparr>title := v\<rparr>\<rparr>, []) \<and>
    taskItem_step t \<lparr>isEditing = True, editedTask = e\<lparr>title := v\<rparr>\<rparr> ItemSave =
      (\<lparr>isEditing = False, editedTask = e\<lparr>title := v\<rparr>\<rparr>, [IEditTask (task_id t) (full_patch (e\<lparr>title := v\<rparr>))]) \<and>
    task_lookup (db (home_step env a (EvEditTask Committed (task_id t) (full_patch (e\<lparr>title := v\<rparr>)))))
      (task_id t) = Some (e\<lparr>title := v\<rparr>)"
proof -
  from assms have "task_lookup (db a) (task_id (e\<lparr>title := v\<rparr>)) \<noteq> None" by simp
  from edit_full_patch [OF this, of env] assms(2) show ?thesis by simp
qed

theorem edit_stores_blank_title_witness:
  "task_lookup (db mounted) (task_id milk7) \<noteq> None \<and> task_id milk7 = task_id milk7 \<and>
   task_lookup (db (home_step demo_env mounted (EvEditTask Committed (task_id milk7) (full_patch (milk7\<lparr>title := []\<rparr>)))))
     (task_id milk7) = Some (milk7\<lparr>title := []\<rparr>)"
proof -
  have h: "task_lookup (db mounted) (task_id milk7) \<noteq> None"
    by (simp add: mount_def loadData_def Let_def task_lookup_def os_lookup_def with_task_id_def)
  have e: "task_id milk7 = task_id milk7" by (rule refl)
  from h e edit_stores_blank_title [OF h e, of "[]" demo_env] show ?thesis by simp
qed

text \<open>
  C28. After a category is deleted, a task that still refers to it is rendered with no
  category: \<open>TaskItem\<close>'s lookup in the updated category list finds nothing.
\<close>

theorem deleted_category_shown_as_none:
  assumes "category t = i"
  shows "category_shown (categories (home (home_step env a (EvDeleteCategory Committed i)))) t = None"
  using assms
  by (simp add: category_shown_def home_step_def handleDeleteCategory_def deleteCategory_def
      Let_def drop_key_def filter_effect_def find_None_iff)

theorem deleted_category_shown_as_none_witness:
  "category (milk7\<lparr>category := ''9''\<rparr>) = ''9'' \<and>
   category_shown (categories (home (home_step demo_env mounted (EvDeleteCategory Committed ''9''))))
     (milk7\<lparr>category := ''9''\<rparr>) = None"
proof -
  have h: "category (milk7\<lparr>category := ''9''\<rparr>) = ''9''" by simp
  from h deleted_category_shown_as_none [OF h, of demo_env mounted] show ?thesis by (intro conjI)
qed

text \<open>
  C37. An import through \<open>DataManagement\<close> cannot break the consistency of \<open>Home\<close>:
  whatever the file and however the calls end, the stores stay well formed and still
  hold every record \<open>Home\<close> shows, since the import only adds records.
\<close>

theorem import_keeps_consistent:
  assumes "consistent env a" and "importData r f (db a) s = (d', s')"
  shows "consistent env (a\<lparr>db := d'\<rparr>)"
proof -
  from importData_grows [OF assms(2)] have g: "grows (db a) d'" .
  with assms(1) show ?thesis
    by (auto simp: consistent_def grows_def intro: mirrors_mono)
qed

theorem import_keeps_consistent_witness:
  "consistent demo_env mounted \<and>
   importData (\<lambda>j. (Committed, 5 + j)) (Some (Parsed (Some [rent8]) (Some []))) (db mounted) dm_mount =
     (\<lparr>store_tasks = [with_task_id pay_rent ''5'', milk7], store_categories = []\<rparr>,
      \<lparr>importStatus = ''Data imported successfully''\<rparr>) \<and>
   consistent demo_env (mounted\<lparr>db := \<lparr>store_tasks = [with_task_id pay_rent ''5'', milk7], store_categories = []\<rparr>\<rparr>)"
proof -
  have c: "consistent demo_env mounted" using db_wf_milk by (rule mount_consistent)
  have i: "importData (\<lambda>j. (Committed, 5 + j)) (Some (Parsed (Some [rent8]) (Some []))) (db mounted) dm_mount =
     (\<lparr>store_tasks = [with_task_id pay_rent ''5'', milk7], store_categories = []\<rparr>,
      \<lparr>importStatus = ''Data imported successfully''\<rparr>)"
    by (simp add: dm_eval mount_def loadData_def dm_mount_def)
  from c i import_keeps_consistent [OF c i] show ?thesis by (intro conjI)
qed



end
